theory Spec2Isabelle
  imports Main "HOL-Library.Word" "HOL-Library.Char_ord" "HOL-Library.List_Lexorder"
    "HOL-Library.Multiset"
begin

section \<open>Data model of tsdb/index/tsi1/index_files.go\<close>

text \<open>
  A Go \<^verbatim>\<open>[]byte\<close> is a list of bytes; \<^verbatim>\<open>bytes.Compare\<close> orders such lists
  lexicographically by unsigned byte value, which is the order of lists of characters
  here.  \<^verbatim>\<open>int64\<close> and \<^verbatim>\<open>uint64\<close> are 64-bit words: \<open>+\<close> and \<open>-\<close> wrap around,
  \<open><s\<close> is the signed comparison of \<^verbatim>\<open>int64\<close>, \<open><\<close> the unsigned one of \<^verbatim>\<open>uint64\<close>.
\<close>

type_synonym bytes = string
type_synonym int64 = "64 word"
type_synonym uint64 = "64 word"
type_synonym Tags = "(bytes \<times> bytes) list"

text \<open>Go \<^verbatim>\<open>error\<close> values; \<^verbatim>\<open>nil\<close> is \<open>None\<close> of \<open>error option\<close>.\<close>

datatype error = ErrNotExist | ErrOther string

text \<open>
  The entries the iterators yield.  In the source they are interfaces read through
  \<^verbatim>\<open>Name()\<close>, \<^verbatim>\<open>Tags()\<close>, \<^verbatim>\<open>Deleted()\<close>, \<^verbatim>\<open>Key()\<close>, \<^verbatim>\<open>Value()\<close> and
  \<^verbatim>\<open>TagValueIterator()\<close>.  An iterator is the finite list of the entries its successive
  \<^verbatim>\<open>Next()\<close> calls return before \<^verbatim>\<open>nil\<close>; a \<^verbatim>\<open>nil\<close> iterator is \<open>None\<close>.
\<close>

record MeasurementElem =
  m_Name :: bytes
  m_Deleted :: bool

record TagValueElem =
  v_Value :: bytes
  v_Deleted :: bool

record TagKeyElem =
  k_Key :: bytes
  k_Deleted :: bool
  k_TagValueIterator :: "TagValueElem list"

record SeriesElem =
  s_Name :: bytes
  s_Tags :: Tags
  s_Deleted :: bool

text \<open>
  \<^verbatim>\<open>*IndexFile\<close>: the type is declared outside this file; the methods this file calls
  on it are the fields.
\<close>

record IndexFile =
  ID :: int
  Path :: string
  File_MeasurementIterator :: "MeasurementElem list option"
  File_TagKeyIterator :: "bytes \<Rightarrow> TagKeyElem list option"
  File_SeriesIterator :: "SeriesElem list option"
  File_MeasurementSeriesIterator :: "bytes \<Rightarrow> SeriesElem list option"
  File_TagValueSeriesIterator :: "bytes \<Rightarrow> bytes \<Rightarrow> bytes \<Rightarrow> SeriesElem list option"

type_synonym IndexFiles = "IndexFile list"

text \<open>\<^verbatim>\<open>os.FileInfo\<close> as far as \<^verbatim>\<open>Stat\<close> reads it; a \<^verbatim>\<open>time.Time\<close> is an instant counted
  from the zero \<^verbatim>\<open>Time\<close>, and \<^verbatim>\<open>a.After(b)\<close> is \<open>b < a\<close>.\<close>

type_synonym Time = int

record FileInfo =
  fi_Size :: int64
  fi_ModTime :: Time

record IndexFilesInfo =
  MaxSize :: int64
  Size :: int64
  ModTime :: Time

text \<open>The buffered writer \<^verbatim>\<open>bw\<close> that \<^verbatim>\<open>WriteTo\<close> wraps around the sink: the bytes it has
  accepted so far, in order; the prefix of them that an explicit, successful \<^verbatim>\<open>Flush\<close> has
  handed to the sink; and the state of the sink behind it, which decides which writes fail.\<close>

record 'd Writer =
  w_out :: bytes
  w_flushed :: bytes
  w_dev :: 'd

record indexTagSetPos =
  pos_offset :: int64
  pos_size :: int64

record 'senc indexCompactInfo =
  info_enc :: "'senc option"
  info_tagSets :: "bytes \<rightharpoonup> indexTagSetPos"

record BlockPos =
  bp_Offset :: int64
  bp_Size :: int64

record IndexFileTrailer =
  SeriesBlock :: BlockPos
  MeasurementBlock :: BlockPos

text \<open>What the three passes share through pointers: the writer \<^verbatim>\<open>w\<close>, the compaction
  context \<^verbatim>\<open>info\<close> and the byte counter \<^verbatim>\<open>n\<close>.\<close>

record ('senc, 'd) cstate =
  st_w :: "'d Writer"
  st_info :: "'senc indexCompactInfo"
  st_n :: int64

text \<open>A call either returns or panics.  Both \<^verbatim>\<open>panic\<close> calls of the file format the
  name and tags of the series whose identifier lookup gave zero.\<close>

datatype panic = ExpectedSeriesID bytes Tags | NilPointerDereference

datatype 'a outcome = Return 'a | Panic panic

section \<open>Collaborators declared outside this file\<close>

text \<open>
  The functions and methods the file calls but does not define, as parameters.  Every
  operation that writes to \<^verbatim>\<open>w\<close> is given the state of the sink and returns the bytes the
  buffered writer accepted during the call, the \<^verbatim>\<open>error\<close> of the call and the new state of
  the sink (an \<^verbatim>\<open>io.Writer\<close> can only be appended to).  The counts the encoders report
  (\<^verbatim>\<open>N()\<close>, the \<^verbatim>\<open>int64\<close> results of the \<^verbatim>\<open>WriteTo\<close> methods, what \<^verbatim>\<open>writeTo\<close> adds to
  \<^verbatim>\<open>*n\<close>) are results of their own.
\<close>

record ('senc, 'tenc, 'mw, 'd) Collab =
  MergeMeasurementIterators :: "MeasurementElem list list \<Rightarrow> MeasurementElem list"
  MergeTagKeyIterators :: "TagKeyElem list list \<Rightarrow> TagKeyElem list"
  MergeSeriesIterators :: "SeriesElem list list \<Rightarrow> SeriesElem list"
  os_Stat :: "string \<Rightarrow> error + FileInfo"
  FileSignature :: bytes
  writeTo :: "bytes \<Rightarrow> 'd \<Rightarrow> bytes \<times> int64 \<times> error option \<times> 'd"
  AppendSeriesKey :: "bytes \<Rightarrow> Tags \<Rightarrow> bytes"
  NewSeriesBlockEncoder :: "'senc"
  SeriesBlockEncoder_Encode ::
    "'senc \<Rightarrow> bytes \<Rightarrow> Tags \<Rightarrow> bool \<Rightarrow> 'd \<Rightarrow> bytes \<times> error option \<times> 'senc \<times> 'd"
  SeriesBlockEncoder_Close :: "'senc \<Rightarrow> 'd \<Rightarrow> bytes \<times> error option \<times> 'senc \<times> 'd"
  SeriesBlockEncoder_N :: "'senc \<Rightarrow> int64"
  SeriesBlockEncoder_Offset :: "'senc \<Rightarrow> bytes \<Rightarrow> uint64"
  NewTagBlockEncoder :: "'tenc"
  TagBlockEncoder_EncodeKey ::
    "'tenc \<Rightarrow> bytes \<Rightarrow> bool \<Rightarrow> 'd \<Rightarrow> bytes \<times> error option \<times> 'tenc \<times> 'd"
  TagBlockEncoder_EncodeValue ::
    "'tenc \<Rightarrow> bytes \<Rightarrow> bool \<Rightarrow> uint64 list \<Rightarrow> 'd \<Rightarrow> bytes \<times> error option \<times> 'tenc \<times> 'd"
  TagBlockEncoder_Close :: "'tenc \<Rightarrow> 'd \<Rightarrow> bytes \<times> error option \<times> 'tenc \<times> 'd"
  TagBlockEncoder_N :: "'tenc \<Rightarrow> int64"
  NewMeasurementBlockWriter :: "'mw"
  MeasurementBlockWriter_Add ::
    "'mw \<Rightarrow> bytes \<Rightarrow> bool \<Rightarrow> int64 \<Rightarrow> int64 \<Rightarrow> uint64 list \<Rightarrow> 'mw"
  MeasurementBlockWriter_WriteTo :: "'mw \<Rightarrow> 'd \<Rightarrow> bytes \<times> int64 \<times> error option \<times> 'd"
  IndexFileTrailer_WriteTo :: "IndexFileTrailer \<Rightarrow> 'd \<Rightarrow> bytes \<times> int64 \<times> error option \<times> 'd"
  bufio_Flush :: "'d \<Rightarrow> error option \<times> 'd"

section \<open>The collection: merge-iterator constructors, names, statistics\<close>

text \<open>The loop shared by the five constructors: call the file's factory, skip a \<^verbatim>\<open>nil\<close>
  iterator, append any other to \<^verbatim>\<open>a\<close>.\<close>

fun appendNonNil :: "('f \<Rightarrow> 'i option) \<Rightarrow> 'f list \<Rightarrow> 'i list \<Rightarrow> 'i list" where
  "appendNonNil g [] a = a"
| "appendNonNil g (f # fs) a =
     (case g f of
        None \<Rightarrow> appendNonNil g fs a
      | Some itr \<Rightarrow> appendNonNil g fs (a @ [itr]))"

definition MeasurementIterator ::
  "('senc, 'tenc, 'mw, 'd) Collab \<Rightarrow> IndexFiles \<Rightarrow> MeasurementElem list" where
  "MeasurementIterator c p =
     MergeMeasurementIterators c (appendNonNil File_MeasurementIterator p [])"

definition TagKeyIterator ::
  "('senc, 'tenc, 'mw, 'd) Collab \<Rightarrow> IndexFiles \<Rightarrow> bytes \<Rightarrow> TagKeyElem list \<times> error option" where
  "TagKeyIterator c p name =
     (MergeTagKeyIterators c (appendNonNil (\<lambda>f. File_TagKeyIterator f name) p []), None)"

definition SeriesIterator ::
  "('senc, 'tenc, 'mw, 'd) Collab \<Rightarrow> IndexFiles \<Rightarrow> SeriesElem list" where
  "SeriesIterator c p = MergeSeriesIterators c (appendNonNil File_SeriesIterator p [])"

definition MeasurementSeriesIterator ::
  "('senc, 'tenc, 'mw, 'd) Collab \<Rightarrow> IndexFiles \<Rightarrow> bytes \<Rightarrow> SeriesElem list" where
  "MeasurementSeriesIterator c p name =
     MergeSeriesIterators c (appendNonNil (\<lambda>f. File_MeasurementSeriesIterator f name) p [])"

definition TagValueSeriesIterator ::
  "('senc, 'tenc, 'mw, 'd) Collab \<Rightarrow> IndexFiles \<Rightarrow> bytes \<Rightarrow> bytes \<Rightarrow> bytes \<Rightarrow> SeriesElem list" where
  "TagValueSeriesIterator c p name key val =
     MergeSeriesIterators c
       (appendNonNil (\<lambda>f. File_TagValueSeriesIterator f name key val) p [])"

text \<open>\<^verbatim>\<open>MeasurementNames\<close>: append a copy of every name the merged iterator yields, then
  \<^verbatim>\<open>sort.Sort(byteSlices(names))\<close>.\<close>

fun appendNames :: "MeasurementElem list \<Rightarrow> bytes list \<Rightarrow> bytes list" where
  "appendNames [] names = names"
| "appendNames (e # itr) names = appendNames itr (names @ [m_Name e])"

definition MeasurementNames ::
  "('senc, 'tenc, 'mw, 'd) Collab \<Rightarrow> IndexFiles \<Rightarrow> bytes list" where
  "MeasurementNames c p = sort (appendNames (MeasurementIterator c p) [])"

text \<open>\<^verbatim>\<open>Stat\<close>: \<^verbatim>\<open>os.Stat\<close> returns a \<^verbatim>\<open>FileInfo\<close> or an error; \<^verbatim>\<open>os.IsNotExist\<close>
  recognises the not-found error.  The result is the info record with a \<^verbatim>\<open>nil\<close> error, or a
  \<^verbatim>\<open>nil\<close> record with the error.\<close>

definition os_IsNotExist :: "error \<Rightarrow> bool" where
  "os_IsNotExist err = (err = ErrNotExist)"

fun statLoop ::
  "('senc, 'tenc, 'mw, 'd) Collab \<Rightarrow> IndexFiles \<Rightarrow> IndexFilesInfo \<Rightarrow> error + IndexFilesInfo" where
  "statLoop c [] info = Inr info"
| "statLoop c (f # fs) info =
     (case os_Stat c (Path f) of
        Inl err \<Rightarrow> if os_IsNotExist err then statLoop c fs info else Inl err
      | Inr fi \<Rightarrow>
          (let info1 = (if MaxSize info <s fi_Size fi then info\<lparr>MaxSize := fi_Size fi\<rparr> else info);
               info2 = (if ModTime info1 < fi_ModTime fi
                        then info1\<lparr>ModTime := fi_ModTime fi\<rparr> else info1)
           in statLoop c fs (info2\<lparr>Size := Size info2 + fi_Size fi\<rparr>)))"

definition Stat :: "('senc, 'tenc, 'mw, 'd) Collab \<Rightarrow> IndexFiles \<Rightarrow> error + IndexFilesInfo" where
  "Stat c p = statLoop c p \<lparr>MaxSize = 0, Size = 0, ModTime = 0\<rparr>"

section \<open>The compaction writer\<close>

text \<open>A collaborator's write: the accepted bytes go to the end of the stream.\<close>

definition emit :: "'d Writer \<Rightarrow> bytes \<Rightarrow> 'd \<Rightarrow> 'd Writer" where
  "emit w bs d = w\<lparr>w_out := w_out w @ bs, w_dev := d\<rparr>"

text \<open>\<^verbatim>\<open>bufio.NewWriter(w)\<close> starts with nothing accepted; \<^verbatim>\<open>bw.Flush()\<close> hands every
  accepted byte to the sink, or fails.\<close>

definition bufio_NewWriter :: "'d \<Rightarrow> 'd Writer" where
  "bufio_NewWriter d = \<lparr>w_out = [], w_flushed = [], w_dev = d\<rparr>"

definition Flush :: "('senc, 'tenc, 'mw, 'd) Collab \<Rightarrow> 'd Writer \<Rightarrow> error option \<times> 'd Writer" where
  "Flush c w =
     (case bufio_Flush c (w_dev w) of
        (Some err, d) \<Rightarrow> (Some err, w\<lparr>w_dev := d\<rparr>)
      | (None, d) \<Rightarrow> (None, w\<lparr>w_flushed := w_out w, w_dev := d\<rparr>))"

text \<open>The lookup loop of passes 2 and 3 (lines 229-236 and 277-284):
  \<^verbatim>\<open>info.enc.Offset(AppendSeriesKey(seriesKey[:0], e.Name(), e.Tags()))\<close>, a panic on
  zero, otherwise appended to \<^verbatim>\<open>seriesIDs\<close>.\<close>

fun lookupSeriesIDs ::
  "('senc, 'tenc, 'mw, 'd) Collab \<Rightarrow> 'senc indexCompactInfo \<Rightarrow> SeriesElem list \<Rightarrow>
     uint64 list \<Rightarrow> uint64 list outcome" where
  "lookupSeriesIDs c info [] seriesIDs = Return seriesIDs"
| "lookupSeriesIDs c info (se # sitr) seriesIDs =
     (let seriesKey = AppendSeriesKey c (s_Name se) (s_Tags se) in
      case info_enc info of
        None \<Rightarrow> Panic NilPointerDereference
      | Some enc \<Rightarrow>
          (let seriesID = SeriesBlockEncoder_Offset c enc seriesKey in
           if seriesID = 0 then Panic (ExpectedSeriesID (s_Name se) (s_Tags se))
           else lookupSeriesIDs c info sitr (seriesIDs @ [seriesID])))"

text \<open>Pass 1, \<^verbatim>\<open>writeSeriesBlockTo\<close>: the loop over the merged series, then \<^verbatim>\<open>Close\<close>.\<close>

fun encodeSeries ::
  "('senc, 'tenc, 'mw, 'd) Collab \<Rightarrow> SeriesElem list \<Rightarrow> 'senc \<Rightarrow> 'd Writer \<Rightarrow>
     error option \<times> 'senc \<times> 'd Writer" where
  "encodeSeries c [] enc w = (None, enc, w)"
| "encodeSeries c (e # itr) enc w =
     (case SeriesBlockEncoder_Encode c enc (s_Name e) (s_Tags e) (s_Deleted e) (w_dev w) of
        (bs, Some err, enc1, d) \<Rightarrow> (Some err, enc1, emit w bs d)
      | (bs, None, enc1, d) \<Rightarrow> encodeSeries c itr enc1 (emit w bs d))"

definition writeSeriesBlockTo ::
  "('senc, 'tenc, 'mw, 'd) Collab \<Rightarrow> IndexFiles \<Rightarrow> ('senc, 'd) cstate \<Rightarrow>
     error option \<times> ('senc, 'd) cstate" where
  "writeSeriesBlockTo c p st =
     (let itr = SeriesIterator c p;
          enc = NewSeriesBlockEncoder c
      in case encodeSeries c itr enc (st_w st) of
        (Some err, enc1, w1) \<Rightarrow> (Some err, st\<lparr>st_w := w1\<rparr>)
      | (None, enc1, w1) \<Rightarrow>
          (case SeriesBlockEncoder_Close c enc1 (w_dev w1) of
             (bs, err, enc2, d) \<Rightarrow>
               (let st2 = st\<lparr>st_w := emit w1 bs d,
                             st_n := st_n st + SeriesBlockEncoder_N c enc2\<rparr>
                in case err of
                  Some e \<Rightarrow> (Some e, st2)
                | None \<Rightarrow> (None, st2\<lparr>st_info := (st_info st2)\<lparr>info_enc := Some enc2\<rparr>\<rparr>))))"

text \<open>Pass 2, \<^verbatim>\<open>writeTagsetTo\<close>: the loop over the tag values of one key, the loop over
  the tag keys of one measurement, then the position bookkeeping around \<^verbatim>\<open>Close\<close>.\<close>

fun encodeTagValues ::
  "('senc, 'tenc, 'mw, 'd) Collab \<Rightarrow> IndexFiles \<Rightarrow> 'senc indexCompactInfo \<Rightarrow> bytes \<Rightarrow> bytes \<Rightarrow>
     TagValueElem list \<Rightarrow> 'tenc \<Rightarrow> 'd Writer \<Rightarrow> (error option \<times> 'tenc \<times> 'd Writer) outcome" where
  "encodeTagValues c p info name key [] enc w = Return (None, enc, w)"
| "encodeTagValues c p info name key (ve # vitr) enc w =
     (let sitr = TagValueSeriesIterator c p name key (v_Value ve) in
      case lookupSeriesIDs c info sitr [] of
        Panic x \<Rightarrow> Panic x
      | Return seriesIDs \<Rightarrow>
          (case TagBlockEncoder_EncodeValue c enc (v_Value ve) (v_Deleted ve)
                  (sort seriesIDs) (w_dev w) of
             (bs, Some err, enc1, d) \<Rightarrow> Return (Some err, enc1, emit w bs d)
           | (bs, None, enc1, d) \<Rightarrow> encodeTagValues c p info name key vitr enc1 (emit w bs d)))"

fun encodeTagKeys ::
  "('senc, 'tenc, 'mw, 'd) Collab \<Rightarrow> IndexFiles \<Rightarrow> 'senc indexCompactInfo \<Rightarrow> bytes \<Rightarrow>
     TagKeyElem list \<Rightarrow> 'tenc \<Rightarrow> 'd Writer \<Rightarrow> (error option \<times> 'tenc \<times> 'd Writer) outcome" where
  "encodeTagKeys c p info name [] enc w = Return (None, enc, w)"
| "encodeTagKeys c p info name (ke # kitr) enc w =
     (case TagBlockEncoder_EncodeKey c enc (k_Key ke) (k_Deleted ke) (w_dev w) of
        (bs, Some err, enc1, d) \<Rightarrow> Return (Some err, enc1, emit w bs d)
      | (bs, None, enc1, d) \<Rightarrow>
          (case encodeTagValues c p info name (k_Key ke) (k_TagValueIterator ke) enc1
                  (emit w bs d) of
             Panic x \<Rightarrow> Panic x
           | Return (Some err, enc2, w2) \<Rightarrow> Return (Some err, enc2, w2)
           | Return (None, enc2, w2) \<Rightarrow> encodeTagKeys c p info name kitr enc2 w2))"

text \<open>Reading a Go map at a missing key gives the zero value.\<close>

definition tagSetsAt :: "'senc indexCompactInfo \<Rightarrow> bytes \<Rightarrow> indexTagSetPos" where
  "tagSetsAt info name =
     (case info_tagSets info name of
        None \<Rightarrow> \<lparr>pos_offset = 0, pos_size = 0\<rparr>
      | Some pos \<Rightarrow> pos)"

definition writeTagsetTo ::
  "('senc, 'tenc, 'mw, 'd) Collab \<Rightarrow> IndexFiles \<Rightarrow> bytes \<Rightarrow> ('senc, 'd) cstate \<Rightarrow>
     (error option \<times> ('senc, 'd) cstate) outcome" where
  "writeTagsetTo c p name st =
     (case TagKeyIterator c p name of
        (kitr, Some err) \<Rightarrow> Return (Some err, st)
      | (kitr, None) \<Rightarrow>
          (let enc = NewTagBlockEncoder c
           in case encodeTagKeys c p (st_info st) name kitr enc (st_w st) of
             Panic x \<Rightarrow> Panic x
           | Return (Some err, enc1, w1) \<Rightarrow> Return (Some err, st\<lparr>st_w := w1\<rparr>)
           | Return (None, enc1, w1) \<Rightarrow>
               (let pos = tagSetsAt (st_info st) name;
                    pos1 = pos\<lparr>pos_offset := st_n st\<rparr>
                in case TagBlockEncoder_Close c enc1 (w_dev w1) of
                  (bs, err, enc2, d) \<Rightarrow>
                    (let st2 = st\<lparr>st_w := emit w1 bs d,
                                  st_n := st_n st + TagBlockEncoder_N c enc2\<rparr>
                     in case err of
                       Some e \<Rightarrow> Return (Some e, st2)
                     | None \<Rightarrow>
                         (let pos2 = pos1\<lparr>pos_size := st_n st2 - pos_offset pos1\<rparr>
                          in Return (None, st2\<lparr>st_info := (st_info st2)
                               \<lparr>info_tagSets := (info_tagSets (st_info st2))(name \<mapsto> pos2)\<rparr>\<rparr>))))))"

fun writeTagsetsLoop ::
  "('senc, 'tenc, 'mw, 'd) Collab \<Rightarrow> IndexFiles \<Rightarrow> MeasurementElem list \<Rightarrow> ('senc, 'd) cstate \<Rightarrow>
     (error option \<times> ('senc, 'd) cstate) outcome" where
  "writeTagsetsLoop c p [] st = Return (None, st)"
| "writeTagsetsLoop c p (m # mitr) st =
     (case writeTagsetTo c p (m_Name m) st of
        Panic x \<Rightarrow> Panic x
      | Return (Some err, st1) \<Rightarrow> Return (Some err, st1)
      | Return (None, st1) \<Rightarrow> writeTagsetsLoop c p mitr st1)"

definition writeTagsetsTo ::
  "('senc, 'tenc, 'mw, 'd) Collab \<Rightarrow> IndexFiles \<Rightarrow> ('senc, 'd) cstate \<Rightarrow>
     (error option \<times> ('senc, 'd) cstate) outcome" where
  "writeTagsetsTo c p st = writeTagsetsLoop c p (MeasurementIterator c p) st"

text \<open>Pass 3, \<^verbatim>\<open>writeMeasurementBlockTo\<close>: the loop that adds every merged measurement to
  the block writer, then the writer's \<^verbatim>\<open>WriteTo\<close>.\<close>

fun addMeasurements ::
  "('senc, 'tenc, 'mw, 'd) Collab \<Rightarrow> IndexFiles \<Rightarrow> 'senc indexCompactInfo \<Rightarrow>
     MeasurementElem list \<Rightarrow> 'mw \<Rightarrow> 'mw outcome" where
  "addMeasurements c p info [] mw = Return mw"
| "addMeasurements c p info (m # mitr) mw =
     (let name = m_Name m;
          itr = MeasurementSeriesIterator c p name
      in case lookupSeriesIDs c info itr [] of
        Panic x \<Rightarrow> Panic x
      | Return seriesIDs \<Rightarrow>
          (let pos = tagSetsAt info name
           in addMeasurements c p info mitr
                (MeasurementBlockWriter_Add c mw name (m_Deleted m) (pos_offset pos) (pos_size pos)
                   (sort seriesIDs))))"

definition writeMeasurementBlockTo ::
  "('senc, 'tenc, 'mw, 'd) Collab \<Rightarrow> IndexFiles \<Rightarrow> ('senc, 'd) cstate \<Rightarrow>
     (error option \<times> ('senc, 'd) cstate) outcome" where
  "writeMeasurementBlockTo c p st =
     (let mw = NewMeasurementBlockWriter c;
          mitr = MeasurementIterator c p
      in case addMeasurements c p (st_info st) mitr mw of
        Panic x \<Rightarrow> Panic x
      | Return mw1 \<Rightarrow>
          (case MeasurementBlockWriter_WriteTo c mw1 (w_dev (st_w st)) of
             (bs, nn, err, d) \<Rightarrow>
               Return (err, st\<lparr>st_w := emit (st_w st) bs d, st_n := st_n st + nn\<rparr>)))"

text \<open>\<^verbatim>\<open>WriteTo\<close>: the result is the pair \<^verbatim>\<open>(n, err)\<close> together with the buffered writer
  as the call leaves it.\<close>

definition WriteTo ::
  "('senc, 'tenc, 'mw, 'd) Collab \<Rightarrow> IndexFiles \<Rightarrow> 'd \<Rightarrow> ((int64 \<times> error option) \<times> 'd Writer) outcome" where
  "WriteTo c p sink =
     (let t = \<lparr>SeriesBlock = \<lparr>bp_Offset = 0, bp_Size = 0\<rparr>,
               MeasurementBlock = \<lparr>bp_Offset = 0, bp_Size = 0\<rparr>\<rparr>;
          bw = bufio_NewWriter sink;
          info = \<lparr>info_enc = None, info_tagSets = Map.empty\<rparr>
      in case writeTo c (FileSignature c) (w_dev bw) of
        (bs, nn, Some err, d) \<Rightarrow> Return ((0 + nn, Some err), emit bw bs d)
      | (bs, nn, None, d) \<Rightarrow>
          (let st0 = \<lparr>st_w = emit bw bs d, st_info = info, st_n = 0 + nn\<rparr>;
               t1 = t\<lparr>SeriesBlock := (SeriesBlock t)\<lparr>bp_Offset := st_n st0\<rparr>\<rparr>
           in case writeSeriesBlockTo c p st0 of
             (Some err, st1) \<Rightarrow> Return ((st_n st1, Some err), st_w st1)
           | (None, st1) \<Rightarrow>
               (let t2 = t1\<lparr>SeriesBlock := (SeriesBlock t1)
                             \<lparr>bp_Size := st_n st1 - bp_Offset (SeriesBlock t1)\<rparr>\<rparr>
                in case writeTagsetsTo c p st1 of
                  Panic x \<Rightarrow> Panic x
                | Return (Some err, st2) \<Rightarrow> Return ((st_n st2, Some err), st_w st2)
                | Return (None, st2) \<Rightarrow>
                    (let t3 = t2\<lparr>MeasurementBlock := (MeasurementBlock t2)
                                  \<lparr>bp_Offset := st_n st2\<rparr>\<rparr>
                     in case writeMeasurementBlockTo c p st2 of
                       Panic x \<Rightarrow> Panic x
                     | Return (Some err, st3) \<Rightarrow> Return ((st_n st3, Some err), st_w st3)
                     | Return (None, st3) \<Rightarrow>
                         (let t4 = t3\<lparr>MeasurementBlock := (MeasurementBlock t3)
                                       \<lparr>bp_Size := st_n st3 - bp_Offset (MeasurementBlock t3)\<rparr>\<rparr>
                          in case IndexFileTrailer_WriteTo c t4 (w_dev (st_w st3)) of
                            (bs4, nn4, Some err, d4) \<Rightarrow>
                              Return ((st_n st3 + nn4, Some err), emit (st_w st3) bs4 d4)
                          | (bs4, nn4, None, d4) \<Rightarrow>
                              (case Flush c (emit (st_w st3) bs4 d4) of
                                 (Some err, w5) \<Rightarrow> Return ((st_n st3 + nn4, Some err), w5)
                               | (None, w5) \<Rightarrow> Return ((st_n st3 + nn4, None), w5)))))))"

section \<open>Notions the statements use\<close>

text \<open>Modelled from the spec: the merge functions \<^verbatim>\<open>MergeMeasurementIterators\<close>,
  \<^verbatim>\<open>MergeTagKeyIterators\<close> and \<^verbatim>\<open>MergeSeriesIterators\<close> are declared outside this file;
  of a merge of no iterators the spec says that "an empty result collection yields an
  iterator that immediately signals end-of-sequence, never an error".\<close>

definition mergeOfNothing :: "('senc, 'tenc, 'mw, 'd) Collab \<Rightarrow> bool" where
  "mergeOfNothing c \<longleftrightarrow>
     MergeMeasurementIterators c [] = [] \<and> MergeTagKeyIterators c [] = [] \<and>
     MergeSeriesIterators c [] = []"

text \<open>For \<^verbatim>\<open>Stat\<close>: the errors other than not-found that \<^verbatim>\<open>os.Stat\<close> gives over the
  collection, in order, and the \<^verbatim>\<open>FileInfo\<close> of the files it finds; the larger of two
  \<^verbatim>\<open>int64\<close>.\<close>

definition statErrors :: "('senc, 'tenc, 'mw, 'd) Collab \<Rightarrow> IndexFiles \<Rightarrow> error list" where
  "statErrors c p =
     List.map_filter (\<lambda>f. case os_Stat c (Path f) of
                              Inl err \<Rightarrow> if os_IsNotExist err then None else Some err
                            | Inr fi \<Rightarrow> None) p"

definition statInfos :: "('senc, 'tenc, 'mw, 'd) Collab \<Rightarrow> IndexFiles \<Rightarrow> FileInfo list" where
  "statInfos c p =
     List.map_filter (\<lambda>f. case os_Stat c (Path f) of Inl err \<Rightarrow> None | Inr fi \<Rightarrow> Some fi) p"

definition smax :: "int64 \<Rightarrow> int64 \<Rightarrow> int64" where
  "smax a b = (if a <s b then b else a)"

text \<open>The identifier of a series: what \<^verbatim>\<open>info.enc.Offset\<close> gives for the series key that
  \<^verbatim>\<open>AppendSeriesKey\<close> builds from its name and tags.\<close>

definition seriesID :: "('senc, 'tenc, 'mw, 'd) Collab \<Rightarrow> 'senc \<Rightarrow> SeriesElem \<Rightarrow> uint64" where
  "seriesID c enc se = SeriesBlockEncoder_Offset c enc (AppendSeriesKey c (s_Name se) (s_Tags se))"

text \<open>The series pass 2 looks up: those of the tag-value series iterators, over every value
  of every merged tag key of every merged measurement.  The series pass 3 looks up: those of
  the measurement series iterators, over every merged measurement.\<close>

definition tagValueSeries :: "('senc, 'tenc, 'mw, 'd) Collab \<Rightarrow> IndexFiles \<Rightarrow> SeriesElem list" where
  "tagValueSeries c p =
     concat (map (\<lambda>m.
       concat (map (\<lambda>ke.
         concat (map (\<lambda>ve. TagValueSeriesIterator c p (m_Name m) (k_Key ke) (v_Value ve))
                     (k_TagValueIterator ke)))
         (fst (TagKeyIterator c p (m_Name m)))))
       (MeasurementIterator c p))"

definition measurementSeries :: "('senc, 'tenc, 'mw, 'd) Collab \<Rightarrow> IndexFiles \<Rightarrow> SeriesElem list" where
  "measurementSeries c p =
     concat (map (\<lambda>m. MeasurementSeriesIterator c p (m_Name m)) (MeasurementIterator c p))"

text \<open>Every series under the values of one tag key has an identifier other than zero.\<close>

definition keySeriesNonzero ::
  "('senc, 'tenc, 'mw, 'd) Collab \<Rightarrow> IndexFiles \<Rightarrow> 'senc \<Rightarrow> bytes \<Rightarrow> TagKeyElem \<Rightarrow> bool" where
  "keySeriesNonzero c p senc name ke \<longleftrightarrow>
     (\<forall>ve\<in>set (k_TagValueIterator ke).
        \<forall>se\<in>set (TagValueSeriesIterator c p name (k_Key ke) (v_Value ve)). seriesID c senc se \<noteq> 0)"

text \<open>The stages of a \<^verbatim>\<open>WriteTo\<close> that returns a \<^verbatim>\<open>nil\<close> error: the state the passes start
  from once the signature is written, the trailer built from the four readings of \<^verbatim>\<open>n\<close>, and
  the successful calls in the order of the source, each starting in the state the one before
  left.\<close>

definition afterMagic :: "'d \<Rightarrow> bytes \<Rightarrow> int64 \<Rightarrow> 'd \<Rightarrow> ('senc, 'd) cstate" where
  "afterMagic sink bs nn d =
     \<lparr>st_w = emit (bufio_NewWriter sink) bs d,
      st_info = \<lparr>info_enc = None, info_tagSets = Map.empty\<rparr>,
      st_n = nn\<rparr>"

definition trailerAt :: "int64 \<Rightarrow> int64 \<Rightarrow> int64 \<Rightarrow> int64 \<Rightarrow> IndexFileTrailer" where
  "trailerAt n0 n1 n2 n3 =
     \<lparr>SeriesBlock = \<lparr>bp_Offset = n0, bp_Size = n1 - n0\<rparr>,
      MeasurementBlock = \<lparr>bp_Offset = n2, bp_Size = n3 - n2\<rparr>\<rparr>"

definition WriteTo_stages ::
  "('senc, 'tenc, 'mw, 'd) Collab \<Rightarrow> IndexFiles \<Rightarrow> 'd \<Rightarrow> bytes \<Rightarrow> int64 \<Rightarrow> 'd \<Rightarrow>
     ('senc, 'd) cstate \<Rightarrow> ('senc, 'd) cstate \<Rightarrow> ('senc, 'd) cstate \<Rightarrow> bytes \<Rightarrow> int64 \<Rightarrow> 'd \<Rightarrow> bool" where
  "WriteTo_stages c p sink bs0 nn0 d0 st1 st2 st3 bs4 nn4 d4 \<longleftrightarrow>
     writeTo c (FileSignature c) sink = (bs0, nn0, None, d0)
     \<and> writeSeriesBlockTo c p (afterMagic sink bs0 nn0 d0) = (None, st1)
     \<and> writeTagsetsTo c p st1 = Return (None, st2)
     \<and> writeMeasurementBlockTo c p st2 = Return (None, st3)
     \<and> IndexFileTrailer_WriteTo c (trailerAt nn0 (st_n st1) (st_n st2) (st_n st3))
          (w_dev (st_w st3)) = (bs4, nn4, None, d4)"

text \<open>The series key of an entry.\<close>

definition seriesKey :: "('senc, 'tenc, 'mw, 'd) Collab \<Rightarrow> SeriesElem \<Rightarrow> bytes" where
  "seriesKey c se = AppendSeriesKey c (s_Name se) (s_Tags se)"

text \<open>The first series of an iterator that the encoder resolves to the identifier zero, if
  there is one.\<close>

definition firstUnresolved ::
  "('senc, 'tenc, 'mw, 'd) Collab \<Rightarrow> 'senc \<Rightarrow> SeriesElem list \<Rightarrow> SeriesElem option" where
  "firstUnresolved c enc sitr = find (\<lambda>se. seriesID c enc se = 0) sitr"

text \<open>Modelled from the spec: \<^verbatim>\<open>SeriesBlockEncoder\<close> is declared outside this file.  Of its
  identifiers the spec says that they "are exactly the byte offsets the encoder reports for
  each encoded key, retrievable later by exact series-key lookup", and that zero is reserved
  and "must never be a valid identifier".  \<open>encoded c enc K\<close>: the encoder \<open>enc\<close> is a new
  encoder after calls of \<^verbatim>\<open>Encode\<close> and \<^verbatim>\<open>Close\<close> that returned \<^verbatim>\<open>nil\<close>, and \<open>K\<close> holds the
  series keys it has encoded.  The contract: such an encoder resolves every key it has
  encoded to an identifier other than zero.\<close>

inductive encoded :: "('senc, 'tenc, 'mw, 'd) Collab \<Rightarrow> 'senc \<Rightarrow> bytes set \<Rightarrow> bool"
  for c :: "('senc, 'tenc, 'mw, 'd) Collab" where
  encoded_new: "encoded c (NewSeriesBlockEncoder c) {}"
| encoded_Encode:
    "encoded c enc K \<Longrightarrow>
     SeriesBlockEncoder_Encode c enc name tags deleted d = (bs, None, enc', d') \<Longrightarrow>
     encoded c enc' (insert (AppendSeriesKey c name tags) K)"
| encoded_Close:
    "encoded c enc K \<Longrightarrow> SeriesBlockEncoder_Close c enc d = (bs, None, enc', d') \<Longrightarrow>
     encoded c enc' K"

definition encodedKeysResolve :: "('senc, 'tenc, 'mw, 'd) Collab \<Rightarrow> bool" where
  "encodedKeysResolve c \<longleftrightarrow>
     (\<forall>enc K. encoded c enc K \<longrightarrow> (\<forall>k\<in>K. SeriesBlockEncoder_Offset c enc k \<noteq> 0))"

text \<open>The later passes iterate only series that the merged series iterator of pass 1
  yields too (compared by series key).\<close>

definition laterPassesWithinPass1 :: "('senc, 'tenc, 'mw, 'd) Collab \<Rightarrow> IndexFiles \<Rightarrow> bool" where
  "laterPassesWithinPass1 c p \<longleftrightarrow>
     seriesKey c ` (set (tagValueSeries c p) \<union> set (measurementSeries c p))
       \<subseteq> seriesKey c ` set (SeriesIterator c p)"

text \<open>Collaborators that follow \<open>c\<close> except that \<^verbatim>\<open>EncodeValue\<close> of the tag block encoder and
  \<^verbatim>\<open>Add\<close> of the measurement block writer do as \<open>c\<close> does only on the identifier lists that
  satisfy \<open>P\<close>, and something else (\<open>g\<close>, \<open>h\<close>) on every other list.  When \<^verbatim>\<open>WriteTo\<close> gives
  the same result whatever \<open>g\<close> and \<open>h\<close> are, no list outside \<open>P\<close> is ever passed to either.\<close>

definition restrictEncodeValue ::
  "(uint64 list \<Rightarrow> bool) \<Rightarrow> ('tenc \<Rightarrow> bytes \<Rightarrow> bool \<Rightarrow> uint64 list \<Rightarrow> 'd \<Rightarrow> bytes \<times> error option \<times> 'tenc \<times> 'd) \<Rightarrow>
     ('senc, 'tenc, 'mw, 'd) Collab \<Rightarrow> ('senc, 'tenc, 'mw, 'd) Collab" where
  "restrictEncodeValue P g c =
     c\<lparr>TagBlockEncoder_EncodeValue := (\<lambda>enc v deleted ids d.
          if P ids then TagBlockEncoder_EncodeValue c enc v deleted ids d
          else g enc v deleted ids d)\<rparr>"

definition restrictAdd ::
  "(uint64 list \<Rightarrow> bool) \<Rightarrow> ('mw \<Rightarrow> bytes \<Rightarrow> bool \<Rightarrow> int64 \<Rightarrow> int64 \<Rightarrow> uint64 list \<Rightarrow> 'mw) \<Rightarrow>
     ('senc, 'tenc, 'mw, 'd) Collab \<Rightarrow> ('senc, 'tenc, 'mw, 'd) Collab" where
  "restrictAdd P h c =
     c\<lparr>MeasurementBlockWriter_Add := (\<lambda>mw name deleted off sz ids.
          if P ids then MeasurementBlockWriter_Add c mw name deleted off sz ids
          else h mw name deleted off sz ids)\<rparr>"

definition restrictLists ::
  "(uint64 list \<Rightarrow> bool) \<Rightarrow> ('tenc \<Rightarrow> bytes \<Rightarrow> bool \<Rightarrow> uint64 list \<Rightarrow> 'd \<Rightarrow> bytes \<times> error option \<times> 'tenc \<times> 'd) \<Rightarrow>
     ('mw \<Rightarrow> bytes \<Rightarrow> bool \<Rightarrow> int64 \<Rightarrow> int64 \<Rightarrow> uint64 list \<Rightarrow> 'mw) \<Rightarrow>
     ('senc, 'tenc, 'mw, 'd) Collab \<Rightarrow> ('senc, 'tenc, 'mw, 'd) Collab" where
  "restrictLists P g h c = restrictAdd P h (restrictEncodeValue P g c)"

text \<open>Every list of identifiers that a lookup over a series iterator of pass 2 or pass 3
  returns satisfies \<open>P\<close> once sorted.\<close>

definition sortedListsSatisfy ::
  "(uint64 list \<Rightarrow> bool) \<Rightarrow> ('senc, 'tenc, 'mw, 'd) Collab \<Rightarrow> IndexFiles \<Rightarrow> 'senc indexCompactInfo \<Rightarrow> bool" where
  "sortedListsSatisfy P c p info \<longleftrightarrow>
     (\<forall>name key val ids.
        lookupSeriesIDs c info (TagValueSeriesIterator c p name key val) [] = Return ids \<longrightarrow>
        P (sort ids))
     \<and> (\<forall>name ids.
        lookupSeriesIDs c info (MeasurementSeriesIterator c p name) [] = Return ids \<longrightarrow>
        P (sort ids))"

text \<open>Modelled from the spec: \<^verbatim>\<open>MergeSeriesIterators\<close> is declared outside this file; the
  spec has it "produce one iterator yielding the sorted, deduplicated union", so that a
  merged series iterator yields no series key twice.\<close>

definition mergedSeriesDistinct :: "('senc, 'tenc, 'mw, 'd) Collab \<Rightarrow> IndexFiles \<Rightarrow> bool" where
  "mergedSeriesDistinct c p \<longleftrightarrow>
     (\<forall>name. distinct (map (seriesKey c) (MeasurementSeriesIterator c p name)))
     \<and> (\<forall>name key val. distinct (map (seriesKey c) (TagValueSeriesIterator c p name key val)))"

text \<open>Modelled from the spec: \<^verbatim>\<open>SeriesBlockEncoder.Offset\<close> is declared outside this file;
  the identifiers "are exactly the byte offsets the encoder reports for each encoded key",
  so that two keys with the same identifier other than zero are the same key; so for the
  encoder that a successful pass 1 leaves in \<^verbatim>\<open>info.enc\<close>.\<close>

definition offsetInjective :: "('senc, 'tenc, 'mw, 'd) Collab \<Rightarrow> 'senc \<Rightarrow> bool" where
  "offsetInjective c enc \<longleftrightarrow>
     (\<forall>k1 k2. SeriesBlockEncoder_Offset c enc k1 = SeriesBlockEncoder_Offset c enc k2 \<longrightarrow>
        SeriesBlockEncoder_Offset c enc k1 \<noteq> 0 \<longrightarrow> k1 = k2)"

definition seriesIDsInjective :: "('senc, 'tenc, 'mw, 'd) Collab \<Rightarrow> IndexFiles \<Rightarrow> bool" where
  "seriesIDsInjective c p \<longleftrightarrow>
     (\<forall>st0 st1 enc. writeSeriesBlockTo c p st0 = (None, st1) \<longrightarrow> info_enc (st_info st1) = Some enc \<longrightarrow>
        offsetInjective c enc)"

text \<open>The writer \<open>w'\<close> holds what \<open>w\<close> had accepted, followed by more, and nothing more has
  been flushed.\<close>

definition extends :: "'d Writer \<Rightarrow> 'd Writer \<Rightarrow> bool" where
  "extends w w' \<longleftrightarrow> (\<exists>bs. w_out w' = w_out w @ bs) \<and> w_flushed w' = w_flushed w"

text \<open>The collaborators of \<open>c\<close> with another trailer writer and another \<^verbatim>\<open>Flush\<close>.  A run
  of \<^verbatim>\<open>WriteTo\<close> whose result is the same for all of them calls neither.\<close>

definition replaceTrailerAndFlush ::
  "(IndexFileTrailer \<Rightarrow> 'd \<Rightarrow> bytes \<times> int64 \<times> error option \<times> 'd) \<Rightarrow> ('d \<Rightarrow> error option \<times> 'd) \<Rightarrow>
     ('senc, 'tenc, 'mw, 'd) Collab \<Rightarrow> ('senc, 'tenc, 'mw, 'd) Collab" where
  "replaceTrailerAndFlush tw fl c = c\<lparr>IndexFileTrailer_WriteTo := tw, bufio_Flush := fl\<rparr>"

text \<open>The calls of \<^verbatim>\<open>writeTagsetTo\<close> that the loop of \<^verbatim>\<open>writeTagsetsTo\<close> makes, in order: for
  each measurement the state before the call and the state after it, as long as the calls
  return a \<^verbatim>\<open>nil\<close> error.\<close>

fun tagsetRuns ::
  "('senc, 'tenc, 'mw, 'd) Collab \<Rightarrow> IndexFiles \<Rightarrow> MeasurementElem list \<Rightarrow> ('senc, 'd) cstate \<Rightarrow>
     (('senc, 'd) cstate \<times> ('senc, 'd) cstate) list" where
  "tagsetRuns c p [] st = []"
| "tagsetRuns c p (m # mitr) st =
     (case writeTagsetTo c p (m_Name m) st of
        Return (None, st1) \<Rightarrow> (st, st1) # tagsetRuns c p mitr st1
      | Return (Some err, st1) \<Rightarrow> []
      | Panic x \<Rightarrow> [])"

text \<open>The bytes the buffered writer accepted between two states.\<close>

definition written :: "('senc, 'd) cstate \<Rightarrow> ('senc, 'd) cstate \<Rightarrow> bytes" where
  "written sa sb = drop (length (w_out (st_w sa))) (w_out (st_w sb))"

text \<open>Modelled from the spec: the helper \<^verbatim>\<open>writeTo\<close> is declared outside this file.  The
  spec's output starts with "a fixed magic signature identifying the file format": a write
  that returns a \<^verbatim>\<open>nil\<close> error has written all of its buffer, as \<^verbatim>\<open>io.Writer\<close> requires.\<close>

definition writeToAcceptsAll :: "('senc, 'tenc, 'mw, 'd) Collab \<Rightarrow> bool" where
  "writeToAcceptsAll c \<longleftrightarrow>
     (\<forall>buf d bs nn d'. writeTo c buf d = (bs, nn, None, d') \<longrightarrow> bs = buf)"

section \<open>A concrete instance: two index files and simple collaborators\<close>

text \<open>The sink has room for a number of bytes; a write that does not fit is cut short
  and fails.\<close>

definition sinkWrite :: "bytes \<Rightarrow> nat \<Rightarrow> bytes \<times> error option \<times> nat" where
  "sinkWrite bs room =
     (if length bs \<le> room then (bs, None, room - length bs)
      else (take room bs, Some (ErrOther ''short write''), 0))"

definition testKey :: "bytes \<Rightarrow> Tags \<Rightarrow> bytes" where
  "testKey name tags = name @ concat (map (\<lambda>(k, v). '','' @ k @ ''='' @ v) tags)"

definition byteOf :: "64 word \<Rightarrow> char" where
  "byteOf x = char_of (48 + unat x)"

fun firstByKey :: "('e \<Rightarrow> bytes) \<Rightarrow> 'e list \<Rightarrow> bytes \<Rightarrow> 'e list" where
  "firstByKey key [] k = []"
| "firstByKey key (e # es) k = (if key e = k then [e] else firstByKey key es k)"

definition mergeByKey :: "('e \<Rightarrow> bytes) \<Rightarrow> 'e list list \<Rightarrow> 'e list" where
  "mergeByKey key itrs =
     concat (map (firstByKey key (concat itrs)) (sort (remdups (map key (concat itrs)))))"

definition testStat :: "string \<Rightarrow> error + FileInfo" where
  "testStat path =
     (if path = ''A'' then Inr \<lparr>fi_Size = 10, fi_ModTime = 100\<rparr>
      else if path = ''B'' then Inr \<lparr>fi_Size = 30, fi_ModTime = 50\<rparr>
      else if path = ''gone'' then Inl ErrNotExist
      else Inl (ErrOther ''permission denied''))"

type_synonym testSeriesEncoder = "int64 \<times> (bytes \<times> uint64) list"

definition testCollab :: "(testSeriesEncoder, int64, bytes list, nat) Collab" where
  "testCollab = \<lparr>
     MergeMeasurementIterators = mergeByKey m_Name,
     MergeTagKeyIterators = mergeByKey k_Key,
     MergeSeriesIterators = mergeByKey (\<lambda>e. testKey (s_Name e) (s_Tags e)),
     os_Stat = testStat,
     FileSignature = ''TSI1'',
     writeTo = (\<lambda>buf room. case sinkWrite buf room of
                  (bs, err, room1) \<Rightarrow> (bs, of_nat (length bs), err, room1)),
     AppendSeriesKey = testKey,
     NewSeriesBlockEncoder = (0, []),
     SeriesBlockEncoder_Encode = (\<lambda>(cnt, offs) name tags deleted room.
        if cnt + 1 = 0 then ([], Some (ErrOther ''series block full''), (cnt, offs), room)
        else case sinkWrite (testKey name tags @ (if deleted then ''!'' else '';'')) room of
          (bs, err, room1) \<Rightarrow>
            (bs, err, (cnt + of_nat (length bs), offs @ [(testKey name tags, cnt + 1)]), room1)),
     SeriesBlockEncoder_Close = (\<lambda>enc room. ([], None, enc, room)),
     SeriesBlockEncoder_N = fst,
     SeriesBlockEncoder_Offset =
       (\<lambda>(cnt, offs) key. case map_of offs key of None \<Rightarrow> 0 | Some i \<Rightarrow> i),
     NewTagBlockEncoder = 0,
     TagBlockEncoder_EncodeKey = (\<lambda>cnt key deleted room.
        case sinkWrite (key @ '':'') room of
          (bs, err, room1) \<Rightarrow> (bs, err, cnt + of_nat (length bs), room1)),
     TagBlockEncoder_EncodeValue = (\<lambda>cnt v deleted ids room.
        case sinkWrite (v @ map byteOf ids) room of
          (bs, err, room1) \<Rightarrow> (bs, err, cnt + of_nat (length bs), room1)),
     TagBlockEncoder_Close = (\<lambda>cnt room.
        case sinkWrite ''.'' room of
          (bs, err, room1) \<Rightarrow> (bs, err, cnt + of_nat (length bs), room1)),
     TagBlockEncoder_N = (\<lambda>cnt. cnt),
     NewMeasurementBlockWriter = [],
     MeasurementBlockWriter_Add = (\<lambda>mw name deleted off sz ids.
        mw @ [name @ [byteOf off, byteOf sz] @ map byteOf ids]),
     MeasurementBlockWriter_WriteTo = (\<lambda>mw room.
        case sinkWrite (concat mw) room of
          (bs, err, room1) \<Rightarrow> (bs, of_nat (length bs), err, room1)),
     IndexFileTrailer_WriteTo = (\<lambda>t room.
        case sinkWrite [byteOf (bp_Offset (SeriesBlock t)), byteOf (bp_Size (SeriesBlock t)),
                        byteOf (bp_Offset (MeasurementBlock t)),
                        byteOf (bp_Size (MeasurementBlock t))] room of
          (bs, err, room1) \<Rightarrow> (bs, of_nat (length bs), err, room1)),
     bufio_Flush = (\<lambda>room. (None, room))
   \<rparr>"

definition cpu_a :: SeriesElem where
  "cpu_a = \<lparr>s_Name = ''cpu'', s_Tags = [(''host'', ''a'')], s_Deleted = False\<rparr>"

definition cpu_b :: SeriesElem where
  "cpu_b = \<lparr>s_Name = ''cpu'', s_Tags = [(''host'', ''b'')], s_Deleted = False\<rparr>"

definition mem_a :: SeriesElem where
  "mem_a = \<lparr>s_Name = ''mem'', s_Tags = [(''host'', ''a'')], s_Deleted = False\<rparr>"

definition fileA :: IndexFile where
  "fileA = \<lparr>ID = 1, Path = ''A'',
     File_MeasurementIterator = Some [\<lparr>m_Name = ''cpu'', m_Deleted = False\<rparr>],
     File_TagKeyIterator = (\<lambda>name.
        if name = ''cpu''
        then Some [\<lparr>k_Key = ''host'', k_Deleted = False,
                    k_TagValueIterator = [\<lparr>v_Value = ''a'', v_Deleted = False\<rparr>,
                                          \<lparr>v_Value = ''b'', v_Deleted = False\<rparr>]\<rparr>]
        else None),
     File_SeriesIterator = Some [cpu_a, cpu_b],
     File_MeasurementSeriesIterator = (\<lambda>name. if name = ''cpu'' then Some [cpu_a, cpu_b] else None),
     File_TagValueSeriesIterator = (\<lambda>name key v.
        if name = ''cpu'' \<and> key = ''host'' \<and> v = ''a'' then Some [cpu_a]
        else if name = ''cpu'' \<and> key = ''host'' \<and> v = ''b'' then Some [cpu_b]
        else None)\<rparr>"

definition fileB :: IndexFile where
  "fileB = \<lparr>ID = 2, Path = ''B'',
     File_MeasurementIterator = Some [\<lparr>m_Name = ''cpu'', m_Deleted = False\<rparr>,
                                      \<lparr>m_Name = ''mem'', m_Deleted = False\<rparr>],
     File_TagKeyIterator = (\<lambda>name.
        if name = ''cpu''
        then Some [\<lparr>k_Key = ''host'', k_Deleted = False,
                    k_TagValueIterator = [\<lparr>v_Value = ''b'', v_Deleted = False\<rparr>]\<rparr>]
        else if name = ''mem''
        then Some [\<lparr>k_Key = ''host'', k_Deleted = False,
                    k_TagValueIterator = [\<lparr>v_Value = ''a'', v_Deleted = False\<rparr>]\<rparr>]
        else None),
     File_SeriesIterator = Some [cpu_b, mem_a],
     File_MeasurementSeriesIterator = (\<lambda>name.
        if name = ''cpu'' then Some [cpu_b] else if name = ''mem'' then Some [mem_a] else None),
     File_TagValueSeriesIterator = (\<lambda>name key v.
        if name = ''cpu'' \<and> key = ''host'' \<and> v = ''b'' then Some [cpu_b]
        else if name = ''mem'' \<and> key = ''host'' \<and> v = ''a'' then Some [mem_a]
        else None)\<rparr>"

text \<open>A file whose backing path was removed and which reports no data, and one whose path
  cannot be read.\<close>

definition fileGone :: IndexFile where
  "fileGone = \<lparr>ID = 3, Path = ''gone'',
     File_MeasurementIterator = None,
     File_TagKeyIterator = (\<lambda>name. None),
     File_SeriesIterator = None,
     File_MeasurementSeriesIterator = (\<lambda>name. None),
     File_TagValueSeriesIterator = (\<lambda>name key v. None)\<rparr>"

definition fileDenied :: IndexFile where
  "fileDenied = fileGone\<lparr>ID := 4, Path := ''denied''\<rparr>"

text \<open>Two files that break the agreement between the passes: the series \<^verbatim>\<open>disk,dev=x\<close> is
  missing from the series iterator of either, while the first yields it under a tag value and
  under its measurement, and the second under its measurement only.\<close>

definition disk_x :: SeriesElem where
  "disk_x = \<lparr>s_Name = ''disk'', s_Tags = [(''dev'', ''x'')], s_Deleted = False\<rparr>"

definition fileC :: IndexFile where
  "fileC = \<lparr>ID = 5, Path = ''C'',
     File_MeasurementIterator = Some [\<lparr>m_Name = ''disk'', m_Deleted = False\<rparr>],
     File_TagKeyIterator = (\<lambda>name.
        if name = ''disk''
        then Some [\<lparr>k_Key = ''dev'', k_Deleted = False,
                    k_TagValueIterator = [\<lparr>v_Value = ''x'', v_Deleted = False\<rparr>]\<rparr>]
        else None),
     File_SeriesIterator = None,
     File_MeasurementSeriesIterator = (\<lambda>name. if name = ''disk'' then Some [disk_x] else None),
     File_TagValueSeriesIterator = (\<lambda>name key v.
        if name = ''disk'' \<and> key = ''dev'' \<and> v = ''x'' then Some [disk_x] else None)\<rparr>"

definition fileD :: IndexFile where
  "fileD = fileC\<lparr>ID := 6, Path := ''D'', File_TagKeyIterator := (\<lambda>name. None),
     File_TagValueSeriesIterator := (\<lambda>name key v. None)\<rparr>"

text \<open>The encoder pass 1 leaves for the two files.\<close>

definition testEncoded :: testSeriesEncoder where
  "testEncoded = (33, [(''cpu,host=a'', 1), (''cpu,host=b'', 12), (''mem,host=a'', 23)])"

section \<open>The merge-iterator constructors\<close>

lemma appendNonNil_eq: "appendNonNil g fs a = a @ List.map_filter g fs"
  by (induction fs arbitrary: a) (auto simp: List.map_filter_simps split: option.splits)

lemma map_filter_all_None: "(\<forall>f\<in>set fs. g f = None) \<Longrightarrow> List.map_filter g fs = []"
  by (induction fs) (auto simp: List.map_filter_simps)

text \<open>C7.  Each of the five constructors hands the merge function exactly the per-file
  iterators that are not \<^verbatim>\<open>nil\<close>, in the order of the collection; \<^verbatim>\<open>TagKeyIterator\<close>
  returns a \<^verbatim>\<open>nil\<close> error for every name; and when every file reports no data (the empty
  collection included) the merge function is called on no iterators, so that, a merge of
  nothing being empty, the result yields nothing.\<close>

theorem constructors_pass_non_nil:
  "MeasurementIterator c p =
     MergeMeasurementIterators c (List.map_filter File_MeasurementIterator p)
   \<and> TagKeyIterator c p name =
       (MergeTagKeyIterators c (List.map_filter (\<lambda>f. File_TagKeyIterator f name) p), None)
   \<and> SeriesIterator c p = MergeSeriesIterators c (List.map_filter File_SeriesIterator p)
   \<and> MeasurementSeriesIterator c p name =
       MergeSeriesIterators c (List.map_filter (\<lambda>f. File_MeasurementSeriesIterator f name) p)
   \<and> TagValueSeriesIterator c p name key val =
       MergeSeriesIterators c
         (List.map_filter (\<lambda>f. File_TagValueSeriesIterator f name key val) p)
   \<and> (mergeOfNothing c \<longrightarrow>
        ((\<forall>f\<in>set p. File_MeasurementIterator f = None) \<longrightarrow> MeasurementIterator c p = []) \<and>
        ((\<forall>f\<in>set p. File_TagKeyIterator f name = None) \<longrightarrow>
            TagKeyIterator c p name = ([], None)) \<and>
        ((\<forall>f\<in>set p. File_SeriesIterator f = None) \<longrightarrow> SeriesIterator c p = []) \<and>
        ((\<forall>f\<in>set p. File_MeasurementSeriesIterator f name = None) \<longrightarrow>
            MeasurementSeriesIterator c p name = []) \<and>
        ((\<forall>f\<in>set p. File_TagValueSeriesIterator f name key val = None) \<longrightarrow>
            TagValueSeriesIterator c p name key val = []))"
  by (simp add: MeasurementIterator_def TagKeyIterator_def SeriesIterator_def
      MeasurementSeriesIterator_def TagValueSeriesIterator_def appendNonNil_eq
      map_filter_all_None mergeOfNothing_def)

lemma mergeOfNothing_testCollab: "mergeOfNothing testCollab"
  by (simp add: mergeOfNothing_def testCollab_def mergeByKey_def)

theorem constructors_pass_non_nil_witness:
  "mergeOfNothing testCollab
   \<and> File_MeasurementIterator fileGone = None
   \<and> MeasurementIterator testCollab [fileGone] = []
   \<and> File_TagKeyIterator fileA ''disk'' = None \<and> File_TagKeyIterator fileB ''disk'' = None
   \<and> TagKeyIterator testCollab [fileA, fileB] ''disk'' = ([], None)
   \<and> SeriesIterator testCollab [] = []"
proof -
  note m = mergeOfNothing_testCollab
  note r = conjunct2 [THEN conjunct2, THEN conjunct2, THEN conjunct2, THEN conjunct2, THEN mp]
  have g: "File_MeasurementIterator fileGone = None"
    by (simp add: fileGone_def)
  have a: "File_TagKeyIterator fileA ''disk'' = None" and b: "File_TagKeyIterator fileB ''disk'' = None"
    by (simp_all add: fileA_def fileB_def)
  have 1: "MeasurementIterator testCollab [fileGone] = []"
    by (rule r [OF constructors_pass_non_nil [of testCollab "[fileGone]" "''cpu''" "''host''" "''a''"] m,
          THEN conjunct1, THEN mp]) (simp add: g)
  have 2: "TagKeyIterator testCollab [fileA, fileB] ''disk'' = ([], None)"
    by (rule r [OF constructors_pass_non_nil [of testCollab "[fileA, fileB]" "''disk''" "''host''" "''a''"] m,
          THEN conjunct2, THEN conjunct1, THEN mp]) (simp add: a b)
  have 3: "SeriesIterator testCollab [] = []"
    by (rule r [OF constructors_pass_non_nil [of testCollab "[]" "''cpu''" "''host''" "''a''"] m,
          THEN conjunct2, THEN conjunct2, THEN conjunct1, THEN mp]) simp
  from m g a b 1 2 3 show ?thesis by simp
qed

section \<open>\<^verbatim>\<open>MeasurementNames\<close>\<close>

lemma appendNames_eq: "appendNames itr names = names @ map m_Name itr"
  by (induction itr arbitrary: names) auto

lemma MeasurementNames_eq: "MeasurementNames c p = sort (map m_Name (MeasurementIterator c p))"
  by (simp add: MeasurementNames_def appendNames_eq)

text \<open>C8.  \<^verbatim>\<open>MeasurementNames\<close> returns, in lexicographic order, exactly the names the
  merged measurement iterator yields, each as often as it is yielded; when that iterator
  yields every name once and yields the names of the files' iterators (the merge function is
  declared outside this file: "one iterator yielding the sorted, deduplicated union"), the
  result is strictly ascending, so without duplicates, and holds every name of every
  file.\<close>

theorem MeasurementNames_sorted_merged:
  "sorted (MeasurementNames c p)
   \<and> mset (MeasurementNames c p) = mset (map m_Name (MeasurementIterator c p))
   \<and> (distinct (map m_Name (MeasurementIterator c p)) \<longrightarrow>
        m_Name ` set (MeasurementIterator c p) =
          (\<Union>itr\<in>set (List.map_filter File_MeasurementIterator p). m_Name ` set itr) \<longrightarrow>
        sorted_wrt (<) (MeasurementNames c p) \<and>
        set (MeasurementNames c p) =
          (\<Union>itr\<in>set (List.map_filter File_MeasurementIterator p). m_Name ` set itr))"
  by (auto simp: MeasurementNames_eq strict_sorted_iff)

lemma testMeasurements:
  "MeasurementIterator testCollab [fileB, fileA] =
     [\<lparr>m_Name = ''cpu'', m_Deleted = False\<rparr>, \<lparr>m_Name = ''mem'', m_Deleted = False\<rparr>]"
  by code_simp

lemma testFileMeasurements:
  "List.map_filter File_MeasurementIterator [fileB, fileA] =
     [[\<lparr>m_Name = ''cpu'', m_Deleted = False\<rparr>, \<lparr>m_Name = ''mem'', m_Deleted = False\<rparr>],
      [\<lparr>m_Name = ''cpu'', m_Deleted = False\<rparr>]]"
  by (simp add: List.map_filter_simps fileA_def fileB_def)

theorem MeasurementNames_sorted_merged_witness:
  "distinct (map m_Name (MeasurementIterator testCollab [fileB, fileA]))
   \<and> m_Name ` set (MeasurementIterator testCollab [fileB, fileA]) =
       (\<Union>itr\<in>set (List.map_filter File_MeasurementIterator [fileB, fileA]). m_Name ` set itr)
   \<and> sorted_wrt (<) (MeasurementNames testCollab [fileB, fileA])
   \<and> set (MeasurementNames testCollab [fileB, fileA]) = {''cpu'', ''mem''}"
proof -
  have d: "distinct (map m_Name (MeasurementIterator testCollab [fileB, fileA]))"
    by (simp add: testMeasurements)
  have u: "m_Name ` set (MeasurementIterator testCollab [fileB, fileA]) =
       (\<Union>itr\<in>set (List.map_filter File_MeasurementIterator [fileB, fileA]). m_Name ` set itr)"
    unfolding testMeasurements testFileMeasurements by auto
  have "sorted_wrt (<) (MeasurementNames testCollab [fileB, fileA]) \<and>
        set (MeasurementNames testCollab [fileB, fileA]) =
          (\<Union>itr\<in>set (List.map_filter File_MeasurementIterator [fileB, fileA]). m_Name ` set itr)"
    by (rule MeasurementNames_sorted_merged [of testCollab "[fileB, fileA]",
          THEN conjunct2, THEN conjunct2, THEN mp, THEN mp, OF d u])
  with d u show ?thesis unfolding testFileMeasurements by auto
qed

section \<open>\<^verbatim>\<open>Stat\<close>\<close>

lemma statLoop_errors:
  "statErrors c p \<noteq> [] \<Longrightarrow> statLoop c p info = Inl (hd (statErrors c p))"
  by (induction p arbitrary: info)
     (auto simp: statErrors_def List.map_filter_simps Let_def split: sum.splits)

lemma statLoop_infos:
  "statErrors c p = [] \<Longrightarrow>
   statLoop c p info =
     Inr \<lparr>MaxSize = foldl smax (MaxSize info) (map fi_Size (statInfos c p)),
          Size = Size info + sum_list (map fi_Size (statInfos c p)),
          ModTime = foldl max (ModTime info) (map fi_ModTime (statInfos c p))\<rparr>"
proof (induction p arbitrary: info)
  case Nil
  then show ?case by (simp add: statInfos_def List.map_filter_simps)
next
  case (Cons f fs)
  show ?case
  proof (cases "os_Stat c (Path f)")
    case (Inl err)
    with Cons.prems have ne: "os_IsNotExist err" and rest: "statErrors c fs = []"
      by (auto simp: statErrors_def List.map_filter_simps split: if_splits)
    from Inl have "statInfos c (f # fs) = statInfos c fs"
      by (simp add: statInfos_def List.map_filter_simps)
    with Inl ne Cons.IH [OF rest] show ?thesis by simp
  next
    case (Inr fi)
    with Cons.prems have rest: "statErrors c fs = []"
      by (auto simp: statErrors_def List.map_filter_simps)
    from Inr have "statInfos c (f # fs) = fi # statInfos c fs"
      by (simp add: statInfos_def List.map_filter_simps)
    with Inr Cons.IH [OF rest] show ?thesis
      by (simp add: Let_def smax_def max_def add.assoc)
  qed
qed

lemma statLoop_skips:
  "statLoop c (filter (\<lambda>f. os_Stat c (Path f) \<noteq> Inl ErrNotExist) p) info = statLoop c p info"
  by (induction p arbitrary: info)
     (auto simp: Let_def os_IsNotExist_def split: sum.splits)

lemma sint_smax: "sint (smax a b) = max (sint a) (sint b)"
  by (simp add: smax_def word_sless_alt max_def)

lemma sint_foldl_smax:
  "sint (foldl smax m xs) = Max (insert (sint m) (sint ` set xs))"
proof (induction xs arbitrary: m)
  case Nil
  then show ?case by simp
next
  case (Cons x xs)
  show ?case
  proof (cases "xs = []")
    case True
    then show ?thesis by (simp add: sint_smax)
  next
    case False
    then show ?thesis
      by (simp add: Cons.IH sint_smax max.assoc max.left_commute max.commute)
  qed
qed

lemma foldl_max_Max: "foldl max (m::int) xs = Max (insert m (set xs))"
proof (induction xs arbitrary: m)
  case Nil
  then show ?case by simp
next
  case (Cons x xs)
  show ?case
  proof (cases "xs = []")
    case True
    then show ?thesis by (simp add: max.commute)
  next
    case False
    then show ?thesis by (simp add: Cons.IH max.assoc max.left_commute max.commute)
  qed
qed

lemma Max_insert_floor:
  fixes S :: "int set"
  assumes "finite S" "S \<noteq> {}" "\<forall>x\<in>S. 0 \<le> x"
  shows "Max (insert 0 S) = Max S"
proof -
  from assms have "0 \<le> Max S" by (meson Max_in)
  with assms show ?thesis by (simp add: max_def)
qed

text \<open>C6.  \<^verbatim>\<open>Stat\<close> gives the same result as on the collection without the files
  whose \<^verbatim>\<open>os.Stat\<close> reports not-found.  If \<^verbatim>\<open>os.Stat\<close> fails otherwise for some file,
  the result is the first such error and no record.  If not, the result is a record and no
  error: \<open>Size\<close> is the sum (in \<^verbatim>\<open>int64\<close>) of the sizes of the files found, \<open>MaxSize\<close>
  the largest of zero and their sizes, \<open>ModTime\<close> the latest of the zero \<^verbatim>\<open>Time\<close> and
  their modification times; these are the maximum size and the latest time of the files
  found when there is one and no size is negative and no time is before the zero
  \<^verbatim>\<open>Time\<close>.\<close>

theorem Stat_skips_missing_files:
  "Stat c p = Stat c (filter (\<lambda>f. os_Stat c (Path f) \<noteq> Inl ErrNotExist) p)
   \<and> (statErrors c p \<noteq> [] \<longrightarrow> Stat c p = Inl (hd (statErrors c p)))
   \<and> (statErrors c p = [] \<longrightarrow>
        (\<exists>info. Stat c p = Inr info
          \<and> Size info = sum_list (map fi_Size (statInfos c p))
          \<and> sint (MaxSize info) = Max (insert 0 (sint ` fi_Size ` set (statInfos c p)))
          \<and> ModTime info = Max (insert 0 (fi_ModTime ` set (statInfos c p)))
          \<and> (statInfos c p \<noteq> [] \<longrightarrow>
               (\<forall>fi\<in>set (statInfos c p). 0 \<le> sint (fi_Size fi) \<and> 0 \<le> fi_ModTime fi) \<longrightarrow>
               sint (MaxSize info) = Max (sint ` fi_Size ` set (statInfos c p)) \<and>
               ModTime info = Max (fi_ModTime ` set (statInfos c p)))))"
proof (intro conjI impI)
  show "Stat c p = Stat c (filter (\<lambda>f. os_Stat c (Path f) \<noteq> Inl ErrNotExist) p)"
    by (simp add: Stat_def statLoop_skips)
next
  assume "statErrors c p \<noteq> []"
  then show "Stat c p = Inl (hd (statErrors c p))"
    by (simp add: Stat_def statLoop_errors)
next
  assume ok: "statErrors c p = []"
  let ?fis = "statInfos c p"
  let ?info = "\<lparr>MaxSize = foldl smax 0 (map fi_Size ?fis),
                 Size = sum_list (map fi_Size ?fis),
                 ModTime = foldl max 0 (map fi_ModTime ?fis)\<rparr>"
  have r: "Stat c p = Inr ?info"
    by (simp add: Stat_def statLoop_infos [OF ok])
  have m: "sint (MaxSize ?info) = Max (insert 0 (sint ` fi_Size ` set ?fis))"
    by (simp add: sint_foldl_smax image_image)
  have t: "ModTime ?info = Max (insert 0 (fi_ModTime ` set ?fis))"
    by (simp add: foldl_max_Max)
  have v: "?fis \<noteq> [] \<longrightarrow>
      (\<forall>fi\<in>set ?fis. 0 \<le> sint (fi_Size fi) \<and> 0 \<le> fi_ModTime fi) \<longrightarrow>
      sint (MaxSize ?info) = Max (sint ` fi_Size ` set ?fis) \<and>
      ModTime ?info = Max (fi_ModTime ` set ?fis)"
  proof (intro impI)
    assume ne: "?fis \<noteq> []" and pos: "\<forall>fi\<in>set ?fis. 0 \<le> sint (fi_Size fi) \<and> 0 \<le> fi_ModTime fi"
    from ne pos have "Max (insert 0 (sint ` fi_Size ` set ?fis)) = Max (sint ` fi_Size ` set ?fis)"
      by (intro Max_insert_floor) auto
    moreover from ne pos have "Max (insert 0 (fi_ModTime ` set ?fis)) = Max (fi_ModTime ` set ?fis)"
      by (intro Max_insert_floor) auto
    ultimately show "sint (MaxSize ?info) = Max (sint ` fi_Size ` set ?fis) \<and>
      ModTime ?info = Max (fi_ModTime ` set ?fis)"
      using m t by simp
  qed
  from r m t v show "\<exists>info. Stat c p = Inr info
          \<and> Size info = sum_list (map fi_Size ?fis)
          \<and> sint (MaxSize info) = Max (insert 0 (sint ` fi_Size ` set ?fis))
          \<and> ModTime info = Max (insert 0 (fi_ModTime ` set ?fis))
          \<and> (?fis \<noteq> [] \<longrightarrow>
               (\<forall>fi\<in>set ?fis. 0 \<le> sint (fi_Size fi) \<and> 0 \<le> fi_ModTime fi) \<longrightarrow>
               sint (MaxSize info) = Max (sint ` fi_Size ` set ?fis) \<and>
               ModTime info = Max (fi_ModTime ` set ?fis))"
    by (intro exI [of _ ?info]) simp
qed

lemma testStatInfos:
  "statInfos testCollab [fileA, fileGone, fileB] =
     [\<lparr>fi_Size = 10, fi_ModTime = 100\<rparr>, \<lparr>fi_Size = 30, fi_ModTime = 50\<rparr>]"
  by code_simp

lemma testStatErrors:
  "statErrors testCollab [fileA, fileGone, fileB] = []"
  "statErrors testCollab [fileA, fileDenied, fileB] = [ErrOther ''permission denied'']"
  by code_simp+

theorem Stat_skips_missing_files_witness:
  "statErrors testCollab [fileA, fileGone, fileB] = []
   \<and> Stat testCollab [fileA, fileGone, fileB] = Inr \<lparr>MaxSize = 30, Size = 40, ModTime = 100\<rparr>
   \<and> statErrors testCollab [fileA, fileDenied, fileB] \<noteq> []
   \<and> Stat testCollab [fileA, fileDenied, fileB] = Inl (ErrOther ''permission denied'')"
proof -
  have ne: "statErrors testCollab [fileA, fileDenied, fileB] \<noteq> []"
    by (simp add: testStatErrors)
  from Stat_skips_missing_files [of testCollab "[fileA, fileDenied, fileB]",
      THEN conjunct2, THEN conjunct1, THEN mp, OF ne]
  have 1: "Stat testCollab [fileA, fileDenied, fileB] = Inl (ErrOther ''permission denied'')"
    by (simp add: testStatErrors)
  from Stat_skips_missing_files [of testCollab "[fileA, fileGone, fileB]",
      THEN conjunct2, THEN conjunct2, THEN mp, OF testStatErrors(1)]
  obtain info where i: "Stat testCollab [fileA, fileGone, fileB] = Inr info"
    "Size info = sum_list (map fi_Size (statInfos testCollab [fileA, fileGone, fileB]))"
    "sint (MaxSize info) =
       Max (insert 0 (sint ` fi_Size ` set (statInfos testCollab [fileA, fileGone, fileB])))"
    "ModTime info = Max (insert 0 (fi_ModTime ` set (statInfos testCollab [fileA, fileGone, fileB])))"
    by (elim exE conjE)
  from i(3) have "sint (MaxSize info) = sint (30 :: int64)"
    unfolding testStatInfos by simp
  then have "MaxSize info = 30" by (rule signed_word_eqI)
  moreover from i(2) have "Size info = 40" unfolding testStatInfos by simp
  moreover from i(4) have "ModTime info = 100" unfolding testStatInfos by simp
  ultimately have "info = \<lparr>MaxSize = 30, Size = 40, ModTime = 100\<rparr>" by simp
  with i(1) 1 ne testStatErrors(1) show ?thesis by simp
qed

section \<open>The identifier lookup and its panic\<close>

lemma lookup_Cons:
  "info_enc info = Some enc \<Longrightarrow>
   lookupSeriesIDs c info (se # sitr) acc =
     (if seriesID c enc se = 0 then Panic (ExpectedSeriesID (s_Name se) (s_Tags se))
      else lookupSeriesIDs c info sitr (acc @ [seriesID c enc se]))"
  by (simp add: seriesID_def Let_def)

lemma lookup_ok:
  "info_enc info = Some enc \<Longrightarrow> \<forall>se\<in>set sitr. seriesID c enc se \<noteq> 0 \<Longrightarrow>
   lookupSeriesIDs c info sitr acc = Return (acc @ map (seriesID c enc) sitr)"
  by (induction sitr arbitrary: acc) (simp_all add: lookup_Cons del: lookupSeriesIDs.simps(2))

lemma lookup_panic:
  "info_enc info = Some enc \<Longrightarrow> \<forall>x\<in>set pre. seriesID c enc x \<noteq> 0 \<Longrightarrow> seriesID c enc se = 0 \<Longrightarrow>
   lookupSeriesIDs c info (pre @ se # post) acc = Panic (ExpectedSeriesID (s_Name se) (s_Tags se))"
  by (induction pre arbitrary: acc) (simp_all add: lookup_Cons del: lookupSeriesIDs.simps(2))

lemma lookup_Return_nonzero:
  "lookupSeriesIDs c info sitr acc = Return ids \<Longrightarrow> info_enc info = Some enc \<Longrightarrow>
   (\<forall>se\<in>set sitr. seriesID c enc se \<noteq> 0) \<and> ids = acc @ map (seriesID c enc) sitr"
proof (induction sitr arbitrary: acc)
  case Nil
  then show ?case by simp
next
  case (Cons se sitr)
  from Cons.prems have nz: "seriesID c enc se \<noteq> 0"
    and r: "lookupSeriesIDs c info sitr (acc @ [seriesID c enc se]) = Return ids"
    by (auto simp: lookup_Cons simp del: lookupSeriesIDs.simps(2) split: if_splits)
  from Cons.IH [OF r Cons.prems(2)] nz show ?case by simp
qed

lemma lookup_zero_panics:
  assumes "info_enc info = Some enc" "\<exists>se\<in>set sitr. seriesID c enc se = 0"
  shows "\<exists>name tags. lookupSeriesIDs c info sitr acc = Panic (ExpectedSeriesID name tags)"
proof -
  from assms(2) obtain pre se post where "sitr = pre @ se # post" "seriesID c enc se = 0"
    "\<forall>x\<in>set pre. seriesID c enc x \<noteq> 0"
    by (auto dest!: split_list_first_prop)
  with lookup_panic [OF assms(1), of pre c se post acc] show ?thesis by blast
qed

lemma encodeTagValues_success_nonzero:
  "encodeTagValues c p info name key vitr enc w = Return (None, enc', w') \<Longrightarrow>
   info_enc info = Some senc \<Longrightarrow>
   \<forall>ve\<in>set vitr. \<forall>se\<in>set (TagValueSeriesIterator c p name key (v_Value ve)). seriesID c senc se \<noteq> 0"
proof (induction vitr arbitrary: enc w)
  case Nil
  then show ?case by simp
next
  case (Cons ve vitr)
  from Cons.prems obtain ids where l: "lookupSeriesIDs c info (TagValueSeriesIterator c p name key (v_Value ve)) [] = Return ids"
    by (auto simp: Let_def split: outcome.splits)
  from lookup_Return_nonzero [OF l Cons.prems(2)]
  have h: "\<forall>se\<in>set (TagValueSeriesIterator c p name key (v_Value ve)). seriesID c senc se \<noteq> 0"
    by simp
  from Cons.prems(1) l obtain enc1 w1 where
    "encodeTagValues c p info name key vitr enc1 w1 = Return (None, enc', w')"
    by (auto simp: Let_def split: prod.splits option.splits)
  from Cons.IH [OF this Cons.prems(2)] h show ?case by simp
qed

lemma encodeTagValues_no_panic:
  "info_enc info = Some senc \<Longrightarrow>
   \<forall>ve\<in>set vitr. \<forall>se\<in>set (TagValueSeriesIterator c p name key (v_Value ve)). seriesID c senc se \<noteq> 0 \<Longrightarrow>
   encodeTagValues c p info name key vitr enc w \<noteq> Panic x"
proof (induction vitr arbitrary: enc w)
  case Nil
  then show ?case by simp
next
  case (Cons ve vitr)
  from Cons.prems have "lookupSeriesIDs c info (TagValueSeriesIterator c p name key (v_Value ve)) [] =
      Return ([] @ map (seriesID c senc) (TagValueSeriesIterator c p name key (v_Value ve)))"
    by (intro lookup_ok) auto
  with Cons show ?case
    by (auto simp: Let_def split: prod.splits option.splits)
qed

lemma encodeTagKeys_success_nonzero:
  "encodeTagKeys c p info name kitr enc w = Return (None, enc', w') \<Longrightarrow>
   info_enc info = Some senc \<Longrightarrow>
   \<forall>ke\<in>set kitr. keySeriesNonzero c p senc name ke"
proof (induction kitr arbitrary: enc w)
  case Nil
  then show ?case by simp
next
  case (Cons ke kitr)
  from Cons.prems(1) obtain enc1 w1 enc2 w2 where
    v: "encodeTagValues c p info name (k_Key ke) (k_TagValueIterator ke) enc1 w1 = Return (None, enc2, w2)"
    and r: "encodeTagKeys c p info name kitr enc2 w2 = Return (None, enc', w')"
    by (auto split: prod.splits option.splits outcome.splits)
  from encodeTagValues_success_nonzero [OF v Cons.prems(2)]
  have "keySeriesNonzero c p senc name ke" by (simp add: keySeriesNonzero_def)
  with Cons.IH [OF r Cons.prems(2)] show ?case by simp
qed

lemma encodeTagKeys_no_panic:
  "info_enc info = Some senc \<Longrightarrow> \<forall>ke\<in>set kitr. keySeriesNonzero c p senc name ke \<Longrightarrow>
   encodeTagKeys c p info name kitr enc w \<noteq> Panic x"
proof (induction kitr arbitrary: enc w)
  case Nil
  then show ?case by simp
next
  case (Cons ke kitr)
  from Cons.prems have "\<And>e1 w1. encodeTagValues c p info name (k_Key ke) (k_TagValueIterator ke) e1 w1 \<noteq> Panic x"
    by (intro encodeTagValues_no_panic) (auto simp: keySeriesNonzero_def)
  with Cons show ?case
    by (auto split: prod.splits option.splits outcome.splits)
qed

lemma writeTagsetTo_info_enc:
  "writeTagsetTo c p name st = Return (err, st') \<Longrightarrow> info_enc (st_info st') = info_enc (st_info st)"
  by (auto simp: writeTagsetTo_def Let_def split: prod.splits option.splits outcome.splits)

lemma writeTagsetTo_success_nonzero:
  "writeTagsetTo c p name st = Return (None, st') \<Longrightarrow> info_enc (st_info st) = Some senc \<Longrightarrow>
   \<forall>ke\<in>set (fst (TagKeyIterator c p name)). keySeriesNonzero c p senc name ke"
  by (auto simp: writeTagsetTo_def Let_def split: prod.splits option.splits outcome.splits
      dest!: encodeTagKeys_success_nonzero)

lemma writeTagsetTo_no_panic:
  "info_enc (st_info st) = Some senc \<Longrightarrow>
   \<forall>ke\<in>set (fst (TagKeyIterator c p name)). keySeriesNonzero c p senc name ke \<Longrightarrow>
   writeTagsetTo c p name st \<noteq> Panic x"
  using encodeTagKeys_no_panic [of "st_info st" senc "fst (TagKeyIterator c p name)" c p name]
  by (auto simp: writeTagsetTo_def Let_def split: prod.splits option.splits outcome.splits)

lemma writeTagsetsLoop_info_enc:
  "writeTagsetsLoop c p ms st = Return (err, st') \<Longrightarrow> info_enc (st_info st') = info_enc (st_info st)"
proof (induction ms arbitrary: st)
  case Nil
  then show ?case by simp
next
  case (Cons m ms)
  then show ?case
    by (auto split: prod.splits option.splits outcome.splits dest: writeTagsetTo_info_enc)
qed

lemma writeTagsetsLoop_success_nonzero:
  "writeTagsetsLoop c p ms st = Return (None, st') \<Longrightarrow> info_enc (st_info st) = Some senc \<Longrightarrow>
   \<forall>m\<in>set ms. \<forall>ke\<in>set (fst (TagKeyIterator c p (m_Name m))). keySeriesNonzero c p senc (m_Name m) ke"
proof (induction ms arbitrary: st)
  case Nil
  then show ?case by simp
next
  case (Cons m ms)
  from Cons.prems(1) obtain st1 where
    s: "writeTagsetTo c p (m_Name m) st = Return (None, st1)"
    and r: "writeTagsetsLoop c p ms st1 = Return (None, st')"
    by (auto split: prod.splits option.splits outcome.splits)
  from writeTagsetTo_info_enc [OF s] Cons.prems(2) have e: "info_enc (st_info st1) = Some senc"
    by simp
  from writeTagsetTo_success_nonzero [OF s Cons.prems(2)] Cons.IH [OF r e] show ?case
    by simp
qed

lemma writeTagsetsLoop_no_panic:
  "info_enc (st_info st) = Some senc \<Longrightarrow>
   \<forall>m\<in>set ms. \<forall>ke\<in>set (fst (TagKeyIterator c p (m_Name m))). keySeriesNonzero c p senc (m_Name m) ke \<Longrightarrow>
   writeTagsetsLoop c p ms st \<noteq> Panic x"
proof (induction ms arbitrary: st)
  case Nil
  then show ?case by simp
next
  case (Cons m ms)
  show ?case
  proof (cases "writeTagsetTo c p (m_Name m) st")
    case (Panic y)
    with writeTagsetTo_no_panic [OF Cons.prems(1), of c p "m_Name m" y] Cons.prems(2)
    show ?thesis by simp
  next
    case (Return r)
    obtain err st1 where r: "r = (err, st1)" by (cases r)
    show ?thesis
    proof (cases err)
      case None
      from writeTagsetTo_info_enc [OF Return [unfolded r]] Cons.prems(1)
      have "info_enc (st_info st1) = Some senc" by simp
      from Cons.IH [OF this] Cons.prems(2) Return r None show ?thesis by simp
    next
      case (Some e)
      with Return r show ?thesis by simp
    qed
  qed
qed

lemma tagValueSeries_set:
  "set (tagValueSeries c p) =
     {se. \<exists>m\<in>set (MeasurementIterator c p). \<exists>ke\<in>set (fst (TagKeyIterator c p (m_Name m))).
          \<exists>ve\<in>set (k_TagValueIterator ke).
            se \<in> set (TagValueSeriesIterator c p (m_Name m) (k_Key ke) (v_Value ve))}"
  by (auto simp: tagValueSeries_def)

lemma nonzero_tagValueSeries:
  "(\<forall>m\<in>set (MeasurementIterator c p). \<forall>ke\<in>set (fst (TagKeyIterator c p (m_Name m))).
       keySeriesNonzero c p senc (m_Name m) ke) \<longleftrightarrow>
   (\<forall>se\<in>set (tagValueSeries c p). seriesID c senc se \<noteq> 0)"
  unfolding tagValueSeries_set keySeriesNonzero_def by blast

lemma writeTagsetsTo_success_nonzero:
  "writeTagsetsTo c p st = Return (None, st') \<Longrightarrow> info_enc (st_info st) = Some senc \<Longrightarrow>
   \<forall>se\<in>set (tagValueSeries c p). seriesID c senc se \<noteq> 0"
  unfolding writeTagsetsTo_def nonzero_tagValueSeries [symmetric]
  by (rule writeTagsetsLoop_success_nonzero)

lemma writeTagsetsTo_no_panic:
  "info_enc (st_info st) = Some senc \<Longrightarrow> \<forall>se\<in>set (tagValueSeries c p). seriesID c senc se \<noteq> 0 \<Longrightarrow>
   writeTagsetsTo c p st \<noteq> Panic x"
  unfolding writeTagsetsTo_def nonzero_tagValueSeries [symmetric]
  by (rule writeTagsetsLoop_no_panic)

lemma addMeasurements_no_panic:
  "info_enc info = Some senc \<Longrightarrow>
   \<forall>m\<in>set ms. \<forall>se\<in>set (MeasurementSeriesIterator c p (m_Name m)). seriesID c senc se \<noteq> 0 \<Longrightarrow>
   addMeasurements c p info ms mw \<noteq> Panic x"
proof (induction ms arbitrary: mw)
  case Nil
  then show ?case by simp
next
  case (Cons m ms)
  from Cons.prems have "lookupSeriesIDs c info (MeasurementSeriesIterator c p (m_Name m)) [] =
      Return ([] @ map (seriesID c senc) (MeasurementSeriesIterator c p (m_Name m)))"
    by (intro lookup_ok) auto
  with Cons show ?case by (simp add: Let_def)
qed

lemma addMeasurements_zero_panics:
  "info_enc info = Some senc \<Longrightarrow>
   \<exists>m\<in>set ms. \<exists>se\<in>set (MeasurementSeriesIterator c p (m_Name m)). seriesID c senc se = 0 \<Longrightarrow>
   \<exists>name tags. addMeasurements c p info ms mw = Panic (ExpectedSeriesID name tags)"
proof (induction ms arbitrary: mw)
  case Nil
  then show ?case by simp
next
  case (Cons m ms)
  show ?case
  proof (cases "\<exists>se\<in>set (MeasurementSeriesIterator c p (m_Name m)). seriesID c senc se = 0")
    case True
    from lookup_zero_panics [OF Cons.prems(1) True, of "[]"] show ?thesis
      by (auto simp: Let_def)
  next
    case False
    with Cons.prems(1) have "lookupSeriesIDs c info (MeasurementSeriesIterator c p (m_Name m)) [] =
      Return ([] @ map (seriesID c senc) (MeasurementSeriesIterator c p (m_Name m)))"
      by (intro lookup_ok) auto
    moreover from False Cons.prems(2)
    have "\<exists>m\<in>set ms. \<exists>se\<in>set (MeasurementSeriesIterator c p (m_Name m)). seriesID c senc se = 0"
      by auto
    ultimately show ?thesis using Cons.IH [OF Cons.prems(1)] by (simp add: Let_def)
  qed
qed

lemma writeMeasurementBlockTo_no_panic:
  "info_enc (st_info st) = Some senc \<Longrightarrow> \<forall>se\<in>set (measurementSeries c p). seriesID c senc se \<noteq> 0 \<Longrightarrow>
   writeMeasurementBlockTo c p st \<noteq> Panic x"
  using addMeasurements_no_panic [of "st_info st" senc "MeasurementIterator c p" c p
      "NewMeasurementBlockWriter c" x]
  by (auto simp: writeMeasurementBlockTo_def measurementSeries_def Let_def
      split: outcome.splits prod.splits)

lemma writeMeasurementBlockTo_zero_panics:
  "info_enc (st_info st) = Some senc \<Longrightarrow> \<exists>se\<in>set (measurementSeries c p). seriesID c senc se = 0 \<Longrightarrow>
   \<exists>name tags. writeMeasurementBlockTo c p st = Panic (ExpectedSeriesID name tags)"
  using addMeasurements_zero_panics [of "st_info st" senc "MeasurementIterator c p" c p
      "NewMeasurementBlockWriter c"]
  by (auto simp: writeMeasurementBlockTo_def measurementSeries_def Let_def)

section \<open>The stages of \<^verbatim>\<open>WriteTo\<close>\<close>

lemma WriteTo_success_iff:
  "WriteTo c p sink = Return ((n, None), w') \<longleftrightarrow>
   (\<exists>bs0 nn0 d0 st1 st2 st3 bs4 nn4 d4.
      WriteTo_stages c p sink bs0 nn0 d0 st1 st2 st3 bs4 nn4 d4
      \<and> Flush c (emit (st_w st3) bs4 d4) = (None, w') \<and> n = st_n st3 + nn4)"
  by (auto simp: WriteTo_def WriteTo_stages_def afterMagic_def trailerAt_def Let_def
        bufio_NewWriter_def
      split: prod.splits option.splits outcome.splits)

lemma WriteTo_Panic_cases:
  "WriteTo c p sink = Panic x \<Longrightarrow>
   \<exists>bs0 nn0 d0 st1.
      writeTo c (FileSignature c) sink = (bs0, nn0, None, d0)
      \<and> writeSeriesBlockTo c p (afterMagic sink bs0 nn0 d0) = (None, st1)
      \<and> (writeTagsetsTo c p st1 = Panic x
          \<or> (\<exists>st2. writeTagsetsTo c p st1 = Return (None, st2)
                \<and> writeMeasurementBlockTo c p st2 = Panic x))"
  by (auto simp: WriteTo_def afterMagic_def Let_def bufio_NewWriter_def
      split: prod.splits option.splits outcome.splits)

lemma writeSeriesBlockTo_sets_enc:
  "writeSeriesBlockTo c p st = (None, st1) \<Longrightarrow> \<exists>enc. info_enc (st_info st1) = Some enc"
  by (auto simp: writeSeriesBlockTo_def Let_def split: prod.splits option.splits)

lemma seriesID_seriesKey: "seriesID c enc se = SeriesBlockEncoder_Offset c enc (seriesKey c se)"
  by (simp add: seriesID_def seriesKey_def)

lemma writeTagsetsTo_info_enc:
  "writeTagsetsTo c p st = Return (err, st') \<Longrightarrow> info_enc (st_info st') = info_enc (st_info st)"
  unfolding writeTagsetsTo_def by (rule writeTagsetsLoop_info_enc)

lemma writeMeasurementBlockTo_success_nonzero:
  assumes "writeMeasurementBlockTo c p st = Return r" "info_enc (st_info st) = Some senc"
  shows "\<forall>se\<in>set (measurementSeries c p). seriesID c senc se \<noteq> 0"
proof (rule ccontr)
  assume "\<not> ?thesis"
  then have "\<exists>se\<in>set (measurementSeries c p). seriesID c senc se = 0" by simp
  from writeMeasurementBlockTo_zero_panics [OF assms(2) this] assms(1) show False by auto
qed

lemma firstUnresolved_simps:
  "firstUnresolved c enc [] = None"
  "firstUnresolved c enc (se # sitr) =
     (if seriesID c enc se = 0 then Some se else firstUnresolved c enc sitr)"
  by (simp_all add: firstUnresolved_def)

lemma firstUnresolved_append:
  "firstUnresolved c enc (xs @ ys) =
     (case firstUnresolved c enc xs of None \<Rightarrow> firstUnresolved c enc ys | Some se \<Rightarrow> Some se)"
  by (induction xs) (simp_all add: firstUnresolved_simps)

lemma firstUnresolved_None: "firstUnresolved c enc sitr = None \<longleftrightarrow> (\<forall>se\<in>set sitr. seriesID c enc se \<noteq> 0)"
  by (induction sitr) (simp_all add: firstUnresolved_simps)

lemma firstUnresolved_Some:
  "firstUnresolved c enc sitr = Some se \<Longrightarrow> se \<in> set sitr \<and> seriesID c enc se = 0"
  by (induction sitr) (auto simp: firstUnresolved_simps split: if_splits)

lemma lookup_exact:
  "info_enc info = Some enc \<Longrightarrow>
   lookupSeriesIDs c info sitr acc =
     (case firstUnresolved c enc sitr of
        None \<Rightarrow> Return (acc @ map (seriesID c enc) sitr)
      | Some se \<Rightarrow> Panic (ExpectedSeriesID (s_Name se) (s_Tags se)))"
  by (induction sitr arbitrary: acc)
     (simp_all add: lookup_Cons firstUnresolved_simps del: lookupSeriesIDs.simps(2)
        split: option.splits)

lemma encodeTagValues_panic_propagates:
  "encodeTagValues c p info name key vpre tenc w = Return (None, tenc1, w1) \<Longrightarrow>
   lookupSeriesIDs c info (TagValueSeriesIterator c p name key (v_Value ve)) [] = Panic x \<Longrightarrow>
   encodeTagValues c p info name key (vpre @ ve # vpost) tenc w = Panic x"
proof (induction vpre arbitrary: tenc w)
  case Nil
  then show ?case by (simp add: Let_def)
next
  case (Cons v vpre)
  from Cons.prems(1) obtain ids bs tenc' d where
    l: "lookupSeriesIDs c info (TagValueSeriesIterator c p name key (v_Value v)) [] = Return ids"
    and e: "TagBlockEncoder_EncodeValue c tenc (v_Value v) (v_Deleted v) (sort ids) (w_dev w) =
              (bs, None, tenc', d)"
    and r: "encodeTagValues c p info name key vpre tenc' (emit w bs d) = Return (None, tenc1, w1)"
    by (auto simp: Let_def split: outcome.splits prod.splits option.splits)
  from Cons.IH [OF r Cons.prems(2)] l e show ?case by (simp add: Let_def)
qed

lemma encodeTagKeys_panic_propagates:
  "encodeTagKeys c p info name kpre tenc w = Return (None, tenc1, w1) \<Longrightarrow>
   TagBlockEncoder_EncodeKey c tenc1 (k_Key ke) (k_Deleted ke) (w_dev w1) = (bs, None, tenc2, d) \<Longrightarrow>
   encodeTagValues c p info name (k_Key ke) (k_TagValueIterator ke) tenc2 (emit w1 bs d) = Panic x \<Longrightarrow>
   encodeTagKeys c p info name (kpre @ ke # kpost) tenc w = Panic x"
proof (induction kpre arbitrary: tenc w)
  case Nil
  then show ?case by simp
next
  case (Cons k kpre)
  from Cons.prems(1) obtain bs' tenc' d' tenc'' w'' where
    e: "TagBlockEncoder_EncodeKey c tenc (k_Key k) (k_Deleted k) (w_dev w) = (bs', None, tenc', d')"
    and v: "encodeTagValues c p info name (k_Key k) (k_TagValueIterator k) tenc' (emit w bs' d') =
              Return (None, tenc'', w'')"
    and r: "encodeTagKeys c p info name kpre tenc'' w'' = Return (None, tenc1, w1)"
    by (auto split: outcome.splits prod.splits option.splits)
  from Cons.IH [OF r Cons.prems(2) Cons.prems(3)] e v show ?case by simp
qed

lemma writeTagsetTo_panic_propagates:
  "encodeTagKeys c p (st_info st) name (fst (TagKeyIterator c p name)) (NewTagBlockEncoder c)
      (st_w st) = Panic x \<Longrightarrow>
   writeTagsetTo c p name st = Panic x"
  by (simp add: writeTagsetTo_def TagKeyIterator_def Let_def)

lemma writeTagsetsLoop_panic_propagates:
  "writeTagsetsLoop c p mpre st = Return (None, st1) \<Longrightarrow>
   writeTagsetTo c p (m_Name m) st1 = Panic x \<Longrightarrow>
   writeTagsetsLoop c p (mpre @ m # mpost) st = Panic x"
proof (induction mpre arbitrary: st)
  case Nil
  then show ?case by simp
next
  case (Cons m' mpre)
  from Cons.prems(1) obtain st' where
    s: "writeTagsetTo c p (m_Name m') st = Return (None, st')"
    and r: "writeTagsetsLoop c p mpre st' = Return (None, st1)"
    by (auto split: outcome.splits prod.splits option.splits)
  from Cons.IH [OF r Cons.prems(2)] s show ?case by simp
qed

lemma writeTagsetsTo_panic_propagates:
  "MeasurementIterator c p = mpre @ m # mpost \<Longrightarrow>
   writeTagsetsLoop c p mpre st = Return (None, st1) \<Longrightarrow>
   encodeTagKeys c p (st_info st1) (m_Name m) (fst (TagKeyIterator c p (m_Name m)))
      (NewTagBlockEncoder c) (st_w st1) = Panic x \<Longrightarrow>
   writeTagsetsTo c p st = Panic x"
  by (simp add: writeTagsetsTo_def writeTagsetsLoop_panic_propagates writeTagsetTo_panic_propagates)

lemma addMeasurements_first_unresolved:
  "info_enc info = Some enc \<Longrightarrow>
   firstUnresolved c enc (concat (map (\<lambda>m. MeasurementSeriesIterator c p (m_Name m)) ms)) = Some se \<Longrightarrow>
   addMeasurements c p info ms mw = Panic (ExpectedSeriesID (s_Name se) (s_Tags se))"
proof (induction ms arbitrary: mw)
  case Nil
  then show ?case by (simp add: firstUnresolved_simps)
next
  case (Cons m ms)
  show ?case
  proof (cases "firstUnresolved c enc (MeasurementSeriesIterator c p (m_Name m))")
    case None
    with Cons.prems(2)
    have "firstUnresolved c enc (concat (map (\<lambda>m. MeasurementSeriesIterator c p (m_Name m)) ms)) = Some se"
      by (simp add: firstUnresolved_append)
    from Cons.IH [OF Cons.prems(1) this] None show ?thesis
      by (simp add: Let_def lookup_exact [OF Cons.prems(1)])
  next
    case (Some se')
    with Cons.prems(2) have "se' = se" by (simp add: firstUnresolved_append)
    with Some show ?thesis
      by (simp add: Let_def lookup_exact [OF Cons.prems(1)])
  qed
qed

lemma writeMeasurementBlockTo_first_unresolved:
  "info_enc (st_info st) = Some enc \<Longrightarrow> firstUnresolved c enc (measurementSeries c p) = Some se \<Longrightarrow>
   writeMeasurementBlockTo c p st = Panic (ExpectedSeriesID (s_Name se) (s_Tags se))"
  by (simp add: writeMeasurementBlockTo_def measurementSeries_def Let_def
      addMeasurements_first_unresolved)

lemma WriteTo_pass2_panic:
  "writeTo c (FileSignature c) sink = (bs0, nn0, None, d0) \<Longrightarrow>
   writeSeriesBlockTo c p (afterMagic sink bs0 nn0 d0) = (None, st1) \<Longrightarrow>
   writeTagsetsTo c p st1 = Panic x \<Longrightarrow>
   WriteTo c p sink = Panic x"
  by (simp add: WriteTo_def afterMagic_def Let_def bufio_NewWriter_def)

lemma WriteTo_pass3_panic:
  "writeTo c (FileSignature c) sink = (bs0, nn0, None, d0) \<Longrightarrow>
   writeSeriesBlockTo c p (afterMagic sink bs0 nn0 d0) = (None, st1) \<Longrightarrow>
   writeTagsetsTo c p st1 = Return (None, st2) \<Longrightarrow>
   writeMeasurementBlockTo c p st2 = Panic x \<Longrightarrow>
   WriteTo c p sink = Panic x"
  by (simp add: WriteTo_def afterMagic_def Let_def bufio_NewWriter_def)

lemma encodeSeries_encoded:
  "encoded c enc K \<Longrightarrow> encodeSeries c ss enc w = (None, enc', w') \<Longrightarrow>
   encoded c enc' (K \<union> seriesKey c ` set ss)"
proof (induction ss arbitrary: enc w K)
  case Nil
  then show ?case by simp
next
  case (Cons e ss)
  from Cons.prems(2) obtain bs enc1 d where
    a: "SeriesBlockEncoder_Encode c enc (s_Name e) (s_Tags e) (s_Deleted e) (w_dev w) = (bs, None, enc1, d)"
    and r: "encodeSeries c ss enc1 (emit w bs d) = (None, enc', w')"
    by (auto split: prod.splits option.splits)
  from encoded_Encode [OF Cons.prems(1) a]
  have "encoded c enc1 (insert (seriesKey c e) K)" by (simp add: seriesKey_def)
  from Cons.IH [OF this r] show ?case by simp
qed

lemma writeSeriesBlockTo_encoded:
  assumes "writeSeriesBlockTo c p st0 = (None, st1)"
  shows "\<exists>enc. info_enc (st_info st1) = Some enc \<and> encoded c enc (seriesKey c ` set (SeriesIterator c p))"
proof -
  from assms obtain enc1 w1 bs enc2 d where
    e: "encodeSeries c (SeriesIterator c p) (NewSeriesBlockEncoder c) (st_w st0) = (None, enc1, w1)"
    and cl: "SeriesBlockEncoder_Close c enc1 (w_dev w1) = (bs, None, enc2, d)"
    and i: "info_enc (st_info st1) = Some enc2"
    by (auto simp: writeSeriesBlockTo_def Let_def split: prod.splits option.splits)
  from encodeSeries_encoded [OF encoded_new e]
  have "encoded c enc1 (seriesKey c ` set (SeriesIterator c p))" by simp
  from encoded_Close [OF this cl] i show ?thesis by blast
qed

lemma WriteTo_success_resolved:
  assumes "WriteTo c p sink = Return ((n, None), w')"
  shows "\<exists>bs0 nn0 d0 st1 enc.
           writeTo c (FileSignature c) sink = (bs0, nn0, None, d0)
           \<and> writeSeriesBlockTo c p (afterMagic sink bs0 nn0 d0) = (None, st1)
           \<and> info_enc (st_info st1) = Some enc
           \<and> firstUnresolved c enc (tagValueSeries c p) = None
           \<and> firstUnresolved c enc (measurementSeries c p) = None"
proof -
  from assms obtain bs0 nn0 d0 st1 st2 st3 bs4 nn4 d4 where
    s: "WriteTo_stages c p sink bs0 nn0 d0 st1 st2 st3 bs4 nn4 d4"
    unfolding WriteTo_success_iff by blast
  then have 0: "writeTo c (FileSignature c) sink = (bs0, nn0, None, d0)"
    and 1: "writeSeriesBlockTo c p (afterMagic sink bs0 nn0 d0) = (None, st1)"
    and 2: "writeTagsetsTo c p st1 = Return (None, st2)"
    and 3: "writeMeasurementBlockTo c p st2 = Return (None, st3)"
    by (simp_all add: WriteTo_stages_def)
  from writeSeriesBlockTo_sets_enc [OF 1] obtain enc where e: "info_enc (st_info st1) = Some enc" ..
  from writeTagsetsTo_info_enc [OF 2] e have e2: "info_enc (st_info st2) = Some enc" by simp
  from writeTagsetsTo_success_nonzero [OF 2 e]
  have a: "firstUnresolved c enc (tagValueSeries c p) = None" by (simp add: firstUnresolved_None)
  from writeMeasurementBlockTo_success_nonzero [OF 3 e2]
  have b: "firstUnresolved c enc (measurementSeries c p) = None" by (simp add: firstUnresolved_None)
  from 0 1 e a b show ?thesis by blast
qed

lemma WriteTo_never_panics:
  assumes r: "encodedKeysResolve c" and l: "laterPassesWithinPass1 c p"
  shows "WriteTo c p sink \<noteq> Panic x"
proof
  assume "WriteTo c p sink = Panic x"
  from WriteTo_Panic_cases [OF this] obtain bs0 nn0 d0 st1 where
    1: "writeSeriesBlockTo c p (afterMagic sink bs0 nn0 d0) = (None, st1)"
    and c: "writeTagsetsTo c p st1 = Panic x
          \<or> (\<exists>st2. writeTagsetsTo c p st1 = Return (None, st2)
                \<and> writeMeasurementBlockTo c p st2 = Panic x)"
    by blast
  from writeSeriesBlockTo_encoded [OF 1] obtain enc where e: "info_enc (st_info st1) = Some enc"
    and k: "encoded c enc (seriesKey c ` set (SeriesIterator c p))" by blast
  from r k have nz: "\<forall>se\<in>set (SeriesIterator c p). SeriesBlockEncoder_Offset c enc (seriesKey c se) \<noteq> 0"
    unfolding encodedKeysResolve_def by blast
  have all: "seriesID c enc se \<noteq> 0" if "se \<in> set (tagValueSeries c p) \<union> set (measurementSeries c p)" for se
  proof -
    from that l obtain se' where "se' \<in> set (SeriesIterator c p)" "seriesKey c se = seriesKey c se'"
      unfolding laterPassesWithinPass1_def by blast
    with nz show ?thesis by (simp add: seriesID_seriesKey)
  qed
  from c show False
  proof
    assume "writeTagsetsTo c p st1 = Panic x"
    with writeTagsetsTo_no_panic [OF e, of c p x] all show False by blast
  next
    assume "\<exists>st2. writeTagsetsTo c p st1 = Return (None, st2) \<and> writeMeasurementBlockTo c p st2 = Panic x"
    then obtain st2 where 2: "writeTagsetsTo c p st1 = Return (None, st2)"
      and 3: "writeMeasurementBlockTo c p st2 = Panic x" by blast
    from writeTagsetsTo_info_enc [OF 2] e have e2: "info_enc (st_info st2) = Some enc" by simp
    with writeMeasurementBlockTo_no_panic [OF e2, of c p x] all 3 show False by blast
  qed
qed

text \<open>C1.  With the encoder of pass 1 in \<^verbatim>\<open>info.enc\<close>, the lookup loop of passes 2 and 3
  returns the identifiers when none is zero, and otherwise panics at the first series whose
  identifier is zero, naming it.  That panic leaves every enclosing loop as the same panic:
  the loop over the tag values once the values before have been encoded, the loop over the
  tag keys once the keys before and the key itself have been encoded, \<^verbatim>\<open>writeTagsetsTo\<close> once
  the measurements before have been written; and pass 2 never completes when one of its
  series has the identifier zero.  Pass 3, which calls nothing that can fail before its
  lookups, panics at its first series whose identifier is zero.  A panic of pass 2 or of
  pass 3 is the outcome of \<^verbatim>\<open>WriteTo\<close>; and a \<^verbatim>\<open>WriteTo\<close> that returns a \<^verbatim>\<open>nil\<close> error
  found no series of passes 2 and 3 with the identifier zero.  Pass 1 encodes the key of every series of the merged series iterator
  and keeps the encoder; hence, when the encoder resolves every key it has encoded to an
  identifier other than zero and the later passes iterate only series whose key the merged
  series iterator of pass 1 yields too, \<^verbatim>\<open>WriteTo\<close> never panics.\<close>

theorem zero_series_id_aborts:
  fixes c :: "('senc, 'tenc, 'mw, 'd) Collab"
  shows
  "(info_enc info = Some enc \<longrightarrow>
      lookupSeriesIDs c info sitr acc =
        (case firstUnresolved c enc sitr of
           None \<Rightarrow> Return (acc @ map (seriesID c enc) sitr)
         | Some se \<Rightarrow> Panic (ExpectedSeriesID (s_Name se) (s_Tags se))))
   \<and> (encodeTagValues c p info name key vpre tenc w = Return (None, tenc1, w1) \<longrightarrow>
        lookupSeriesIDs c info (TagValueSeriesIterator c p name key (v_Value ve)) [] = Panic x \<longrightarrow>
        encodeTagValues c p info name key (vpre @ ve # vpost) tenc w = Panic x)
   \<and> (encodeTagKeys c p info name kpre kenc kw = Return (None, kenc1, kw1) \<longrightarrow>
        TagBlockEncoder_EncodeKey c kenc1 (k_Key ke) (k_Deleted ke) (w_dev kw1) =
          (kbs, None, kenc2, kd) \<longrightarrow>
        encodeTagValues c p info name (k_Key ke) (k_TagValueIterator ke) kenc2 (emit kw1 kbs kd) =
          Panic x \<longrightarrow>
        encodeTagKeys c p info name (kpre @ ke # kpost) kenc kw = Panic x)
   \<and> (MeasurementIterator c p = mpre @ m # mpost \<longrightarrow>
        writeTagsetsLoop c p mpre st = Return (None, stm) \<longrightarrow>
        encodeTagKeys c p (st_info stm) (m_Name m) (fst (TagKeyIterator c p (m_Name m)))
          (NewTagBlockEncoder c) (st_w stm) = Panic x \<longrightarrow>
        writeTagsetsTo c p st = Panic x)
   \<and> (info_enc (st_info st) = Some enc \<longrightarrow>
        firstUnresolved c enc (tagValueSeries c p) = Some se2 \<longrightarrow>
        writeTagsetsTo c p st \<noteq> Return (None, st'))
   \<and> (info_enc (st_info st) = Some enc \<longrightarrow>
        firstUnresolved c enc (measurementSeries c p) = Some se3 \<longrightarrow>
        writeMeasurementBlockTo c p st = Panic (ExpectedSeriesID (s_Name se3) (s_Tags se3)))
   \<and> (writeTo c (FileSignature c) sink = (bs0, nn0, None, d0) \<longrightarrow>
        writeSeriesBlockTo c p (afterMagic sink bs0 nn0 d0) = (None, st1) \<longrightarrow>
        (writeTagsetsTo c p st1 = Panic x \<longrightarrow> WriteTo c p sink = Panic x)
        \<and> (writeTagsetsTo c p st1 = Return (None, st2) \<longrightarrow>
             writeMeasurementBlockTo c p st2 = Panic x \<longrightarrow> WriteTo c p sink = Panic x))
   \<and> (writeSeriesBlockTo c p st0 = (None, st1) \<longrightarrow>
        (\<exists>enc1. info_enc (st_info st1) = Some enc1
           \<and> encoded c enc1 (seriesKey c ` set (SeriesIterator c p))))
   \<and> (WriteTo c p sink = Return ((n, None), w') \<longrightarrow>
        (\<exists>bs nn d s1 enc1.
           writeTo c (FileSignature c) sink = (bs, nn, None, d)
           \<and> writeSeriesBlockTo c p (afterMagic sink bs nn d) = (None, s1)
           \<and> info_enc (st_info s1) = Some enc1
           \<and> firstUnresolved c enc1 (tagValueSeries c p) = None
           \<and> firstUnresolved c enc1 (measurementSeries c p) = None))
   \<and> (encodedKeysResolve c \<longrightarrow> laterPassesWithinPass1 c p \<longrightarrow>
        (\<forall>y. WriteTo c p sink \<noteq> Panic y))"
proof -
  have 1: "info_enc info = Some enc \<longrightarrow>
      lookupSeriesIDs c info sitr acc =
        (case firstUnresolved c enc sitr of
           None \<Rightarrow> Return (acc @ map (seriesID c enc) sitr)
         | Some se \<Rightarrow> Panic (ExpectedSeriesID (s_Name se) (s_Tags se)))"
    by (rule impI) (rule lookup_exact)
  have 2: "encodeTagValues c p info name key vpre tenc w = Return (None, tenc1, w1) \<longrightarrow>
        lookupSeriesIDs c info (TagValueSeriesIterator c p name key (v_Value ve)) [] = Panic x \<longrightarrow>
        encodeTagValues c p info name key (vpre @ ve # vpost) tenc w = Panic x"
    by (intro impI) (rule encodeTagValues_panic_propagates)
  have 3: "encodeTagKeys c p info name kpre kenc kw = Return (None, kenc1, kw1) \<longrightarrow>
        TagBlockEncoder_EncodeKey c kenc1 (k_Key ke) (k_Deleted ke) (w_dev kw1) =
          (kbs, None, kenc2, kd) \<longrightarrow>
        encodeTagValues c p info name (k_Key ke) (k_TagValueIterator ke) kenc2 (emit kw1 kbs kd) =
          Panic x \<longrightarrow>
        encodeTagKeys c p info name (kpre @ ke # kpost) kenc kw = Panic x"
    by (intro impI) (rule encodeTagKeys_panic_propagates)
  have 4: "MeasurementIterator c p = mpre @ m # mpost \<longrightarrow>
        writeTagsetsLoop c p mpre st = Return (None, stm) \<longrightarrow>
        encodeTagKeys c p (st_info stm) (m_Name m) (fst (TagKeyIterator c p (m_Name m)))
          (NewTagBlockEncoder c) (st_w stm) = Panic x \<longrightarrow>
        writeTagsetsTo c p st = Panic x"
    by (intro impI) (rule writeTagsetsTo_panic_propagates)
  have 5: "info_enc (st_info st) = Some enc \<longrightarrow>
        firstUnresolved c enc (tagValueSeries c p) = Some se2 \<longrightarrow>
        writeTagsetsTo c p st \<noteq> Return (None, st')"
  proof (intro impI notI)
    assume e: "info_enc (st_info st) = Some enc"
      and f: "firstUnresolved c enc (tagValueSeries c p) = Some se2"
      and r: "writeTagsetsTo c p st = Return (None, st')"
    from writeTagsetsTo_success_nonzero [OF r e] firstUnresolved_Some [OF f] show False by blast
  qed
  have 6: "info_enc (st_info st) = Some enc \<longrightarrow>
        firstUnresolved c enc (measurementSeries c p) = Some se3 \<longrightarrow>
        writeMeasurementBlockTo c p st = Panic (ExpectedSeriesID (s_Name se3) (s_Tags se3))"
    by (intro impI) (rule writeMeasurementBlockTo_first_unresolved)
  have 7: "writeTo c (FileSignature c) sink = (bs0, nn0, None, d0) \<longrightarrow>
        writeSeriesBlockTo c p (afterMagic sink bs0 nn0 d0) = (None, st1) \<longrightarrow>
        (writeTagsetsTo c p st1 = Panic x \<longrightarrow> WriteTo c p sink = Panic x)
        \<and> (writeTagsetsTo c p st1 = Return (None, st2) \<longrightarrow>
             writeMeasurementBlockTo c p st2 = Panic x \<longrightarrow> WriteTo c p sink = Panic x)"
    by (intro impI conjI) (rule WriteTo_pass2_panic WriteTo_pass3_panic; assumption)+
  have 8: "writeSeriesBlockTo c p st0 = (None, st1) \<longrightarrow>
        (\<exists>enc1. info_enc (st_info st1) = Some enc1
           \<and> encoded c enc1 (seriesKey c ` set (SeriesIterator c p)))"
    by (rule impI) (rule writeSeriesBlockTo_encoded)
  have 9: "WriteTo c p sink = Return ((n, None), w') \<longrightarrow>
        (\<exists>bs nn d s1 enc1.
           writeTo c (FileSignature c) sink = (bs, nn, None, d)
           \<and> writeSeriesBlockTo c p (afterMagic sink bs nn d) = (None, s1)
           \<and> info_enc (st_info s1) = Some enc1
           \<and> firstUnresolved c enc1 (tagValueSeries c p) = None
           \<and> firstUnresolved c enc1 (measurementSeries c p) = None)"
    by (rule impI) (rule WriteTo_success_resolved)
  have 10: "encodedKeysResolve c \<longrightarrow> laterPassesWithinPass1 c p \<longrightarrow>
        (\<forall>y. WriteTo c p sink \<noteq> Panic y)"
    by (intro impI allI) (rule WriteTo_never_panics)
  from 1 2 3 4 5 6 7 8 9 10 show ?thesis by (intro conjI)
qed

lemma testCollab_sel:
  "AppendSeriesKey testCollab = testKey"
  "NewSeriesBlockEncoder testCollab = (0, [])"
  "SeriesBlockEncoder_Offset testCollab =
     (\<lambda>(cnt, offs) key. case map_of offs key of None \<Rightarrow> 0 | Some i \<Rightarrow> i)"
  "SeriesBlockEncoder_Close testCollab = (\<lambda>enc room. ([], None, enc, room))"
  "SeriesBlockEncoder_N testCollab = fst"
  "FileSignature testCollab = ''TSI1''"
  by (simp_all add: testCollab_def)

lemma testSeries:
  "SeriesIterator testCollab [fileA, fileB] = [cpu_a, cpu_b, mem_a]"
  "tagValueSeries testCollab [fileA, fileB] = [cpu_a, cpu_b, mem_a]"
  "measurementSeries testCollab [fileA, fileB] = [cpu_a, cpu_b, mem_a]"
  by code_simp+

lemma testWriteTo:
  "WriteTo testCollab [fileA, fileB] 1000 =
     Return ((72, None),
       \<lparr>w_out = ''TSI1cpu,host=a;cpu,host=b;mem,host=a;host:a1b<.host:aG.cpuU:1<mem_8G4Qg='',
        w_flushed = ''TSI1cpu,host=a;cpu,host=b;mem,host=a;host:a1b<.host:aG.cpuU:1<mem_8G4Qg='',
        w_dev = 928\<rparr>)"
  by code_simp

lemma testEncodeSeries:
  "encodeSeries testCollab [cpu_a, cpu_b, mem_a] (0, []) w = (None, enc1, w1) \<Longrightarrow>
   enc1 = (33, [(''cpu,host=a'', 1), (''cpu,host=b'', 12), (''mem,host=a'', 23)])"
  by (simp add: testCollab_def sinkWrite_def testKey_def cpu_a_def cpu_b_def mem_a_def
      split: if_splits)

lemma testPass1Encoder:
  assumes "writeSeriesBlockTo testCollab [fileA, fileB] st0 = (None, st1)"
  shows "info_enc (st_info st1) =
      Some (33, [(''cpu,host=a'', 1), (''cpu,host=b'', 12), (''mem,host=a'', 23)])"
proof -
  from assms obtain enc1 w1 where
    e: "encodeSeries testCollab [cpu_a, cpu_b, mem_a] (NewSeriesBlockEncoder testCollab) (st_w st0) = (None, enc1, w1)"
    and i: "info_enc (st_info st1) = Some (fst (snd (snd (SeriesBlockEncoder_Close testCollab enc1 (w_dev w1)))))"
    by (auto simp: writeSeriesBlockTo_def testSeries Let_def split: prod.splits option.splits)
  from testEncodeSeries [OF e [unfolded testCollab_sel]] i show ?thesis
    by (simp add: testCollab_sel)
qed

lemma testCollab_Encode:
  "SeriesBlockEncoder_Encode testCollab =
     (\<lambda>(cnt, offs) name tags deleted room.
        if cnt + 1 = 0 then ([], Some (ErrOther ''series block full''), (cnt, offs), room)
        else case sinkWrite (testKey name tags @ (if deleted then ''!'' else '';'')) room of
          (bs, err, room1) \<Rightarrow>
            (bs, err, (cnt + of_nat (length bs), offs @ [(testKey name tags, cnt + 1)]), room1))"
  by (simp add: testCollab_def)

lemma test_encoded_offsets:
  "encoded testCollab enc K \<Longrightarrow> K \<subseteq> fst ` set (snd enc) \<and> (\<forall>kv\<in>set (snd enc). snd kv \<noteq> 0)"
proof (induction rule: encoded.induct)
  case encoded_new
  show ?case by (simp add: testCollab_sel)
next
  case (encoded_Encode enc K name tags deleted d bs enc' d')
  obtain cnt offs where enc: "enc = (cnt, offs)" by (cases enc)
  from encoded_Encode.hyps(2) have nz: "cnt + 1 \<noteq> 0"
    and enc': "snd enc' = offs @ [(testKey name tags, cnt + 1)]"
    by (auto simp: testCollab_Encode enc split: if_splits prod.splits)
  from encoded_Encode.IH nz show ?case
    by (auto simp: enc enc' testCollab_sel)
next
  case (encoded_Close enc K d bs enc' d')
  then show ?case by (simp add: testCollab_sel)
qed

lemma test_encodedKeysResolve: "encodedKeysResolve testCollab"
  unfolding encodedKeysResolve_def
proof (intro allI impI ballI)
  fix enc :: testSeriesEncoder and K k
  assume "encoded testCollab enc K" and k: "k \<in> K"
  from test_encoded_offsets [OF this(1)] have s: "K \<subseteq> fst ` set (snd enc)"
    and nz: "\<forall>kv\<in>set (snd enc). snd kv \<noteq> 0" by simp_all
  obtain cnt offs where enc: "enc = (cnt, offs)" by (cases enc)
  from s k enc have "k \<in> fst ` set offs" by auto
  then obtain v where v: "map_of offs k = Some v"
    by (cases "map_of offs k") (auto simp: map_of_eq_None_iff)
  from map_of_SomeD [OF v] nz enc have "v \<noteq> 0" by auto
  with v show "SeriesBlockEncoder_Offset testCollab enc k \<noteq> 0"
    by (simp add: testCollab_sel enc)
qed

lemma test_laterPassesWithinPass1: "laterPassesWithinPass1 testCollab [fileA, fileB]"
  by (simp add: laterPassesWithinPass1_def testSeries)

lemma Return_state:
  "(case r of Return (e, s) \<Rightarrow> e = None | Panic x \<Rightarrow> False) \<Longrightarrow>
   r = Return (None, case r of Return (e, s) \<Rightarrow> s | Panic x \<Rightarrow> s0)"
  by (cases r) auto

lemma testSeriesStray:
  "tagValueSeries testCollab [fileA, fileC] = [cpu_a, cpu_b, disk_x]"
  "measurementSeries testCollab [fileA, fileC] = [cpu_a, cpu_b, disk_x]"
  "SeriesIterator testCollab [fileA, fileC] = [cpu_a, cpu_b]"
  "tagValueSeries testCollab [fileA, fileD] = [cpu_a, cpu_b]"
  "measurementSeries testCollab [fileA, fileD] = [cpu_a, cpu_b, disk_x]"
  "SeriesIterator testCollab [fileA, fileD] = [cpu_a, cpu_b]"
  by code_simp+

lemma test_not_laterPassesWithinPass1:
  "\<not> laterPassesWithinPass1 testCollab [fileA, fileC]"
  "\<not> laterPassesWithinPass1 testCollab [fileA, fileD]"
  by (simp_all add: laterPassesWithinPass1_def testSeriesStray seriesKey_def testCollab_sel
      testKey_def cpu_a_def cpu_b_def disk_x_def)

theorem zero_series_id_aborts_witness:
  "MeasurementIterator testCollab [fileA, fileC] =
     [\<lparr>m_Name = ''cpu'', m_Deleted = False\<rparr>] @ \<lparr>m_Name = ''disk'', m_Deleted = False\<rparr> # []
   \<and> firstUnresolved testCollab (22, [(''cpu,host=a'', 1), (''cpu,host=b'', 12)])
        (TagValueSeriesIterator testCollab [fileA, fileC] ''disk'' ''dev'' ''x'') = Some disk_x
   \<and> \<not> laterPassesWithinPass1 testCollab [fileA, fileC]
   \<and> WriteTo testCollab [fileA, fileC] 1000 = Panic (ExpectedSeriesID ''disk'' [(''dev'', ''x'')])
   \<and> (\<forall>st'. writeTagsetsTo testCollab [fileA, fileC]
               (snd (writeSeriesBlockTo testCollab [fileA, fileC] (afterMagic 1000 ''TSI1'' 4 996)))
             \<noteq> Return (None, st'))
   \<and> firstUnresolved testCollab (22, [(''cpu,host=a'', 1), (''cpu,host=b'', 12)])
        (tagValueSeries testCollab [fileA, fileD]) = None
   \<and> firstUnresolved testCollab (22, [(''cpu,host=a'', 1), (''cpu,host=b'', 12)])
        (measurementSeries testCollab [fileA, fileD]) = Some disk_x
   \<and> \<not> laterPassesWithinPass1 testCollab [fileA, fileD]
   \<and> WriteTo testCollab [fileA, fileD] 1000 = Panic (ExpectedSeriesID ''disk'' [(''dev'', ''x'')])
   \<and> (\<exists>enc. encoded testCollab enc (seriesKey testCollab ` set (SeriesIterator testCollab [fileA, fileC])))
   \<and> encodedKeysResolve testCollab
   \<and> laterPassesWithinPass1 testCollab [fileA, fileB]
   \<and> (\<forall>y. WriteTo testCollab [fileA, fileB] 1000 \<noteq> Panic y)
   \<and> (\<exists>n w. WriteTo testCollab [fileA, fileB] 1000 = Return ((n, None), w))
   \<and> (\<exists>enc. firstUnresolved testCollab enc (tagValueSeries testCollab [fileA, fileB]) = None
          \<and> firstUnresolved testCollab enc (measurementSeries testCollab [fileA, fileB]) = None)"
proof -
  let ?pC = "[fileA, fileC]" and ?pD = "[fileA, fileD]" and ?pB = "[fileA, fileB]"
  let ?st0 = "afterMagic 1000 ''TSI1'' 4 996 :: (testSeriesEncoder, nat) cstate"
  let ?E = "(22, [(''cpu,host=a'', 1), (''cpu,host=b'', 12)]) :: testSeriesEncoder"
  let ?cpu = "\<lparr>m_Name = ''cpu'', m_Deleted = False\<rparr>"
  let ?disk = "\<lparr>m_Name = ''disk'', m_Deleted = False\<rparr>"
  let ?vx = "\<lparr>v_Value = ''x'', v_Deleted = False\<rparr>"
  let ?dev = "\<lparr>k_Key = ''dev'', k_Deleted = False, k_TagValueIterator = [?vx]\<rparr>"
  let ?x = "ExpectedSeriesID ''disk'' [(''dev'', ''x'')]"
  let ?s1 = "snd (writeSeriesBlockTo testCollab ?pC ?st0)"
  let ?sm = "case writeTagsetsLoop testCollab ?pC [?cpu] ?s1 of
               Return (e, s) \<Rightarrow> s | Panic x \<Rightarrow> ?s1"
  let ?w4 = "emit (st_w ?sm) ''dev:'' 960"
  let ?r1 = "snd (writeSeriesBlockTo testCollab ?pD ?st0)"
  let ?r2 = "case writeTagsetsTo testCollab ?pD ?r1 of Return (e, s) \<Rightarrow> s | Panic x \<Rightarrow> ?r1"

  have h0: "writeTo testCollab (FileSignature testCollab) 1000 = (''TSI1'', 4, None, 996)"
    by code_simp

  have "fst (writeSeriesBlockTo testCollab ?pC ?st0) = None" by code_simp
  then have h1: "writeSeriesBlockTo testCollab ?pC ?st0 = (None, ?s1)"
    by (simp add: prod_eq_iff)
  have mi: "MeasurementIterator testCollab ?pC = [?cpu] @ ?disk # []" by code_simp
  have "case writeTagsetsLoop testCollab ?pC [?cpu] ?s1 of
          Return (e, s) \<Rightarrow> e = None | Panic x \<Rightarrow> False"
    by code_simp
  then have hm: "writeTagsetsLoop testCollab ?pC [?cpu] ?s1 = Return (None, ?sm)"
    by (rule Return_state)
  have em: "info_enc (st_info ?sm) = Some ?E" by code_simp
  have f2: "firstUnresolved testCollab ?E (TagValueSeriesIterator testCollab ?pC ''disk'' ''dev'' ''x'')
              = Some disk_x"
    by code_simp
  from zero_series_id_aborts [where c = testCollab and info = "st_info ?sm" and enc = ?E
      and sitr = "TagValueSeriesIterator testCollab ?pC ''disk'' ''dev'' ''x''" and acc = "[]",
      THEN conjunct1, THEN mp, OF em]
  have l: "lookupSeriesIDs testCollab (st_info ?sm)
             (TagValueSeriesIterator testCollab ?pC ''disk'' ''dev'' (v_Value ?vx)) [] = Panic ?x"
    by (simp add: f2 disk_x_def)
  have v0: "encodeTagValues testCollab ?pC (st_info ?sm) ''disk'' ''dev'' [] 4 ?w4 =
              Return (None, 4, ?w4)"
    by simp
  from zero_series_id_aborts [where c = testCollab and p = ?pC and info = "st_info ?sm"
      and name = "''disk''" and key = "''dev''" and vpre = "[]" and tenc = 4 and w = ?w4
      and ve = ?vx and vpost = "[]" and x = ?x,
      THEN conjunct2, THEN conjunct1, THEN mp, THEN mp, OF v0 l]
  have v: "encodeTagValues testCollab ?pC (st_info ?sm) ''disk'' (k_Key ?dev) (k_TagValueIterator ?dev)
             4 ?w4 = Panic ?x"
    by simp
  have k0: "encodeTagKeys testCollab ?pC (st_info ?sm) ''disk'' [] (NewTagBlockEncoder testCollab)
              (st_w ?sm) = Return (None, NewTagBlockEncoder testCollab, st_w ?sm)"
    by simp
  have k1: "TagBlockEncoder_EncodeKey testCollab (NewTagBlockEncoder testCollab) (k_Key ?dev)
              (k_Deleted ?dev) (w_dev (st_w ?sm)) = (''dev:'', None, 4, 960)"
    by code_simp
  have ki: "fst (TagKeyIterator testCollab ?pC (m_Name ?disk)) = [] @ ?dev # []"
    by code_simp
  from zero_series_id_aborts [where c = testCollab and p = ?pC and info = "st_info ?sm"
      and name = "''disk''" and kpre = "[]" and kenc = "NewTagBlockEncoder testCollab"
      and kw = "st_w ?sm" and ke = ?dev and kpost = "[]" and x = ?x,
      THEN conjunct2, THEN conjunct2, THEN conjunct1, THEN mp, THEN mp, THEN mp, OF k0 k1 v]
  have k: "encodeTagKeys testCollab ?pC (st_info ?sm) (m_Name ?disk)
             (fst (TagKeyIterator testCollab ?pC (m_Name ?disk))) (NewTagBlockEncoder testCollab)
             (st_w ?sm) = Panic ?x"
    unfolding ki by simp
  from zero_series_id_aborts [where c = testCollab and p = ?pC and st = ?s1 and x = ?x,
      THEN conjunct2, THEN conjunct2, THEN conjunct2, THEN conjunct1, THEN mp, THEN mp, THEN mp,
      OF mi hm k]
  have p2: "writeTagsetsTo testCollab ?pC ?s1 = Panic ?x" .
  from zero_series_id_aborts [where c = testCollab and p = ?pC and sink = 1000 and x = ?x,
      THEN conjunct2, THEN conjunct2, THEN conjunct2, THEN conjunct2, THEN conjunct2,
      THEN conjunct2, THEN conjunct1, THEN mp, THEN mp, THEN conjunct1, THEN mp, OF h0 h1 p2]
  have W2: "WriteTo testCollab ?pC 1000 = Panic ?x" .
  have e1: "info_enc (st_info ?s1) = Some ?E" by code_simp
  have fC: "firstUnresolved testCollab ?E (tagValueSeries testCollab ?pC) = Some disk_x"
    by code_simp
  have N2: "\<forall>st'. writeTagsetsTo testCollab ?pC ?s1 \<noteq> Return (None, st')"
  proof
    fix st'
    from zero_series_id_aborts [where c = testCollab and p = ?pC and st = ?s1 and st' = st',
      THEN conjunct2, THEN conjunct2, THEN conjunct2, THEN conjunct2, THEN conjunct1,
      THEN mp, THEN mp, OF e1 fC]
    show "writeTagsetsTo testCollab ?pC ?s1 \<noteq> Return (None, st')" .
  qed
  from zero_series_id_aborts [where c = testCollab and p = ?pC and ?st0.0 = ?st0 and ?st1.0 = ?s1,
      THEN conjunct2, THEN conjunct2, THEN conjunct2, THEN conjunct2, THEN conjunct2,
      THEN conjunct2, THEN conjunct2, THEN conjunct1, THEN mp, OF h1]
  have D: "\<exists>enc. encoded testCollab enc (seriesKey testCollab ` set (SeriesIterator testCollab ?pC))"
    by blast

  have "fst (writeSeriesBlockTo testCollab ?pD ?st0) = None" by code_simp
  then have g1: "writeSeriesBlockTo testCollab ?pD ?st0 = (None, ?r1)"
    by (simp add: prod_eq_iff)
  have "case writeTagsetsTo testCollab ?pD ?r1 of Return (e, s) \<Rightarrow> e = None | Panic x \<Rightarrow> False"
    by code_simp
  then have g2: "writeTagsetsTo testCollab ?pD ?r1 = Return (None, ?r2)"
    by (rule Return_state)
  have e2: "info_enc (st_info ?r2) = Some ?E" by code_simp
  have fD2: "firstUnresolved testCollab ?E (tagValueSeries testCollab ?pD) = None" by code_simp
  have fD3: "firstUnresolved testCollab ?E (measurementSeries testCollab ?pD) = Some disk_x"
    by code_simp
  from zero_series_id_aborts [where c = testCollab and p = ?pD and st = ?r2 and enc = ?E,
      THEN conjunct2, THEN conjunct2, THEN conjunct2, THEN conjunct2, THEN conjunct2,
      THEN conjunct1, THEN mp, THEN mp, OF e2 fD3]
  have p3: "writeMeasurementBlockTo testCollab ?pD ?r2 = Panic ?x"
    by (simp add: disk_x_def)
  from zero_series_id_aborts [where c = testCollab and p = ?pD and sink = 1000 and x = ?x,
      THEN conjunct2, THEN conjunct2, THEN conjunct2, THEN conjunct2, THEN conjunct2,
      THEN conjunct2, THEN conjunct1, THEN mp, THEN mp, THEN conjunct2, THEN mp, THEN mp,
      OF h0 g1 g2 p3]
  have W3: "WriteTo testCollab ?pD 1000 = Panic ?x" .

  note r = test_encodedKeysResolve and lp = test_laterPassesWithinPass1
  from zero_series_id_aborts [where c = testCollab and p = ?pB and sink = 1000,
      THEN conjunct2, THEN conjunct2, THEN conjunct2, THEN conjunct2, THEN conjunct2,
      THEN conjunct2, THEN conjunct2, THEN conjunct2, THEN conjunct2, THEN mp, THEN mp, OF r lp]
  have NP: "\<forall>y. WriteTo testCollab ?pB 1000 \<noteq> Panic y" .
  from zero_series_id_aborts [where c = testCollab and p = ?pB and sink = 1000,
      THEN conjunct2, THEN conjunct2, THEN conjunct2, THEN conjunct2, THEN conjunct2,
      THEN conjunct2, THEN conjunct2, THEN conjunct2, THEN conjunct1, THEN mp, OF testWriteTo]
  have R: "\<exists>enc. firstUnresolved testCollab enc (tagValueSeries testCollab ?pB) = None
          \<and> firstUnresolved testCollab enc (measurementSeries testCollab ?pB) = None"
    by blast
  from testWriteTo have S: "\<exists>n w. WriteTo testCollab ?pB 1000 = Return ((n, None), w)"
    by (intro exI)
  note nl = test_not_laterPassesWithinPass1
  from mi f2 nl(1) W2 N2 fD2 fD3 nl(2) W3 D r lp NP S R show ?thesis by (intro conjI)
qed

section \<open>The identifier lists passed to the encoders\<close>

lemma restrictLists_sel:
  "MergeMeasurementIterators (restrictLists P g h c) = MergeMeasurementIterators c"
  "MergeTagKeyIterators (restrictLists P g h c) = MergeTagKeyIterators c"
  "MergeSeriesIterators (restrictLists P g h c) = MergeSeriesIterators c"
  "FileSignature (restrictLists P g h c) = FileSignature c"
  "writeTo (restrictLists P g h c) = writeTo c"
  "AppendSeriesKey (restrictLists P g h c) = AppendSeriesKey c"
  "NewSeriesBlockEncoder (restrictLists P g h c) = NewSeriesBlockEncoder c"
  "SeriesBlockEncoder_Encode (restrictLists P g h c) = SeriesBlockEncoder_Encode c"
  "SeriesBlockEncoder_Close (restrictLists P g h c) = SeriesBlockEncoder_Close c"
  "SeriesBlockEncoder_N (restrictLists P g h c) = SeriesBlockEncoder_N c"
  "SeriesBlockEncoder_Offset (restrictLists P g h c) = SeriesBlockEncoder_Offset c"
  "NewTagBlockEncoder (restrictLists P g h c) = NewTagBlockEncoder c"
  "TagBlockEncoder_EncodeKey (restrictLists P g h c) = TagBlockEncoder_EncodeKey c"
  "TagBlockEncoder_Close (restrictLists P g h c) = TagBlockEncoder_Close c"
  "TagBlockEncoder_N (restrictLists P g h c) = TagBlockEncoder_N c"
  "NewMeasurementBlockWriter (restrictLists P g h c) = NewMeasurementBlockWriter c"
  "MeasurementBlockWriter_WriteTo (restrictLists P g h c) = MeasurementBlockWriter_WriteTo c"
  "IndexFileTrailer_WriteTo (restrictLists P g h c) = IndexFileTrailer_WriteTo c"
  "bufio_Flush (restrictLists P g h c) = bufio_Flush c"
  "P ids \<Longrightarrow> TagBlockEncoder_EncodeValue (restrictLists P g h c) enc v deleted ids d =
     TagBlockEncoder_EncodeValue c enc v deleted ids d"
  "P ids \<Longrightarrow> MeasurementBlockWriter_Add (restrictLists P g h c) mw name deleted off sz ids =
     MeasurementBlockWriter_Add c mw name deleted off sz ids"
  by (simp_all add: restrictLists_def restrictAdd_def restrictEncodeValue_def)

lemma restrictLists_iterators:
  "MeasurementIterator (restrictLists P g h c) p = MeasurementIterator c p"
  "TagKeyIterator (restrictLists P g h c) p name = TagKeyIterator c p name"
  "SeriesIterator (restrictLists P g h c) p = SeriesIterator c p"
  "MeasurementSeriesIterator (restrictLists P g h c) p name = MeasurementSeriesIterator c p name"
  "TagValueSeriesIterator (restrictLists P g h c) p name key val = TagValueSeriesIterator c p name key val"
  by (simp_all add: MeasurementIterator_def TagKeyIterator_def SeriesIterator_def
      MeasurementSeriesIterator_def TagValueSeriesIterator_def restrictLists_sel)

lemma restrictLists_lookup:
  "lookupSeriesIDs (restrictLists P g h c) info sitr acc = lookupSeriesIDs c info sitr acc"
  by (induction sitr arbitrary: acc) (simp_all add: restrictLists_sel Let_def split: option.splits)

lemma restrictLists_encodeSeries:
  "encodeSeries (restrictLists P g h c) itr enc w = encodeSeries c itr enc w"
  by (induction itr arbitrary: enc w)
     (simp_all add: restrictLists_sel split: option.splits prod.splits)

lemma restrictLists_writeSeriesBlockTo:
  "writeSeriesBlockTo (restrictLists P g h c) p st = writeSeriesBlockTo c p st"
  by (simp add: writeSeriesBlockTo_def restrictLists_sel restrictLists_iterators
      restrictLists_encodeSeries Let_def split: option.splits prod.splits)

lemma restrictLists_Flush: "Flush (restrictLists P g h c) w = Flush c w"
  by (simp add: Flush_def restrictLists_sel)

lemma restrictLists_encodeTagValues:
  "sortedListsSatisfy P c p info \<Longrightarrow>
   encodeTagValues (restrictLists P g h c) p info name key vitr enc w =
   encodeTagValues c p info name key vitr enc w"
proof (induction vitr arbitrary: enc w)
  case Nil
  then show ?case by simp
next
  case (Cons ve vitr)
  show ?case
  proof (cases "lookupSeriesIDs c info (TagValueSeriesIterator c p name key (v_Value ve)) []")
    case (Panic x)
    then show ?thesis by (simp add: restrictLists_lookup restrictLists_iterators)
  next
    case (Return ids)
    with Cons.prems have "P (sort ids)" unfolding sortedListsSatisfy_def by blast
    with Return Cons.IH [OF Cons.prems] show ?thesis
      by (simp add: restrictLists_lookup restrictLists_iterators restrictLists_sel
          split: option.splits prod.splits)
  qed
qed

lemma restrictLists_encodeTagKeys:
  "sortedListsSatisfy P c p info \<Longrightarrow>
   encodeTagKeys (restrictLists P g h c) p info name kitr enc w =
   encodeTagKeys c p info name kitr enc w"
  by (induction kitr arbitrary: enc w)
     (simp_all add: restrictLists_sel restrictLists_encodeTagValues
        split: option.splits prod.splits outcome.splits)

lemma lookup_enc_only:
  "info_enc info = info_enc info' \<Longrightarrow>
   lookupSeriesIDs c info sitr acc = lookupSeriesIDs c info' sitr acc"
  by (induction sitr arbitrary: acc) (simp_all add: Let_def split: option.splits)

lemma sortedListsSatisfy_enc_only:
  "info_enc info = info_enc info' \<Longrightarrow>
   sortedListsSatisfy P c p info = sortedListsSatisfy P c p info'"
  unfolding sortedListsSatisfy_def by (simp add: lookup_enc_only [of info info'])

lemma restrictLists_writeTagsetTo:
  "sortedListsSatisfy P c p (st_info st) \<Longrightarrow>
   writeTagsetTo (restrictLists P g h c) p name st = writeTagsetTo c p name st"
  by (simp add: writeTagsetTo_def restrictLists_sel restrictLists_iterators
      restrictLists_encodeTagKeys Let_def split: option.splits prod.splits outcome.splits)

lemma restrictLists_writeTagsetsLoop:
  "sortedListsSatisfy P c p (st_info st) \<Longrightarrow>
   writeTagsetsLoop (restrictLists P g h c) p ms st = writeTagsetsLoop c p ms st"
proof (induction ms arbitrary: st)
  case Nil
  then show ?case by simp
next
  case (Cons m ms)
  have "writeTagsetsLoop (restrictLists P g h c) p ms st1 = writeTagsetsLoop c p ms st1"
    if "writeTagsetTo c p (m_Name m) st = Return (err, st1)" for err st1
  proof -
    from writeTagsetTo_info_enc [OF that] Cons.prems
    have "sortedListsSatisfy P c p (st_info st1)"
      by (simp add: sortedListsSatisfy_enc_only [of "st_info st1" "st_info st"])
    then show ?thesis by (rule Cons.IH)
  qed
  then show ?case
    by (simp add: restrictLists_writeTagsetTo [OF Cons.prems]
        split: outcome.splits prod.splits option.splits)
qed

lemma restrictLists_writeTagsetsTo:
  "sortedListsSatisfy P c p (st_info st) \<Longrightarrow>
   writeTagsetsTo (restrictLists P g h c) p st = writeTagsetsTo c p st"
  by (simp add: writeTagsetsTo_def restrictLists_iterators restrictLists_writeTagsetsLoop)

lemma restrictLists_addMeasurements:
  "sortedListsSatisfy P c p info \<Longrightarrow>
   addMeasurements (restrictLists P g h c) p info ms mw = addMeasurements c p info ms mw"
proof (induction ms arbitrary: mw)
  case Nil
  then show ?case by simp
next
  case (Cons m ms)
  show ?case
  proof (cases "lookupSeriesIDs c info (MeasurementSeriesIterator c p (m_Name m)) []")
    case (Panic x)
    then show ?thesis by (simp add: restrictLists_lookup restrictLists_iterators)
  next
    case (Return ids)
    with Cons.prems have "P (sort ids)" unfolding sortedListsSatisfy_def by blast
    with Return Cons.IH [OF Cons.prems] show ?thesis
      by (simp add: restrictLists_lookup restrictLists_iterators restrictLists_sel Let_def)
  qed
qed

lemma restrictLists_writeMeasurementBlockTo:
  "sortedListsSatisfy P c p (st_info st) \<Longrightarrow>
   writeMeasurementBlockTo (restrictLists P g h c) p st = writeMeasurementBlockTo c p st"
  by (simp add: writeMeasurementBlockTo_def restrictLists_sel restrictLists_iterators
      restrictLists_addMeasurements Let_def split: option.splits prod.splits outcome.splits)

lemma WriteTo_magic_fails:
  "writeTo c (FileSignature c) sink = (bs, nn, Some e, d) \<Longrightarrow>
   WriteTo c p sink = Return ((nn, Some e), emit (bufio_NewWriter sink) bs d)"
  by (simp add: WriteTo_def bufio_NewWriter_def)

lemma WriteTo_series_fails:
  "writeTo c (FileSignature c) sink = (bs, nn, None, d) \<Longrightarrow>
   writeSeriesBlockTo c p (afterMagic sink bs nn d) = (Some e, st1) \<Longrightarrow>
   WriteTo c p sink = Return ((st_n st1, Some e), st_w st1)"
  by (simp add: WriteTo_def afterMagic_def bufio_NewWriter_def Let_def)

lemma WriteTo_tagsets_panic:
  "writeTo c (FileSignature c) sink = (bs, nn, None, d) \<Longrightarrow>
   writeSeriesBlockTo c p (afterMagic sink bs nn d) = (None, st1) \<Longrightarrow>
   writeTagsetsTo c p st1 = Panic x \<Longrightarrow>
   WriteTo c p sink = Panic x"
  by (simp add: WriteTo_def afterMagic_def bufio_NewWriter_def Let_def)

lemma WriteTo_tagsets_fails:
  "writeTo c (FileSignature c) sink = (bs, nn, None, d) \<Longrightarrow>
   writeSeriesBlockTo c p (afterMagic sink bs nn d) = (None, st1) \<Longrightarrow>
   writeTagsetsTo c p st1 = Return (Some e, st2) \<Longrightarrow>
   WriteTo c p sink = Return ((st_n st2, Some e), st_w st2)"
  by (simp add: WriteTo_def afterMagic_def bufio_NewWriter_def Let_def)

lemma WriteTo_measurements_panic:
  "writeTo c (FileSignature c) sink = (bs, nn, None, d) \<Longrightarrow>
   writeSeriesBlockTo c p (afterMagic sink bs nn d) = (None, st1) \<Longrightarrow>
   writeTagsetsTo c p st1 = Return (None, st2) \<Longrightarrow>
   writeMeasurementBlockTo c p st2 = Panic x \<Longrightarrow>
   WriteTo c p sink = Panic x"
  by (simp add: WriteTo_def afterMagic_def bufio_NewWriter_def Let_def)

lemma WriteTo_measurements_fails:
  "writeTo c (FileSignature c) sink = (bs, nn, None, d) \<Longrightarrow>
   writeSeriesBlockTo c p (afterMagic sink bs nn d) = (None, st1) \<Longrightarrow>
   writeTagsetsTo c p st1 = Return (None, st2) \<Longrightarrow>
   writeMeasurementBlockTo c p st2 = Return (Some e, st3) \<Longrightarrow>
   WriteTo c p sink = Return ((st_n st3, Some e), st_w st3)"
  by (simp add: WriteTo_def afterMagic_def bufio_NewWriter_def Let_def)

lemma WriteTo_trailer_fails:
  "writeTo c (FileSignature c) sink = (bs, nn, None, d) \<Longrightarrow>
   writeSeriesBlockTo c p (afterMagic sink bs nn d) = (None, st1) \<Longrightarrow>
   writeTagsetsTo c p st1 = Return (None, st2) \<Longrightarrow>
   writeMeasurementBlockTo c p st2 = Return (None, st3) \<Longrightarrow>
   IndexFileTrailer_WriteTo c (trailerAt nn (st_n st1) (st_n st2) (st_n st3)) (w_dev (st_w st3)) =
     (bs4, nn4, Some e, d4) \<Longrightarrow>
   WriteTo c p sink = Return ((st_n st3 + nn4, Some e), emit (st_w st3) bs4 d4)"
  by (simp add: WriteTo_def afterMagic_def trailerAt_def bufio_NewWriter_def Let_def)

lemma WriteTo_flush:
  "writeTo c (FileSignature c) sink = (bs, nn, None, d) \<Longrightarrow>
   writeSeriesBlockTo c p (afterMagic sink bs nn d) = (None, st1) \<Longrightarrow>
   writeTagsetsTo c p st1 = Return (None, st2) \<Longrightarrow>
   writeMeasurementBlockTo c p st2 = Return (None, st3) \<Longrightarrow>
   IndexFileTrailer_WriteTo c (trailerAt nn (st_n st1) (st_n st2) (st_n st3)) (w_dev (st_w st3)) =
     (bs4, nn4, None, d4) \<Longrightarrow>
   Flush c (emit (st_w st3) bs4 d4) = (ferr, w5) \<Longrightarrow>
   WriteTo c p sink = Return ((st_n st3 + nn4, ferr), w5)"
  by (cases ferr) (simp_all add: WriteTo_def afterMagic_def trailerAt_def bufio_NewWriter_def Let_def)

lemma restrictLists_WriteTo:
  assumes a: "\<And>st0 st1. writeSeriesBlockTo c p st0 = (None, st1) \<Longrightarrow>
                sortedListsSatisfy P c p (st_info st1)"
  shows "WriteTo (restrictLists P g h c) p sink = WriteTo c p sink"
proof -
  let ?c = "restrictLists P g h c"
  note sel = restrictLists_sel(4,5,18) restrictLists_writeSeriesBlockTo restrictLists_Flush
  obtain bs nn err d where w: "writeTo c (FileSignature c) sink = (bs, nn, err, d)"
    by (cases "writeTo c (FileSignature c) sink") auto
  then have w': "writeTo ?c (FileSignature ?c) sink = (bs, nn, err, d)"
    by (simp add: sel)
  show ?thesis
  proof (cases err)
    case (Some e)
    with w w' show ?thesis by (simp add: WriteTo_magic_fails)
  next
    case None
    note w = w [unfolded None] and w' = w' [unfolded None]
    obtain e1 st1 where s: "writeSeriesBlockTo c p (afterMagic sink bs nn d) = (e1, st1)"
      by (cases "writeSeriesBlockTo c p (afterMagic sink bs nn d)") auto
    then have s': "writeSeriesBlockTo ?c p (afterMagic sink bs nn d) = (e1, st1)"
      by (simp add: sel)
    show ?thesis
    proof (cases e1)
      case (Some e)
      with w w' s s' show ?thesis by (simp add: WriteTo_series_fails)
    next
      case None
      note s = s [unfolded None] and s' = s' [unfolded None]
      from a [OF s] have g1: "sortedListsSatisfy P c p (st_info st1)" .
      then have t': "writeTagsetsTo ?c p st1 = writeTagsetsTo c p st1"
        by (rule restrictLists_writeTagsetsTo)
      show ?thesis
      proof (cases "writeTagsetsTo c p st1")
        case (Panic x)
        with w w' s s' t' show ?thesis by (simp add: WriteTo_tagsets_panic)
      next
        case (Return r)
        obtain e2 st2 where r: "r = (e2, st2)" by (cases r)
        note t = Return [unfolded r]
        show ?thesis
        proof (cases e2)
          case (Some e)
          with w w' s s' t t' show ?thesis by (simp add: WriteTo_tagsets_fails)
        next
          case None
          note t = t [unfolded None]
          from writeTagsetsTo_info_enc [OF t] g1 have "sortedListsSatisfy P c p (st_info st2)"
            by (simp add: sortedListsSatisfy_enc_only [of "st_info st2" "st_info st1"])
          then have m': "writeMeasurementBlockTo ?c p st2 = writeMeasurementBlockTo c p st2"
            by (rule restrictLists_writeMeasurementBlockTo)
          show ?thesis
          proof (cases "writeMeasurementBlockTo c p st2")
            case (Panic x)
            with w w' s s' t t' m' show ?thesis by (simp add: WriteTo_measurements_panic)
          next
            case (Return r3)
            obtain e3 st3 where r3: "r3 = (e3, st3)" by (cases r3)
            note m = Return [unfolded r3]
            show ?thesis
            proof (cases e3)
              case (Some e)
              with w w' s s' t t' m m' show ?thesis by (simp add: WriteTo_measurements_fails)
            next
              case None
              note m = m [unfolded None]
              obtain bs4 nn4 e4 d4 where
                tr: "IndexFileTrailer_WriteTo c (trailerAt nn (st_n st1) (st_n st2) (st_n st3))
                       (w_dev (st_w st3)) = (bs4, nn4, e4, d4)"
                by (cases "IndexFileTrailer_WriteTo c (trailerAt nn (st_n st1) (st_n st2) (st_n st3))
                       (w_dev (st_w st3))") auto
              then have tr': "IndexFileTrailer_WriteTo ?c (trailerAt nn (st_n st1) (st_n st2) (st_n st3))
                       (w_dev (st_w st3)) = (bs4, nn4, e4, d4)"
                by (simp add: sel)
              show ?thesis
              proof (cases e4)
                case (Some e)
                with w w' s s' t t' m m' tr tr' show ?thesis by (simp add: WriteTo_trailer_fails)
              next
                case None
                obtain ferr w5 where f: "Flush c (emit (st_w st3) bs4 d4) = (ferr, w5)"
                  by (cases "Flush c (emit (st_w st3) bs4 d4)") auto
                then have f': "Flush ?c (emit (st_w st3) bs4 d4) = (ferr, w5)"
                  by (simp add: sel)
                from w s t m tr [unfolded None] f have "WriteTo c p sink = Return ((st_n st3 + nn4, ferr), w5)"
                  by (rule WriteTo_flush)
                moreover from w' s' t t' m m' tr' [unfolded None] f'
                have "WriteTo ?c p sink = Return ((st_n st3 + nn4, ferr), w5)"
                  by (intro WriteTo_flush) simp_all
                ultimately show ?thesis by simp
              qed
            qed
          qed
        qed
      qed
    qed
  qed
qed

lemma lookup_ids_strict:
  assumes e: "info_enc info = Some enc"
    and d: "distinct (map (seriesKey c) sitr)"
    and i: "offsetInjective c enc"
    and l: "lookupSeriesIDs c info sitr [] = Return ids"
  shows "sorted_wrt (<) (sort ids) \<and> set (sort ids) = seriesID c enc ` set sitr"
proof -
  from lookup_Return_nonzero [OF l e]
  have nz: "\<forall>se\<in>set sitr. seriesID c enc se \<noteq> 0" and ids: "ids = map (seriesID c enc) sitr"
    by simp_all
  have "inj_on (SeriesBlockEncoder_Offset c enc) (set (map (seriesKey c) sitr))"
  proof (rule inj_onI)
    fix k1 k2
    assume k1: "k1 \<in> set (map (seriesKey c) sitr)" and "k2 \<in> set (map (seriesKey c) sitr)"
      and eq: "SeriesBlockEncoder_Offset c enc k1 = SeriesBlockEncoder_Offset c enc k2"
    from k1 nz have "SeriesBlockEncoder_Offset c enc k1 \<noteq> 0"
      by (auto simp: seriesID_seriesKey)
    with i eq show "k1 = k2" unfolding offsetInjective_def by blast
  qed
  with d have "distinct (map (SeriesBlockEncoder_Offset c enc) (map (seriesKey c) sitr))"
    by (simp only: distinct_map)
  then have "distinct ids"
    by (simp add: ids seriesID_seriesKey [abs_def] comp_def)
  then show ?thesis by (simp add: strict_sorted_iff ids)
qed

lemma strict_lists:
  assumes m: "mergedSeriesDistinct c p" and i: "offsetInjective c enc"
    and e: "info_enc info = Some enc"
  shows "sortedListsSatisfy (sorted_wrt (<)) c p info"
  unfolding sortedListsSatisfy_def
proof (intro conjI allI impI)
  fix name key val ids
  assume "lookupSeriesIDs c info (TagValueSeriesIterator c p name key val) [] = Return ids"
  from lookup_ids_strict [OF e _ i this] m show "sorted_wrt (<) (sort ids)"
    by (simp add: mergedSeriesDistinct_def)
next
  fix name ids
  assume "lookupSeriesIDs c info (MeasurementSeriesIterator c p name) [] = Return ids"
  from lookup_ids_strict [OF e _ i this] m show "sorted_wrt (<) (sort ids)"
    by (simp add: mergedSeriesDistinct_def)
qed

lemma WriteTo_strict_lists:
  assumes m: "mergedSeriesDistinct c p" and i: "seriesIDsInjective c p"
  shows "WriteTo (restrictLists (sorted_wrt (<)) g h c) p sink = WriteTo c p sink"
proof (rule restrictLists_WriteTo)
  fix st0 st1
  assume s: "writeSeriesBlockTo c p st0 = (None, st1)"
  from writeSeriesBlockTo_sets_enc [OF s] obtain enc where e: "info_enc (st_info st1) = Some enc" ..
  with i s have "offsetInjective c enc" unfolding seriesIDsInjective_def by blast
  from strict_lists [OF m this e] show "sortedListsSatisfy (sorted_wrt (<)) c p (st_info st1)" .
qed

lemma WriteTo_sorted_lists:
  "WriteTo (restrictLists sorted g h c) p sink = WriteTo c p sink"
  by (rule restrictLists_WriteTo) (simp add: sortedListsSatisfy_def)

text \<open>C4.  The lists passed to \<^verbatim>\<open>EncodeValue\<close> and to \<^verbatim>\<open>Add\<close> are the results of
  \<^verbatim>\<open>sort.Sort\<close>: whatever the two would do with a list that is not ascending changes nothing
  of \<^verbatim>\<open>WriteTo\<close>.  When the merged series iterators yield no series key twice and the
  encoder of pass 1 gives distinct keys distinct identifiers, the same holds of the lists
  that are not strictly ascending: every list passed is strictly ascending, without
  duplicates.  For one lookup loop: under these conditions its sorted result is strictly
  ascending and holds exactly the identifiers of the series iterated.\<close>

theorem identifier_lists_sorted:
  "(\<forall>g h. WriteTo (restrictLists sorted g h c) p sink = WriteTo c p sink)
   \<and> (mergedSeriesDistinct c p \<longrightarrow> seriesIDsInjective c p \<longrightarrow>
        (\<forall>g h. WriteTo (restrictLists (sorted_wrt (<)) g h c) p sink = WriteTo c p sink))
   \<and> (info_enc info = Some enc \<longrightarrow> distinct (map (seriesKey c) sitr) \<longrightarrow> offsetInjective c enc \<longrightarrow>
        lookupSeriesIDs c info sitr [] = Return ids \<longrightarrow>
        sorted_wrt (<) (sort ids) \<and> set (sort ids) = seriesID c enc ` set sitr)"
proof (intro conjI allI impI)
  show "WriteTo (restrictLists sorted g h c) p sink = WriteTo c p sink" for g h
    by (rule WriteTo_sorted_lists)
  show "WriteTo (restrictLists (sorted_wrt (<)) g h c) p sink = WriteTo c p sink"
    if "mergedSeriesDistinct c p" "seriesIDsInjective c p" for g h
    using that by (rule WriteTo_strict_lists)
  assume "info_enc info = Some enc" "distinct (map (seriesKey c) sitr)" "offsetInjective c enc"
    "lookupSeriesIDs c info sitr [] = Return ids"
  from lookup_ids_strict [OF this]
  show "sorted_wrt (<) (sort ids)" and "set (sort ids) = seriesID c enc ` set sitr"
    by simp_all
qed

lemma firstByKey_key:
  "k \<in> key ` set es \<Longrightarrow> map key (firstByKey key es k) = [k]"
  by (induction es) auto

lemma map_key_concat_firstByKey:
  "set ks \<subseteq> key ` set es \<Longrightarrow> map key (concat (map (firstByKey key es) ks)) = ks"
  by (induction ks) (simp_all add: firstByKey_key)

lemma mergeByKey_keys:
  "map key (mergeByKey key itrs) = sort (remdups (map key (concat itrs)))"
  unfolding mergeByKey_def by (rule map_key_concat_firstByKey) simp

lemma mergeByKey_distinct: "distinct (map key (mergeByKey key itrs))"
  by (simp add: mergeByKey_keys)

lemma test_mergedSeriesDistinct: "mergedSeriesDistinct testCollab p"
proof -
  have k: "seriesKey testCollab = (\<lambda>e. testKey (s_Name e) (s_Tags e))"
    by (simp add: seriesKey_def [abs_def] testCollab_sel)
  have m: "MergeSeriesIterators testCollab = mergeByKey (\<lambda>e. testKey (s_Name e) (s_Tags e))"
    by (simp add: testCollab_def)
  show ?thesis
    unfolding mergedSeriesDistinct_def MeasurementSeriesIterator_def TagValueSeriesIterator_def k m
    by (simp add: mergeByKey_distinct)
qed

lemma test_offsetInjective: "offsetInjective testCollab testEncoded"
  by (auto simp: offsetInjective_def testCollab_sel testEncoded_def split: if_splits)

lemma test_seriesIDsInjective: "seriesIDsInjective testCollab [fileA, fileB]"
  unfolding seriesIDsInjective_def
proof (intro allI impI)
  fix st0 st1 enc
  assume "writeSeriesBlockTo testCollab [fileA, fileB] st0 = (None, st1)"
    and "info_enc (st_info st1) = Some enc"
  with testPass1Encoder have "enc = testEncoded"
    by (fastforce simp: testEncoded_def)
  with test_offsetInjective show "offsetInjective testCollab enc" by simp
qed

theorem identifier_lists_sorted_witness:
  "mergedSeriesDistinct testCollab [fileA, fileB]
   \<and> seriesIDsInjective testCollab [fileA, fileB]
   \<and> (\<forall>g h. WriteTo (restrictLists (sorted_wrt (<)) g h testCollab) [fileA, fileB] 1000 =
              WriteTo testCollab [fileA, fileB] 1000)
   \<and> offsetInjective testCollab testEncoded
   \<and> distinct (map (seriesKey testCollab) [mem_a, cpu_a])
   \<and> lookupSeriesIDs testCollab \<lparr>info_enc = Some testEncoded, info_tagSets = Map.empty\<rparr>
         [mem_a, cpu_a] [] = Return [23, 1]
   \<and> sorted_wrt (<) (sort [23, 1 :: uint64])
   \<and> sort [23, 1 :: uint64] = [1, 23]"
proof -
  let ?info = "\<lparr>info_enc = Some testEncoded, info_tagSets = Map.empty\<rparr>"
  note t = identifier_lists_sorted [of testCollab "[fileA, fileB]" 1000 ?info testEncoded
      "[mem_a, cpu_a]" "[23, 1]"]
  note m = test_mergedSeriesDistinct [of "[fileA, fileB]"] and i = test_seriesIDsInjective
    and o = test_offsetInjective
  have e: "info_enc ?info = Some testEncoded" by simp
  have d: "distinct (map (seriesKey testCollab) [mem_a, cpu_a])"
    by (simp add: seriesKey_def testCollab_sel testKey_def mem_a_def cpu_a_def)
  have l: "lookupSeriesIDs testCollab ?info [mem_a, cpu_a] [] = Return [23, 1]"
    by (simp add: testCollab_sel testKey_def mem_a_def cpu_a_def testEncoded_def)
  from t [THEN conjunct2, THEN conjunct1, THEN mp, THEN mp, OF m i]
  have 1: "\<forall>g h. WriteTo (restrictLists (sorted_wrt (<)) g h testCollab) [fileA, fileB] 1000 =
              WriteTo testCollab [fileA, fileB] 1000" .
  from t [THEN conjunct2, THEN conjunct2, THEN mp, THEN mp, THEN mp, THEN mp, OF e d o l]
  have 2: "sorted_wrt (<) (sort [23, 1 :: uint64])" by (rule conjunct1)
  have 3: "sort [23, 1 :: uint64] = [1, 23]" by code_simp
  from m i 1 o d l 2 3 show ?thesis by (intro conjI)
qed

section \<open>Errors and the flush\<close>

lemma WriteTo_run_cases:
  obtains
    (magic_fails) bs nn e d where
      "writeTo c (FileSignature c) sink = (bs, nn, Some e, d)"
  | (series_fails) bs nn d e st1 where
      "writeTo c (FileSignature c) sink = (bs, nn, None, d)"
      "writeSeriesBlockTo c p (afterMagic sink bs nn d) = (Some e, st1)"
  | (tagsets_panic) bs nn d st1 x where
      "writeTo c (FileSignature c) sink = (bs, nn, None, d)"
      "writeSeriesBlockTo c p (afterMagic sink bs nn d) = (None, st1)"
      "writeTagsetsTo c p st1 = Panic x"
  | (tagsets_fails) bs nn d st1 e st2 where
      "writeTo c (FileSignature c) sink = (bs, nn, None, d)"
      "writeSeriesBlockTo c p (afterMagic sink bs nn d) = (None, st1)"
      "writeTagsetsTo c p st1 = Return (Some e, st2)"
  | (measurements_panic) bs nn d st1 st2 x where
      "writeTo c (FileSignature c) sink = (bs, nn, None, d)"
      "writeSeriesBlockTo c p (afterMagic sink bs nn d) = (None, st1)"
      "writeTagsetsTo c p st1 = Return (None, st2)"
      "writeMeasurementBlockTo c p st2 = Panic x"
  | (measurements_fails) bs nn d st1 st2 e st3 where
      "writeTo c (FileSignature c) sink = (bs, nn, None, d)"
      "writeSeriesBlockTo c p (afterMagic sink bs nn d) = (None, st1)"
      "writeTagsetsTo c p st1 = Return (None, st2)"
      "writeMeasurementBlockTo c p st2 = Return (Some e, st3)"
  | (trailer_fails) bs nn d st1 st2 st3 bs4 nn4 e d4 where
      "writeTo c (FileSignature c) sink = (bs, nn, None, d)"
      "writeSeriesBlockTo c p (afterMagic sink bs nn d) = (None, st1)"
      "writeTagsetsTo c p st1 = Return (None, st2)"
      "writeMeasurementBlockTo c p st2 = Return (None, st3)"
      "IndexFileTrailer_WriteTo c (trailerAt nn (st_n st1) (st_n st2) (st_n st3))
         (w_dev (st_w st3)) = (bs4, nn4, Some e, d4)"
  | (flush) bs nn d st1 st2 st3 bs4 nn4 d4 ferr w5 where
      "writeTo c (FileSignature c) sink = (bs, nn, None, d)"
      "writeSeriesBlockTo c p (afterMagic sink bs nn d) = (None, st1)"
      "writeTagsetsTo c p st1 = Return (None, st2)"
      "writeMeasurementBlockTo c p st2 = Return (None, st3)"
      "IndexFileTrailer_WriteTo c (trailerAt nn (st_n st1) (st_n st2) (st_n st3))
         (w_dev (st_w st3)) = (bs4, nn4, None, d4)"
      "Flush c (emit (st_w st3) bs4 d4) = (ferr, w5)"
proof -
  obtain bs nn err d where w: "writeTo c (FileSignature c) sink = (bs, nn, err, d)"
    by (cases "writeTo c (FileSignature c) sink") auto
  show ?thesis
  proof (cases err)
    case (Some e)
    with w magic_fails show ?thesis by simp
  next
    case None
    note w = w [unfolded None]
    obtain e1 st1 where s: "writeSeriesBlockTo c p (afterMagic sink bs nn d) = (e1, st1)"
      by (cases "writeSeriesBlockTo c p (afterMagic sink bs nn d)") auto
    show ?thesis
    proof (cases e1)
      case (Some e)
      with w s series_fails show ?thesis by simp
    next
      case None
      note s = s [unfolded None]
      show ?thesis
      proof (cases "writeTagsetsTo c p st1")
        case (Panic x)
        with w s tagsets_panic show ?thesis by simp
      next
        case (Return r)
        obtain e2 st2 where r: "r = (e2, st2)" by (cases r)
        note t = Return [unfolded r]
        show ?thesis
        proof (cases e2)
          case (Some e)
          with w s t tagsets_fails show ?thesis by simp
        next
          case None
          note t = t [unfolded None]
          show ?thesis
          proof (cases "writeMeasurementBlockTo c p st2")
            case (Panic x)
            with w s t measurements_panic show ?thesis by simp
          next
            case (Return r3)
            obtain e3 st3 where r3: "r3 = (e3, st3)" by (cases r3)
            note m = Return [unfolded r3]
            show ?thesis
            proof (cases e3)
              case (Some e)
              with w s t m measurements_fails show ?thesis by simp
            next
              case None
              note m = m [unfolded None]
              obtain bs4 nn4 e4 d4 where
                tr: "IndexFileTrailer_WriteTo c (trailerAt nn (st_n st1) (st_n st2) (st_n st3))
                       (w_dev (st_w st3)) = (bs4, nn4, e4, d4)"
                by (cases "IndexFileTrailer_WriteTo c (trailerAt nn (st_n st1) (st_n st2) (st_n st3))
                       (w_dev (st_w st3))") auto
              show ?thesis
              proof (cases e4)
                case (Some e)
                with w s t m tr trailer_fails show ?thesis by simp
              next
                case None
                obtain ferr w5 where f: "Flush c (emit (st_w st3) bs4 d4) = (ferr, w5)"
                  by (cases "Flush c (emit (st_w st3) bs4 d4)") auto
                from w s t m tr [unfolded None] f show ?thesis by (rule flush)
              qed
            qed
          qed
        qed
      qed
    qed
  qed
qed

lemma emit_simps:
  "w_out (emit w bs d) = w_out w @ bs"
  "w_flushed (emit w bs d) = w_flushed w"
  "w_dev (emit w bs d) = d"
  by (simp_all add: emit_def)

lemma extends_refl: "extends w w"
  by (simp add: extends_def)

lemma extends_emit: "extends w (emit w bs d)"
  by (simp add: extends_def emit_simps)

lemma extends_trans: "extends w1 w2 \<Longrightarrow> extends w2 w3 \<Longrightarrow> extends w1 w3"
  by (auto simp: extends_def)

lemma extends_then_emit: "extends w w1 \<Longrightarrow> extends w (emit w1 bs d)"
  by (auto simp: extends_def emit_simps)

lemma encodeSeries_extends:
  "encodeSeries c itr enc w = (err, enc', w') \<Longrightarrow> extends w w'"
proof (induction itr arbitrary: enc w)
  case Nil
  then show ?case by (simp add: extends_refl)
next
  case (Cons e itr)
  obtain bs er enc1 d where
    s: "SeriesBlockEncoder_Encode c enc (s_Name e) (s_Tags e) (s_Deleted e) (w_dev w) = (bs, er, enc1, d)"
    by (cases "SeriesBlockEncoder_Encode c enc (s_Name e) (s_Tags e) (s_Deleted e) (w_dev w)") auto
  show ?case
  proof (cases er)
    case None
    with Cons.prems s have "encodeSeries c itr enc1 (emit w bs d) = (err, enc', w')" by simp
    from Cons.IH [OF this] extends_emit [of w bs d] show ?thesis by (rule extends_trans [rotated])
  next
    case (Some x)
    with Cons.prems s show ?thesis by (auto simp: extends_emit)
  qed
qed

lemma writeSeriesBlockTo_extends:
  "writeSeriesBlockTo c p st = (err, st') \<Longrightarrow> extends (st_w st) (st_w st')"
  by (auto simp: writeSeriesBlockTo_def Let_def split: prod.splits option.splits
      dest!: encodeSeries_extends intro: extends_then_emit)

lemma encodeTagValues_extends:
  "encodeTagValues c p info name key vitr enc w = Return (err, enc', w') \<Longrightarrow> extends w w'"
proof (induction vitr arbitrary: enc w)
  case Nil
  then show ?case by (simp add: extends_refl)
next
  case (Cons ve vitr)
  from Cons.prems obtain ids where
    l: "lookupSeriesIDs c info (TagValueSeriesIterator c p name key (v_Value ve)) [] = Return ids"
    by (auto simp: Let_def split: outcome.splits)
  obtain bs er enc1 d where
    s: "TagBlockEncoder_EncodeValue c enc (v_Value ve) (v_Deleted ve) (sort ids) (w_dev w) = (bs, er, enc1, d)"
    by (cases "TagBlockEncoder_EncodeValue c enc (v_Value ve) (v_Deleted ve) (sort ids) (w_dev w)") auto
  show ?case
  proof (cases er)
    case None
    with Cons.prems l s have "encodeTagValues c p info name key vitr enc1 (emit w bs d) = Return (err, enc', w')"
      by simp
    from Cons.IH [OF this] extends_emit [of w bs d] show ?thesis by (rule extends_trans [rotated])
  next
    case (Some x)
    with Cons.prems l s show ?thesis by (auto simp: extends_emit)
  qed
qed

lemma encodeTagKeys_extends:
  "encodeTagKeys c p info name kitr enc w = Return (err, enc', w') \<Longrightarrow> extends w w'"
proof (induction kitr arbitrary: enc w)
  case Nil
  then show ?case by (simp add: extends_refl)
next
  case (Cons ke kitr)
  obtain bs er enc1 d where
    s: "TagBlockEncoder_EncodeKey c enc (k_Key ke) (k_Deleted ke) (w_dev w) = (bs, er, enc1, d)"
    by (cases "TagBlockEncoder_EncodeKey c enc (k_Key ke) (k_Deleted ke) (w_dev w)") auto
  show ?case
  proof (cases er)
    case (Some x)
    with Cons.prems s show ?thesis by (auto simp: extends_emit)
  next
    case None
    with Cons.prems s obtain e2 enc2 w2 where
      v: "encodeTagValues c p info name (k_Key ke) (k_TagValueIterator ke) enc1 (emit w bs d) =
            Return (e2, enc2, w2)"
      by (auto split: outcome.splits)
    from encodeTagValues_extends [OF v] extends_emit [of w bs d]
    have x: "extends w w2" by (rule extends_trans [rotated])
    show ?thesis
    proof (cases e2)
      case (Some y)
      with Cons.prems s None v x show ?thesis by auto
    next
      case None': None
      with Cons.prems s None v have "encodeTagKeys c p info name kitr enc2 w2 = Return (err, enc', w')"
        by simp
      from x Cons.IH [OF this] show ?thesis by (rule extends_trans)
    qed
  qed
qed

lemma writeTagsetTo_extends:
  "writeTagsetTo c p name st = Return (err, st') \<Longrightarrow> extends (st_w st) (st_w st')"
  by (auto simp: writeTagsetTo_def Let_def split: prod.splits option.splits outcome.splits
      dest!: encodeTagKeys_extends intro: extends_then_emit extends_refl)

lemma writeTagsetsLoop_extends:
  "writeTagsetsLoop c p ms st = Return (err, st') \<Longrightarrow> extends (st_w st) (st_w st')"
proof (induction ms arbitrary: st)
  case Nil
  then show ?case by (simp add: extends_refl)
next
  case (Cons m ms)
  from Cons.prems obtain e1 st1 where t: "writeTagsetTo c p (m_Name m) st = Return (e1, st1)"
    by (auto split: outcome.splits)
  show ?case
  proof (cases e1)
    case (Some x)
    with Cons.prems t writeTagsetTo_extends [OF t] show ?thesis by auto
  next
    case None
    with Cons.prems t have "writeTagsetsLoop c p ms st1 = Return (err, st')" by simp
    from writeTagsetTo_extends [OF t] Cons.IH [OF this] show ?thesis by (rule extends_trans)
  qed
qed

lemma writeTagsetsTo_extends:
  "writeTagsetsTo c p st = Return (err, st') \<Longrightarrow> extends (st_w st) (st_w st')"
  unfolding writeTagsetsTo_def by (rule writeTagsetsLoop_extends)

lemma writeMeasurementBlockTo_extends:
  "writeMeasurementBlockTo c p st = Return (err, st') \<Longrightarrow> extends (st_w st) (st_w st')"
  by (auto simp: writeMeasurementBlockTo_def Let_def split: prod.splits outcome.splits
      intro: extends_emit)

lemma Flush_None:
  "Flush c w = (None, w') \<Longrightarrow>
   w_out w' = w_out w \<and> w_flushed w' = w_out w \<and> bufio_Flush c (w_dev w) = (None, w_dev w')"
  by (auto simp: Flush_def split: prod.splits option.splits)

lemma Flush_Some:
  "Flush c w = (Some e, w') \<Longrightarrow>
   w_out w' = w_out w \<and> w_flushed w' = w_flushed w \<and> bufio_Flush c (w_dev w) = (Some e, w_dev w')"
  by (auto simp: Flush_def split: prod.splits option.splits)

lemma afterMagic_simps:
  "w_out (st_w (afterMagic sink bs nn d)) = bs"
  "w_flushed (st_w (afterMagic sink bs nn d)) = []"
  "w_dev (st_w (afterMagic sink bs nn d)) = d"
  "st_n (afterMagic sink bs nn d) = nn"
  "info_enc (st_info (afterMagic sink bs nn d)) = None"
  "info_tagSets (st_info (afterMagic sink bs nn d)) = Map.empty"
  by (simp_all add: afterMagic_def emit_def bufio_NewWriter_def)

lemma encodeSeries_stops:
  "encodeSeries c pre enc w = (None, enc1, w1) \<Longrightarrow>
   SeriesBlockEncoder_Encode c enc1 (s_Name x) (s_Tags x) (s_Deleted x) (w_dev w1) =
     (bs, Some e, enc2, d) \<Longrightarrow>
   encodeSeries c (pre @ x # post) enc w = (Some e, enc2, emit w1 bs d)"
proof (induction pre arbitrary: enc w)
  case Nil
  then show ?case by simp
next
  case (Cons y pre)
  then show ?case by (auto split: prod.splits option.splits)
qed

lemma writeSeriesBlockTo_encode_fails:
  "encodeSeries c (SeriesIterator c p) (NewSeriesBlockEncoder c) (st_w st) = (Some e, enc1, w1) \<Longrightarrow>
   writeSeriesBlockTo c p st = (Some e, st\<lparr>st_w := w1\<rparr>)"
  by (simp add: writeSeriesBlockTo_def)

lemma writeSeriesBlockTo_close_fails:
  "encodeSeries c (SeriesIterator c p) (NewSeriesBlockEncoder c) (st_w st) = (None, enc1, w1) \<Longrightarrow>
   SeriesBlockEncoder_Close c enc1 (w_dev w1) = (bs, Some e, enc2, d) \<Longrightarrow>
   writeSeriesBlockTo c p st =
     (Some e, st\<lparr>st_w := emit w1 bs d, st_n := st_n st + SeriesBlockEncoder_N c enc2\<rparr>)"
  by (simp add: writeSeriesBlockTo_def)

lemma encodeTagValues_stops:
  "encodeTagValues c p info name key pre enc w = Return (None, enc1, w1) \<Longrightarrow>
   lookupSeriesIDs c info (TagValueSeriesIterator c p name key (v_Value ve)) [] = Return ids \<Longrightarrow>
   TagBlockEncoder_EncodeValue c enc1 (v_Value ve) (v_Deleted ve) (sort ids) (w_dev w1) =
     (bs, Some e, enc2, d) \<Longrightarrow>
   encodeTagValues c p info name key (pre @ ve # post) enc w = Return (Some e, enc2, emit w1 bs d)"
proof (induction pre arbitrary: enc w)
  case Nil
  then show ?case by simp
next
  case (Cons y pre)
  then show ?case by (auto simp: Let_def split: prod.splits option.splits outcome.splits)
qed

lemma encodeTagKeys_stops_at_key:
  "encodeTagKeys c p info name pre enc w = Return (None, enc1, w1) \<Longrightarrow>
   TagBlockEncoder_EncodeKey c enc1 (k_Key ke) (k_Deleted ke) (w_dev w1) = (bs, Some e, enc2, d) \<Longrightarrow>
   encodeTagKeys c p info name (pre @ ke # post) enc w = Return (Some e, enc2, emit w1 bs d)"
proof (induction pre arbitrary: enc w)
  case Nil
  then show ?case by simp
next
  case (Cons y pre)
  then show ?case by (auto split: prod.splits option.splits outcome.splits)
qed

lemma encodeTagKeys_stops_at_value:
  "encodeTagKeys c p info name pre enc w = Return (None, enc1, w1) \<Longrightarrow>
   TagBlockEncoder_EncodeKey c enc1 (k_Key ke) (k_Deleted ke) (w_dev w1) = (bs, None, enc2, d) \<Longrightarrow>
   encodeTagValues c p info name (k_Key ke) (k_TagValueIterator ke) enc2 (emit w1 bs d) =
     Return (Some e, enc3, w3) \<Longrightarrow>
   encodeTagKeys c p info name (pre @ ke # post) enc w = Return (Some e, enc3, w3)"
proof (induction pre arbitrary: enc w)
  case Nil
  then show ?case by simp
next
  case (Cons y pre)
  then show ?case by (auto split: prod.splits option.splits outcome.splits)
qed

lemma writeTagsetTo_encode_fails:
  "encodeTagKeys c p (st_info st) name (fst (TagKeyIterator c p name)) (NewTagBlockEncoder c) (st_w st) =
     Return (Some e, enc1, w1) \<Longrightarrow>
   writeTagsetTo c p name st = Return (Some e, st\<lparr>st_w := w1\<rparr>)"
  by (simp add: writeTagsetTo_def TagKeyIterator_def)

lemma writeTagsetTo_close_fails:
  "encodeTagKeys c p (st_info st) name (fst (TagKeyIterator c p name)) (NewTagBlockEncoder c) (st_w st) =
     Return (None, enc1, w1) \<Longrightarrow>
   TagBlockEncoder_Close c enc1 (w_dev w1) = (bs, Some e, enc2, d) \<Longrightarrow>
   writeTagsetTo c p name st =
     Return (Some e, st\<lparr>st_w := emit w1 bs d, st_n := st_n st + TagBlockEncoder_N c enc2\<rparr>)"
  by (simp add: writeTagsetTo_def TagKeyIterator_def)

lemma writeTagsetsLoop_stops:
  "writeTagsetsLoop c p pre st = Return (None, st1) \<Longrightarrow>
   writeTagsetTo c p (m_Name m) st1 = Return (Some e, st2) \<Longrightarrow>
   writeTagsetsLoop c p (pre @ m # post) st = Return (Some e, st2)"
proof (induction pre arbitrary: st)
  case Nil
  then show ?case by simp
next
  case (Cons y pre)
  then show ?case by (auto split: prod.splits option.splits outcome.splits)
qed

lemma writeMeasurementBlockTo_write_fails:
  "addMeasurements c p (st_info st) (MeasurementIterator c p) (NewMeasurementBlockWriter c) = Return mw \<Longrightarrow>
   MeasurementBlockWriter_WriteTo c mw (w_dev (st_w st)) = (bs, nn, Some e, d) \<Longrightarrow>
   writeMeasurementBlockTo c p st =
     Return (Some e, st\<lparr>st_w := emit (st_w st) bs d, st_n := st_n st + nn\<rparr>)"
  by (simp add: writeMeasurementBlockTo_def)

lemma replaceTF_sel:
  "MergeMeasurementIterators (replaceTrailerAndFlush tw fl c) = MergeMeasurementIterators c"
  "MergeTagKeyIterators (replaceTrailerAndFlush tw fl c) = MergeTagKeyIterators c"
  "MergeSeriesIterators (replaceTrailerAndFlush tw fl c) = MergeSeriesIterators c"
  "FileSignature (replaceTrailerAndFlush tw fl c) = FileSignature c"
  "writeTo (replaceTrailerAndFlush tw fl c) = writeTo c"
  "AppendSeriesKey (replaceTrailerAndFlush tw fl c) = AppendSeriesKey c"
  "NewSeriesBlockEncoder (replaceTrailerAndFlush tw fl c) = NewSeriesBlockEncoder c"
  "SeriesBlockEncoder_Encode (replaceTrailerAndFlush tw fl c) = SeriesBlockEncoder_Encode c"
  "SeriesBlockEncoder_Close (replaceTrailerAndFlush tw fl c) = SeriesBlockEncoder_Close c"
  "SeriesBlockEncoder_N (replaceTrailerAndFlush tw fl c) = SeriesBlockEncoder_N c"
  "SeriesBlockEncoder_Offset (replaceTrailerAndFlush tw fl c) = SeriesBlockEncoder_Offset c"
  "NewTagBlockEncoder (replaceTrailerAndFlush tw fl c) = NewTagBlockEncoder c"
  "TagBlockEncoder_EncodeKey (replaceTrailerAndFlush tw fl c) = TagBlockEncoder_EncodeKey c"
  "TagBlockEncoder_EncodeValue (replaceTrailerAndFlush tw fl c) = TagBlockEncoder_EncodeValue c"
  "TagBlockEncoder_Close (replaceTrailerAndFlush tw fl c) = TagBlockEncoder_Close c"
  "TagBlockEncoder_N (replaceTrailerAndFlush tw fl c) = TagBlockEncoder_N c"
  "NewMeasurementBlockWriter (replaceTrailerAndFlush tw fl c) = NewMeasurementBlockWriter c"
  "MeasurementBlockWriter_Add (replaceTrailerAndFlush tw fl c) = MeasurementBlockWriter_Add c"
  "MeasurementBlockWriter_WriteTo (replaceTrailerAndFlush tw fl c) = MeasurementBlockWriter_WriteTo c"
  by (simp_all add: replaceTrailerAndFlush_def)

lemma replaceTF_iterators:
  "MeasurementIterator (replaceTrailerAndFlush tw fl c) p = MeasurementIterator c p"
  "TagKeyIterator (replaceTrailerAndFlush tw fl c) p name = TagKeyIterator c p name"
  "SeriesIterator (replaceTrailerAndFlush tw fl c) p = SeriesIterator c p"
  "MeasurementSeriesIterator (replaceTrailerAndFlush tw fl c) p name = MeasurementSeriesIterator c p name"
  "TagValueSeriesIterator (replaceTrailerAndFlush tw fl c) p name key val =
     TagValueSeriesIterator c p name key val"
  by (simp_all add: MeasurementIterator_def TagKeyIterator_def SeriesIterator_def
      MeasurementSeriesIterator_def TagValueSeriesIterator_def replaceTF_sel)

lemma replaceTF_lookup:
  "lookupSeriesIDs (replaceTrailerAndFlush tw fl c) info sitr acc = lookupSeriesIDs c info sitr acc"
  by (induction sitr arbitrary: acc) (simp_all add: replaceTF_sel Let_def split: option.splits)

lemma replaceTF_encodeSeries:
  "encodeSeries (replaceTrailerAndFlush tw fl c) itr enc w = encodeSeries c itr enc w"
  by (induction itr arbitrary: enc w)
     (simp_all add: replaceTF_sel split: option.splits prod.splits)

lemma replaceTF_writeSeriesBlockTo:
  "writeSeriesBlockTo (replaceTrailerAndFlush tw fl c) p st = writeSeriesBlockTo c p st"
  by (simp add: writeSeriesBlockTo_def replaceTF_sel replaceTF_iterators
      replaceTF_encodeSeries Let_def split: option.splits prod.splits)

lemma replaceTF_encodeTagValues:
  "encodeTagValues (replaceTrailerAndFlush tw fl c) p info name key vitr enc w =
   encodeTagValues c p info name key vitr enc w"
  by (induction vitr arbitrary: enc w)
     (simp_all add: replaceTF_sel replaceTF_lookup replaceTF_iterators Let_def
        split: option.splits prod.splits outcome.splits)

lemma replaceTF_encodeTagKeys:
  "encodeTagKeys (replaceTrailerAndFlush tw fl c) p info name kitr enc w =
   encodeTagKeys c p info name kitr enc w"
  by (induction kitr arbitrary: enc w)
     (simp_all add: replaceTF_sel replaceTF_encodeTagValues
        split: option.splits prod.splits outcome.splits)

lemma replaceTF_writeTagsetTo:
  "writeTagsetTo (replaceTrailerAndFlush tw fl c) p name st = writeTagsetTo c p name st"
  by (simp add: writeTagsetTo_def replaceTF_sel replaceTF_iterators
      replaceTF_encodeTagKeys Let_def split: option.splits prod.splits outcome.splits)

lemma replaceTF_writeTagsetsLoop:
  "writeTagsetsLoop (replaceTrailerAndFlush tw fl c) p ms st = writeTagsetsLoop c p ms st"
  by (induction ms arbitrary: st)
     (simp_all add: replaceTF_writeTagsetTo split: option.splits prod.splits outcome.splits)

lemma replaceTF_writeTagsetsTo:
  "writeTagsetsTo (replaceTrailerAndFlush tw fl c) p st = writeTagsetsTo c p st"
  by (simp add: writeTagsetsTo_def replaceTF_iterators replaceTF_writeTagsetsLoop)

lemma replaceTF_addMeasurements:
  "addMeasurements (replaceTrailerAndFlush tw fl c) p info ms mw = addMeasurements c p info ms mw"
  by (induction ms arbitrary: mw)
     (simp_all add: replaceTF_sel replaceTF_lookup replaceTF_iterators Let_def
        split: option.splits prod.splits outcome.splits)

lemma replaceTF_writeMeasurementBlockTo:
  "writeMeasurementBlockTo (replaceTrailerAndFlush tw fl c) p st = writeMeasurementBlockTo c p st"
  by (simp add: writeMeasurementBlockTo_def replaceTF_sel replaceTF_iterators
      replaceTF_addMeasurements Let_def split: option.splits prod.splits outcome.splits)

lemmas replaceTF_phases = replaceTF_sel(4,5) replaceTF_writeSeriesBlockTo replaceTF_writeTagsetsTo
  replaceTF_writeMeasurementBlockTo

lemma WriteTo_error_origin:
  assumes r: "WriteTo c p sink = Return ((n, Some e), w')"
  shows "w_flushed w' = [] \<and>
     ((\<forall>tw fl. WriteTo (replaceTrailerAndFlush tw fl c) p sink = Return ((n, Some e), w'))
      \<or> (\<exists>t d bs nn. IndexFileTrailer_WriteTo c t d = (bs, nn, Some e, w_dev w'))
      \<or> (\<exists>d. bufio_Flush c d = (Some e, w_dev w')))"
proof (cases rule: WriteTo_run_cases [where c = c and sink = sink and p = p])
  case (magic_fails bs nn e' d)
  from WriteTo_magic_fails [OF magic_fails, where p = p] r
  have eq: "n = nn" "e' = e" "w' = emit (bufio_NewWriter sink) bs d" by simp_all
  have "WriteTo (replaceTrailerAndFlush tw fl c) p sink = Return ((n, Some e), w')" for tw fl
    using magic_fails eq by (intro WriteTo_magic_fails [THEN trans]) (simp_all add: replaceTF_phases)
  with eq show ?thesis by (simp add: emit_simps bufio_NewWriter_def)
next
  case (series_fails bs nn d e' st1)
  from WriteTo_series_fails [OF series_fails] r
  have eq: "n = st_n st1" "e' = e" "w' = st_w st1" by simp_all
  from writeSeriesBlockTo_extends [OF series_fails(2)]
  have f: "w_flushed w' = []" by (simp add: extends_def afterMagic_simps eq)
  have "WriteTo (replaceTrailerAndFlush tw fl c) p sink = Return ((n, Some e), w')" for tw fl
    using series_fails eq by (intro WriteTo_series_fails [THEN trans]) (simp_all add: replaceTF_phases)
  with f show ?thesis by simp
next
  case (tagsets_panic bs nn d st1 x)
  from WriteTo_tagsets_panic [OF tagsets_panic] r show ?thesis by simp
next
  case (tagsets_fails bs nn d st1 e' st2)
  from WriteTo_tagsets_fails [OF tagsets_fails] r
  have eq: "n = st_n st2" "e' = e" "w' = st_w st2" by simp_all
  from writeSeriesBlockTo_extends [OF tagsets_fails(2)] writeTagsetsTo_extends [OF tagsets_fails(3)]
  have f: "w_flushed w' = []" by (simp add: extends_def afterMagic_simps eq)
  have "WriteTo (replaceTrailerAndFlush tw fl c) p sink = Return ((n, Some e), w')" for tw fl
    using tagsets_fails eq by (intro WriteTo_tagsets_fails [THEN trans]) (simp_all add: replaceTF_phases)
  with f show ?thesis by simp
next
  case (measurements_panic bs nn d st1 st2 x)
  from WriteTo_measurements_panic [OF measurements_panic] r show ?thesis by simp
next
  case (measurements_fails bs nn d st1 st2 e' st3)
  from WriteTo_measurements_fails [OF measurements_fails] r
  have eq: "n = st_n st3" "e' = e" "w' = st_w st3" by simp_all
  from writeSeriesBlockTo_extends [OF measurements_fails(2)]
    writeTagsetsTo_extends [OF measurements_fails(3)]
    writeMeasurementBlockTo_extends [OF measurements_fails(4)]
  have f: "w_flushed w' = []" by (simp add: extends_def afterMagic_simps eq)
  have "WriteTo (replaceTrailerAndFlush tw fl c) p sink = Return ((n, Some e), w')" for tw fl
    using measurements_fails eq
    by (intro WriteTo_measurements_fails [THEN trans]) (simp_all add: replaceTF_phases)
  with f show ?thesis by simp
next
  case (trailer_fails bs nn d st1 st2 st3 bs4 nn4 e' d4)
  from WriteTo_trailer_fails [OF trailer_fails] r
  have eq: "e' = e" "w' = emit (st_w st3) bs4 d4" by simp_all
  from writeSeriesBlockTo_extends [OF trailer_fails(2)]
    writeTagsetsTo_extends [OF trailer_fails(3)]
    writeMeasurementBlockTo_extends [OF trailer_fails(4)]
  have f: "w_flushed w' = []" by (simp add: extends_def afterMagic_simps eq emit_simps)
  from trailer_fails(5) eq
  have "\<exists>t d bs nn. IndexFileTrailer_WriteTo c t d = (bs, nn, Some e, w_dev w')"
    by (auto simp: emit_simps)
  with f show ?thesis by simp
next
  case (flush bs nn d st1 st2 st3 bs4 nn4 d4 ferr w5)
  from WriteTo_flush [OF flush] r have eq: "ferr = Some e" "w5 = w'" by simp_all
  from writeSeriesBlockTo_extends [OF flush(2)] writeTagsetsTo_extends [OF flush(3)]
    writeMeasurementBlockTo_extends [OF flush(4)] Flush_Some [OF flush(6) [unfolded eq]]
  have f: "w_flushed w' = []" and "\<exists>d. bufio_Flush c d = (Some e, w_dev w')"
    by (auto simp: extends_def afterMagic_simps emit_simps)
  then show ?thesis by simp
qed

lemma WriteTo_success_flushed:
  fixes c :: "('senc, 'tenc, 'mw, 'd) Collab"
  assumes r: "WriteTo c p sink = Return ((n, None), w')"
  shows "w_flushed w' = w_out w' \<and> (\<exists>d. bufio_Flush c d = (None, w_dev w'))"
proof -
  from r obtain st3 :: "('senc, 'd) cstate" and bs4 d4
    where "Flush c (emit (st_w st3) bs4 d4) = (None, w')"
    unfolding WriteTo_success_iff by blast
  from Flush_None [OF this] show ?thesis by auto
qed

text \<open>C5.  A \<^verbatim>\<open>WriteTo\<close> that returns a \<^verbatim>\<open>nil\<close> error ended with a \<^verbatim>\<open>Flush\<close> that
  returned \<^verbatim>\<open>nil\<close>, and everything the buffered writer accepted is flushed.  A \<^verbatim>\<open>WriteTo\<close>
  that returns an error has flushed nothing, and either the trailer writer and \<^verbatim>\<open>Flush\<close>
  were never called (the result is the same whatever they are), or the error is the
  trailer writer's own, or that of \<^verbatim>\<open>Flush\<close>.  The error of the first failing phase is the
  result, with the counter and the writer as that phase left them: of the signature write,
  of each of the three passes, of the trailer, of the flush.  Inside the passes the first
  failing step ends the pass with its error and the writer as the step left it, whatever
  entries would follow: \<^verbatim>\<open>Encode\<close> and \<^verbatim>\<open>Close\<close> of the series block encoder,
  \<^verbatim>\<open>EncodeKey\<close>, \<^verbatim>\<open>EncodeValue\<close> and \<^verbatim>\<open>Close\<close> of a tag block encoder, a failing
  measurement of \<^verbatim>\<open>writeTagsetsTo\<close>, and \<^verbatim>\<open>WriteTo\<close> of the measurement block writer.\<close>

theorem errors_stop_WriteTo:
  fixes c :: "('senc, 'tenc, 'mw, 'd) Collab"
  shows
  "(WriteTo c p sink = Return ((n, None), w') \<longrightarrow>
      w_flushed w' = w_out w' \<and> (\<exists>d. bufio_Flush c d = (None, w_dev w')))
   \<and> (WriteTo c p sink = Return ((n, Some e), w') \<longrightarrow>
      w_flushed w' = [] \<and>
      ((\<forall>tw fl. WriteTo (replaceTrailerAndFlush tw fl c) p sink = Return ((n, Some e), w'))
       \<or> (\<exists>t d bs nn. IndexFileTrailer_WriteTo c t d = (bs, nn, Some e, w_dev w'))
       \<or> (\<exists>d. bufio_Flush c d = (Some e, w_dev w'))))
   \<and> (writeTo c (FileSignature c) sink = (bs0, nn0, Some e, d0) \<longrightarrow>
        WriteTo c p sink = Return ((nn0, Some e), emit (bufio_NewWriter sink) bs0 d0))
   \<and> (writeTo c (FileSignature c) sink = (bs0, nn0, None, d0) \<longrightarrow>
        (writeSeriesBlockTo c p (afterMagic sink bs0 nn0 d0) = (Some e, st1) \<longrightarrow>
           WriteTo c p sink = Return ((st_n st1, Some e), st_w st1))
      \<and> (writeSeriesBlockTo c p (afterMagic sink bs0 nn0 d0) = (None, st1) \<longrightarrow>
           (writeTagsetsTo c p st1 = Return (Some e, st2) \<longrightarrow>
              WriteTo c p sink = Return ((st_n st2, Some e), st_w st2))
         \<and> (writeTagsetsTo c p st1 = Return (None, st2) \<longrightarrow>
              (writeMeasurementBlockTo c p st2 = Return (Some e, st3) \<longrightarrow>
                 WriteTo c p sink = Return ((st_n st3, Some e), st_w st3))
            \<and> (writeMeasurementBlockTo c p st2 = Return (None, st3) \<longrightarrow>
                 (IndexFileTrailer_WriteTo c (trailerAt nn0 (st_n st1) (st_n st2) (st_n st3))
                      (w_dev (st_w st3)) = (bs4, nn4, Some e, d4) \<longrightarrow>
                    WriteTo c p sink = Return ((st_n st3 + nn4, Some e), emit (st_w st3) bs4 d4))
               \<and> (IndexFileTrailer_WriteTo c (trailerAt nn0 (st_n st1) (st_n st2) (st_n st3))
                      (w_dev (st_w st3)) = (bs4, nn4, None, d4) \<longrightarrow>
                    Flush c (emit (st_w st3) bs4 d4) = (Some e, w5) \<longrightarrow>
                    WriteTo c p sink = Return ((st_n st3 + nn4, Some e), w5))))))
   \<and> (encodeSeries c pre enc w = (None, enc1, w1) \<longrightarrow>
        SeriesBlockEncoder_Encode c enc1 (s_Name x) (s_Tags x) (s_Deleted x) (w_dev w1) =
          (bs, Some e, enc2, d) \<longrightarrow>
        encodeSeries c (pre @ x # post) enc w = (Some e, enc2, emit w1 bs d))
   \<and> (encodeSeries c (SeriesIterator c p) (NewSeriesBlockEncoder c) (st_w st) = (Some e, enc1, w1) \<longrightarrow>
        writeSeriesBlockTo c p st = (Some e, st\<lparr>st_w := w1\<rparr>))
   \<and> (encodeSeries c (SeriesIterator c p) (NewSeriesBlockEncoder c) (st_w st) = (None, enc1, w1) \<longrightarrow>
        SeriesBlockEncoder_Close c enc1 (w_dev w1) = (bs, Some e, enc2, d) \<longrightarrow>
        writeSeriesBlockTo c p st =
          (Some e, st\<lparr>st_w := emit w1 bs d, st_n := st_n st + SeriesBlockEncoder_N c enc2\<rparr>))
   \<and> (encodeTagValues c p info name key vpre tenc w = Return (None, tenc1, w1) \<longrightarrow>
        lookupSeriesIDs c info (TagValueSeriesIterator c p name key (v_Value ve)) [] = Return ids \<longrightarrow>
        TagBlockEncoder_EncodeValue c tenc1 (v_Value ve) (v_Deleted ve) (sort ids) (w_dev w1) =
          (bs, Some e, tenc2, d) \<longrightarrow>
        encodeTagValues c p info name key (vpre @ ve # vpost) tenc w =
          Return (Some e, tenc2, emit w1 bs d))
   \<and> (encodeTagKeys c p info name kpre tenc w = Return (None, tenc1, w1) \<longrightarrow>
        (TagBlockEncoder_EncodeKey c tenc1 (k_Key ke) (k_Deleted ke) (w_dev w1) = (bs, Some e, tenc2, d) \<longrightarrow>
           encodeTagKeys c p info name (kpre @ ke # kpost) tenc w = Return (Some e, tenc2, emit w1 bs d))
      \<and> (TagBlockEncoder_EncodeKey c tenc1 (k_Key ke) (k_Deleted ke) (w_dev w1) = (bs, None, tenc2, d) \<longrightarrow>
           encodeTagValues c p info name (k_Key ke) (k_TagValueIterator ke) tenc2 (emit w1 bs d) =
             Return (Some e, tenc3, w3) \<longrightarrow>
           encodeTagKeys c p info name (kpre @ ke # kpost) tenc w = Return (Some e, tenc3, w3)))
   \<and> (encodeTagKeys c p (st_info st) name (fst (TagKeyIterator c p name)) (NewTagBlockEncoder c)
          (st_w st) = Return (Some e, tenc1, w1) \<longrightarrow>
        writeTagsetTo c p name st = Return (Some e, st\<lparr>st_w := w1\<rparr>))
   \<and> (encodeTagKeys c p (st_info st) name (fst (TagKeyIterator c p name)) (NewTagBlockEncoder c)
          (st_w st) = Return (None, tenc1, w1) \<longrightarrow>
        TagBlockEncoder_Close c tenc1 (w_dev w1) = (bs, Some e, tenc2, d) \<longrightarrow>
        writeTagsetTo c p name st =
          Return (Some e, st\<lparr>st_w := emit w1 bs d, st_n := st_n st + TagBlockEncoder_N c tenc2\<rparr>))
   \<and> (writeTagsetsLoop c p mpre st = Return (None, sta) \<longrightarrow>
        writeTagsetTo c p (m_Name m) sta = Return (Some e, stb) \<longrightarrow>
        writeTagsetsLoop c p (mpre @ m # mpost) st = Return (Some e, stb))
   \<and> (addMeasurements c p (st_info st) (MeasurementIterator c p) (NewMeasurementBlockWriter c) =
          Return mw \<longrightarrow>
        MeasurementBlockWriter_WriteTo c mw (w_dev (st_w st)) = (bs, nn, Some e, d) \<longrightarrow>
        writeMeasurementBlockTo c p st =
          Return (Some e, st\<lparr>st_w := emit (st_w st) bs d, st_n := st_n st + nn\<rparr>))"
proof (intro conjI impI)
  show "w_flushed w' = w_out w'" "\<exists>d. bufio_Flush c d = (None, w_dev w')"
    if "WriteTo c p sink = Return ((n, None), w')"
    using WriteTo_success_flushed [OF that] by simp_all
  show "w_flushed w' = []"
    "(\<forall>tw fl. WriteTo (replaceTrailerAndFlush tw fl c) p sink = Return ((n, Some e), w'))
       \<or> (\<exists>t d bs nn. IndexFileTrailer_WriteTo c t d = (bs, nn, Some e, w_dev w'))
       \<or> (\<exists>d. bufio_Flush c d = (Some e, w_dev w'))"
    if "WriteTo c p sink = Return ((n, Some e), w')"
    using WriteTo_error_origin [OF that] by simp_all
qed (rule WriteTo_magic_fails WriteTo_series_fails WriteTo_tagsets_fails
      WriteTo_measurements_fails WriteTo_trailer_fails WriteTo_flush encodeSeries_stops
      writeSeriesBlockTo_encode_fails writeSeriesBlockTo_close_fails encodeTagValues_stops
      encodeTagKeys_stops_at_key encodeTagKeys_stops_at_value writeTagsetTo_encode_fails
      writeTagsetTo_close_fails writeTagsetsLoop_stops writeMeasurementBlockTo_write_fails;
      assumption)+

lemma testWriteTo_short:
  "WriteTo testCollab [fileA, fileB] 10 =
     Return ((4, Some (ErrOther ''short write'')),
       \<lparr>w_out = ''TSI1cpu,ho'', w_flushed = [], w_dev = 0\<rparr>)"
  by code_simp

lemma test_writeTo_short:
  "writeTo testCollab (FileSignature testCollab) 3 = (''TSI'', 3, Some (ErrOther ''short write''), 0)"
  by code_simp

theorem errors_stop_WriteTo_witness:
  "WriteTo testCollab [fileA, fileB] 1000 =
     Return ((72, None),
       \<lparr>w_out = ''TSI1cpu,host=a;cpu,host=b;mem,host=a;host:a1b<.host:aG.cpuU:1<mem_8G4Qg='',
        w_flushed = ''TSI1cpu,host=a;cpu,host=b;mem,host=a;host:a1b<.host:aG.cpuU:1<mem_8G4Qg='',
        w_dev = 928\<rparr>)
   \<and> (\<exists>d. bufio_Flush testCollab d = (None, 928))
   \<and> WriteTo testCollab [fileA, fileB] 10 =
       Return ((4, Some (ErrOther ''short write'')),
         \<lparr>w_out = ''TSI1cpu,ho'', w_flushed = [], w_dev = 0\<rparr>)
   \<and> ((\<forall>tw fl. WriteTo (replaceTrailerAndFlush tw fl testCollab) [fileA, fileB] 10 =
           Return ((4, Some (ErrOther ''short write'')),
             \<lparr>w_out = ''TSI1cpu,ho'', w_flushed = [], w_dev = 0\<rparr>))
       \<or> (\<exists>t d bs nn. IndexFileTrailer_WriteTo testCollab t d =
             (bs, nn, Some (ErrOther ''short write''), 0))
       \<or> (\<exists>d. bufio_Flush testCollab d = (Some (ErrOther ''short write''), 0)))
   \<and> writeTo testCollab (FileSignature testCollab) 3 =
       (''TSI'', 3, Some (ErrOther ''short write''), 0)
   \<and> WriteTo testCollab [fileA, fileB] 3 =
       Return ((3, Some (ErrOther ''short write'')), emit (bufio_NewWriter 3) ''TSI'' 0)"
proof -
  let ?p = "[fileA, fileB]"
  let ?ok = "\<lparr>w_out = ''TSI1cpu,host=a;cpu,host=b;mem,host=a;host:a1b<.host:aG.cpuU:1<mem_8G4Qg='',
        w_flushed = ''TSI1cpu,host=a;cpu,host=b;mem,host=a;host:a1b<.host:aG.cpuU:1<mem_8G4Qg='',
        w_dev = 928::nat\<rparr>"
  let ?short = "\<lparr>w_out = ''TSI1cpu,ho'', w_flushed = [], w_dev = 0::nat\<rparr>"
  from errors_stop_WriteTo [where c = testCollab and p = ?p and sink = 1000 and n = 72 and w' = ?ok,
      THEN conjunct1, THEN mp, OF testWriteTo]
  have 1: "\<exists>d. bufio_Flush testCollab d = (None, 928)" by simp
  from errors_stop_WriteTo [where c = testCollab and p = ?p and sink = 10 and n = 4 and w' = ?short
        and e = "ErrOther ''short write''",
      THEN conjunct2, THEN conjunct1, THEN mp, OF testWriteTo_short]
  have 2: "(\<forall>tw fl. WriteTo (replaceTrailerAndFlush tw fl testCollab) ?p 10 =
           Return ((4, Some (ErrOther ''short write'')), ?short))
       \<or> (\<exists>t d bs nn. IndexFileTrailer_WriteTo testCollab t d =
             (bs, nn, Some (ErrOther ''short write''), 0))
       \<or> (\<exists>d. bufio_Flush testCollab d = (Some (ErrOther ''short write''), 0))"
    by simp
  from errors_stop_WriteTo [where c = testCollab and p = ?p and sink = 3 and bs0 = "''TSI''"
        and nn0 = 3 and d0 = 0 and e = "ErrOther ''short write''",
      THEN conjunct2, THEN conjunct2, THEN conjunct1, THEN mp, OF test_writeTo_short]
  have 3: "WriteTo testCollab ?p 3 =
       Return ((3, Some (ErrOther ''short write'')), emit (bufio_NewWriter 3) ''TSI'' 0)" .
  from testWriteTo 1 testWriteTo_short 2 test_writeTo_short 3 show ?thesis by (intro conjI)
qed

section \<open>The layout of the output\<close>

lemma written_extends: "extends (st_w sa) (st_w sb) \<Longrightarrow> w_out (st_w sb) = w_out (st_w sa) @ written sa sb"
  by (auto simp: extends_def written_def)

lemma tagsetRuns_chain:
  "writeTagsetsLoop c p ms st = Return (None, st') \<Longrightarrow>
   length (tagsetRuns c p ms st) = length ms
   \<and> (\<forall>i<length ms. writeTagsetTo c p (m_Name (ms ! i)) (fst (tagsetRuns c p ms st ! i)) =
          Return (None, snd (tagsetRuns c p ms st ! i)))
   \<and> (\<forall>i<length ms. fst (tagsetRuns c p ms st ! i) =
          (if i = 0 then st else snd (tagsetRuns c p ms st ! (i - 1))))
   \<and> st' = (if ms = [] then st else snd (last (tagsetRuns c p ms st)))"
proof (induction ms arbitrary: st)
  case Nil
  then show ?case by simp
next
  case (Cons m ms)
  from Cons.prems obtain st1 where
    t: "writeTagsetTo c p (m_Name m) st = Return (None, st1)"
    and r: "writeTagsetsLoop c p ms st1 = Return (None, st')"
    by (auto split: outcome.splits prod.splits option.splits)
  note ih = Cons.IH [OF r]
  from ih have ih1: "length (tagsetRuns c p ms st1) = length ms" by (rule conjunct1)
  from ih have ih2: "\<And>i. i < length ms \<Longrightarrow>
      writeTagsetTo c p (m_Name (ms ! i)) (fst (tagsetRuns c p ms st1 ! i)) =
        Return (None, snd (tagsetRuns c p ms st1 ! i))" by blast
  from ih have ih3: "\<And>i. i < length ms \<Longrightarrow> fst (tagsetRuns c p ms st1 ! i) =
          (if i = 0 then st1 else snd (tagsetRuns c p ms st1 ! (i - 1)))" by blast
  from ih have ih4: "st' = (if ms = [] then st1 else snd (last (tagsetRuns c p ms st1)))" by blast
  have runs: "tagsetRuns c p (m # ms) st = (st, st1) # tagsetRuns c p ms st1"
    using t by simp
  have 1: "length (tagsetRuns c p (m # ms) st) = length (m # ms)"
    using ih1 by (simp add: runs del: tagsetRuns.simps)
  have 2: "writeTagsetTo c p (m_Name ((m # ms) ! i)) (fst (tagsetRuns c p (m # ms) st ! i)) =
          Return (None, snd (tagsetRuns c p (m # ms) st ! i))" if "i < length (m # ms)" for i
  proof (cases i)
    case 0
    with t show ?thesis by (simp add: runs del: tagsetRuns.simps)
  next
    case (Suc j)
    with that have "j < length ms" by simp
    from ih2 [OF this] Suc show ?thesis by (simp add: runs del: tagsetRuns.simps)
  qed
  have 3: "fst (tagsetRuns c p (m # ms) st ! i) =
          (if i = 0 then st else snd (tagsetRuns c p (m # ms) st ! (i - 1)))" if "i < length (m # ms)" for i
  proof (cases i)
    case 0
    then show ?thesis by (simp add: runs del: tagsetRuns.simps)
  next
    case (Suc j)
    with that have j: "j < length ms" by simp
    from ih3 [OF j] Suc show ?thesis by (cases j) (simp_all add: runs del: tagsetRuns.simps)
  qed
  have 4: "st' = (if m # ms = [] then st else snd (last (tagsetRuns c p (m # ms) st)))"
  proof (cases "ms = []")
    case True
    with r runs show ?thesis by simp
  next
    case False
    with ih1 have "tagsetRuns c p ms st1 \<noteq> []" by auto
    with ih4 False show ?thesis by (simp add: runs del: tagsetRuns.simps)
  qed
  from 1 2 3 4 show ?case by blast
qed

lemma tagsetRuns_written:
  "writeTagsetsLoop c p ms st = Return (None, st') \<Longrightarrow>
   w_out (st_w st') = w_out (st_w st) @ concat (map (\<lambda>(sa, sb). written sa sb) (tagsetRuns c p ms st))"
proof (induction ms arbitrary: st)
  case Nil
  then show ?case by simp
next
  case (Cons m ms)
  from Cons.prems obtain st1 where
    t: "writeTagsetTo c p (m_Name m) st = Return (None, st1)"
    and r: "writeTagsetsLoop c p ms st1 = Return (None, st')"
    by (auto split: outcome.splits prod.splits option.splits)
  from written_extends [OF writeTagsetTo_extends [OF t]] Cons.IH [OF r] t
  show ?case by simp
qed

lemma tagsetRuns_count:
  "writeTagsetsLoop c p ms st = Return (None, st') \<Longrightarrow>
   st_n st' = st_n st + sum_list (map (\<lambda>(sa, sb). st_n sb - st_n sa) (tagsetRuns c p ms st))"
proof (induction ms arbitrary: st)
  case Nil
  then show ?case by simp
next
  case (Cons m ms)
  from Cons.prems obtain st1 where
    t: "writeTagsetTo c p (m_Name m) st = Return (None, st1)"
    and r: "writeTagsetsLoop c p ms st1 = Return (None, st')"
    by (auto split: outcome.splits prod.splits option.splits)
  from Cons.IH [OF r] t show ?case by simp
qed

lemma WriteTo_stages_out:
  fixes c :: "('senc, 'tenc, 'mw, 'd) Collab"
  assumes s: "WriteTo_stages c p sink bs0 nn0 d0 st1 st2 st3 bs4 nn4 d4"
  shows "w_out (st_w st1) = bs0 @ written (afterMagic sink bs0 nn0 d0) st1"
    and "w_out (st_w st2) = w_out (st_w st1) @
           concat (map (\<lambda>(sa, sb). written sa sb) (tagsetRuns c p (MeasurementIterator c p) st1))"
    and "w_out (st_w st3) = w_out (st_w st2) @ written st2 st3"
    and "w_flushed (st_w st3) = []"
proof -
  from s have 1: "writeSeriesBlockTo c p (afterMagic sink bs0 nn0 d0) = (None, st1)"
    and 2: "writeTagsetsTo c p st1 = Return (None, st2)"
    and 3: "writeMeasurementBlockTo c p st2 = Return (None, st3)"
    by (simp_all add: WriteTo_stages_def)
  from written_extends [OF writeSeriesBlockTo_extends [OF 1]]
  show "w_out (st_w st1) = bs0 @ written (afterMagic sink bs0 nn0 d0) st1"
    by (simp add: afterMagic_simps)
  from 2 show "w_out (st_w st2) = w_out (st_w st1) @
           concat (map (\<lambda>(sa, sb). written sa sb) (tagsetRuns c p (MeasurementIterator c p) st1))"
    unfolding writeTagsetsTo_def by (rule tagsetRuns_written)
  from written_extends [OF writeMeasurementBlockTo_extends [OF 3]]
  show "w_out (st_w st3) = w_out (st_w st2) @ written st2 st3" .
  from writeSeriesBlockTo_extends [OF 1] writeTagsetsTo_extends [OF 2]
    writeMeasurementBlockTo_extends [OF 3]
  show "w_flushed (st_w st3) = []"
    by (simp add: extends_def afterMagic_simps)
qed

text \<open>C2.  When \<^verbatim>\<open>WriteTo\<close> returns a \<^verbatim>\<open>nil\<close> error, what has been flushed to the sink is,
  in this order and with nothing between: the bytes the signature write accepted (the
  signature itself, a successful write having written all of its buffer); the bytes pass 1
  wrote, the series block; for each measurement of the merged measurement iterator, in the
  iterator's order, the bytes its call of \<^verbatim>\<open>writeTagsetTo\<close> wrote, each call starting where the
  one before ended, the first after the series block; the bytes pass 3 wrote, the measurement
  block; and the bytes of the trailer.\<close>

theorem WriteTo_layout:
  fixes c :: "('senc, 'tenc, 'mw, 'd) Collab"
  assumes r: "WriteTo c p sink = Return ((n, None), w')"
  shows
    "\<exists>bs0 nn0 d0 st1 st2 st3 bs4 nn4 d4.
        WriteTo_stages c p sink bs0 nn0 d0 st1 st2 st3 bs4 nn4 d4
        \<and> w_flushed w' =
            bs0 @ written (afterMagic sink bs0 nn0 d0) st1
              @ concat (map (\<lambda>(sa, sb). written sa sb)
                          (tagsetRuns c p (MeasurementIterator c p) st1))
              @ written st2 st3 @ bs4
        \<and> length (tagsetRuns c p (MeasurementIterator c p) st1) = length (MeasurementIterator c p)
        \<and> (\<forall>i<length (MeasurementIterator c p).
              writeTagsetTo c p (m_Name (MeasurementIterator c p ! i))
                (fst (tagsetRuns c p (MeasurementIterator c p) st1 ! i)) =
              Return (None, snd (tagsetRuns c p (MeasurementIterator c p) st1 ! i)))
        \<and> (\<forall>i<length (MeasurementIterator c p).
              fst (tagsetRuns c p (MeasurementIterator c p) st1 ! i) =
              (if i = 0 then st1 else snd (tagsetRuns c p (MeasurementIterator c p) st1 ! (i - 1))))
        \<and> st2 = (if MeasurementIterator c p = [] then st1
                  else snd (last (tagsetRuns c p (MeasurementIterator c p) st1)))
        \<and> (writeToAcceptsAll c \<longrightarrow> bs0 = FileSignature c)"
proof -
  from r obtain bs0 nn0 d0 st1 st2 st3 bs4 nn4 d4 where
    s: "WriteTo_stages c p sink bs0 nn0 d0 st1 st2 st3 bs4 nn4 d4"
    and f: "Flush c (emit (st_w st3) bs4 d4) = (None, w')"
    unfolding WriteTo_success_iff by blast
  from Flush_None [OF f] WriteTo_stages_out(1-3) [OF s]
  have o: "w_flushed w' =
            bs0 @ written (afterMagic sink bs0 nn0 d0) st1
              @ concat (map (\<lambda>(sa, sb). written sa sb)
                          (tagsetRuns c p (MeasurementIterator c p) st1))
              @ written st2 st3 @ bs4"
    by (simp add: emit_simps)
  from s have "writeTagsetsLoop c p (MeasurementIterator c p) st1 = Return (None, st2)"
    by (simp add: WriteTo_stages_def writeTagsetsTo_def)
  note ch = tagsetRuns_chain [OF this]
  from s have a: "writeToAcceptsAll c \<longrightarrow> bs0 = FileSignature c"
    unfolding WriteTo_stages_def writeToAcceptsAll_def by blast
  note main = conjI [OF s conjI [OF o conjI [OF ch [THEN conjunct1]
    conjI [OF ch [THEN conjunct2, THEN conjunct1]
    conjI [OF ch [THEN conjunct2, THEN conjunct2, THEN conjunct1]
    conjI [OF ch [THEN conjunct2, THEN conjunct2, THEN conjunct2] a]]]]]]
  show ?thesis
    by (rule exI)+ (rule main)
qed

lemma test_writeToAcceptsAll: "writeToAcceptsAll testCollab"
  by (auto simp: writeToAcceptsAll_def testCollab_def sinkWrite_def split: if_splits)

lemma test_writeTo_magic:
  "writeTo testCollab (FileSignature testCollab) 1000 = (''TSI1'', 4, None, 996)"
  by code_simp

lemma testMeasurementIterator_length: "length (MeasurementIterator testCollab [fileA, fileB]) = 2"
  by code_simp

lemma testBlocks:
  "written (afterMagic 1000 ''TSI1'' 4 996)
     (snd (writeSeriesBlockTo testCollab [fileA, fileB] (afterMagic 1000 ''TSI1'' 4 996))) =
   ''cpu,host=a;cpu,host=b;mem,host=a;''"
  "map (\<lambda>(sa, sb). written sa sb)
     (tagsetRuns testCollab [fileA, fileB] (MeasurementIterator testCollab [fileA, fileB])
        (snd (writeSeriesBlockTo testCollab [fileA, fileB] (afterMagic 1000 ''TSI1'' 4 996)))) =
   [''host:a1b<.'', ''host:aG.'']"
  by code_simp+

theorem WriteTo_layout_witness:
  "WriteTo testCollab [fileA, fileB] 1000 =
     Return ((72, None),
       \<lparr>w_out = ''TSI1cpu,host=a;cpu,host=b;mem,host=a;host:a1b<.host:aG.cpuU:1<mem_8G4Qg='',
        w_flushed = ''TSI1cpu,host=a;cpu,host=b;mem,host=a;host:a1b<.host:aG.cpuU:1<mem_8G4Qg='',
        w_dev = 928\<rparr>)
   \<and> writeToAcceptsAll testCollab
   \<and> (\<exists>(st1 :: (testSeriesEncoder, nat) cstate) (st2 :: (testSeriesEncoder, nat) cstate)
          (st3 :: (testSeriesEncoder, nat) cstate) bs4.
         st1 = snd (writeSeriesBlockTo testCollab [fileA, fileB] (afterMagic 1000 ''TSI1'' 4 996))
         \<and> ''TSI1cpu,host=a;cpu,host=b;mem,host=a;host:a1b<.host:aG.cpuU:1<mem_8G4Qg='' =
             ''TSI1'' @ ''cpu,host=a;cpu,host=b;mem,host=a;''
               @ concat [''host:a1b<.'', ''host:aG.''] @ written st2 st3 @ bs4
         \<and> length (tagsetRuns testCollab [fileA, fileB]
               (MeasurementIterator testCollab [fileA, fileB]) st1) = 2)"
proof -
  let ?p = "[fileA, fileB]"
  from WriteTo_layout [OF testWriteTo] obtain bs0 nn0 d0 st1 st2 st3 bs4 nn4 d4 where
    s: "WriteTo_stages testCollab ?p 1000 bs0 nn0 d0 st1 st2 st3 bs4 nn4 d4"
    and o: "''TSI1cpu,host=a;cpu,host=b;mem,host=a;host:a1b<.host:aG.cpuU:1<mem_8G4Qg='' =
            bs0 @ written (afterMagic 1000 bs0 nn0 d0) st1
              @ concat (map (\<lambda>(sa, sb). written sa sb)
                          (tagsetRuns testCollab ?p (MeasurementIterator testCollab ?p) st1))
              @ written st2 st3 @ bs4"
    and l: "length (tagsetRuns testCollab ?p (MeasurementIterator testCollab ?p) st1) =
              length (MeasurementIterator testCollab ?p)"
    by (simp only: Writer.simps) blast
  from s test_writeTo_magic have m: "bs0 = ''TSI1''" "nn0 = 4" "d0 = 996"
    by (simp_all add: WriteTo_stages_def)
  from s have "writeSeriesBlockTo testCollab ?p (afterMagic 1000 bs0 nn0 d0) = (None, st1)"
    by (simp add: WriteTo_stages_def)
  then have st1: "st1 = snd (writeSeriesBlockTo testCollab ?p (afterMagic 1000 ''TSI1'' 4 996))"
    by (simp add: m)
  from o have o': "''TSI1cpu,host=a;cpu,host=b;mem,host=a;host:a1b<.host:aG.cpuU:1<mem_8G4Qg='' =
             ''TSI1'' @ ''cpu,host=a;cpu,host=b;mem,host=a;''
               @ concat [''host:a1b<.'', ''host:aG.''] @ written st2 st3 @ bs4"
    unfolding m st1 testBlocks .
  from l have l': "length (tagsetRuns testCollab ?p (MeasurementIterator testCollab ?p) st1) = 2"
    by (simp only: testMeasurementIterator_length)
  have "\<exists>(st1 :: (testSeriesEncoder, nat) cstate) (st2 :: (testSeriesEncoder, nat) cstate)
          (st3 :: (testSeriesEncoder, nat) cstate) bs4.
         st1 = snd (writeSeriesBlockTo testCollab [fileA, fileB] (afterMagic 1000 ''TSI1'' 4 996))
         \<and> ''TSI1cpu,host=a;cpu,host=b;mem,host=a;host:a1b<.host:aG.cpuU:1<mem_8G4Qg='' =
             ''TSI1'' @ ''cpu,host=a;cpu,host=b;mem,host=a;''
               @ concat [''host:a1b<.'', ''host:aG.''] @ written st2 st3 @ bs4
         \<and> length (tagsetRuns testCollab [fileA, fileB]
               (MeasurementIterator testCollab [fileA, fileB]) st1) = 2"
    by (rule exI)+ (rule conjI [OF st1 conjI [OF o' l']])
  with testWriteTo test_writeToAcceptsAll show ?thesis by (intro conjI)
qed

end
